(* ===== verification/Prelude.thy ===== *)
theory Prelude
  imports Complex_Main
begin

text \<open>
  Shared vocabulary of the gripper-viewer development: the types that name the
  model's values, the JavaScript built-ins the viewer calls (\<open>Math.min\<close>/\<open>Math.max\<close>
  clamping, \<open>Math.round\<close>, array reads, \<open>indexOf\<close>, \<open>String(n)\<close> and
  \<open>Number.prototype.toFixed(1)\<close>), three-component vectors for positions, and the
  generic lemmas about them that the component theories use through \<open>simp\<close>.
  JavaScript numbers are modelled as exact reals; JavaScript strings as lists of
  UTF-16 code units restricted to the Latin-1 range, which is what \<open>char\<close> holds.
\<close>

named_theorems js_simps "evaluation rules of the modelled JavaScript built-ins"

type_synonym file_name = string
type_synonym size_name = string
type_synonym token = nat
type_synonym vec3 = "real \<times> real \<times> real"

subsection \<open>JavaScript built-ins\<close>

text \<open>\<open>Math.min(Math.max(x, lo), hi)\<close>.\<close>

definition js_clamp :: "int \<Rightarrow> int \<Rightarrow> int \<Rightarrow> int" where
  "js_clamp lo hi x = min (max x lo) hi"

text \<open>\<open>Math.round\<close> rounds half-way cases towards \<open>+\<infinity>\<close>.\<close>

definition js_round :: "real \<Rightarrow> int" where
  "js_round x = \<lfloor>x + 1/2\<rfloor>"

text \<open>\<open>xs[i]\<close> on an array: \<open>undefined\<close> (here \<open>None\<close>) outside \<open>0 .. length - 1\<close>.\<close>

definition js_get :: "'a list \<Rightarrow> int \<Rightarrow> 'a option" where
  "js_get xs i = (if 0 \<le> i \<and> i < int (length xs) then Some (xs ! nat i) else None)"

text \<open>\<open>xs.indexOf(x)\<close>: the first index, or \<open>-1\<close>.\<close>

fun index_of :: "'a list \<Rightarrow> 'a \<Rightarrow> int" where
  "index_of [] x = -1"
| "index_of (y # ys) x = (if y = x then 0 else (let i = index_of ys x in if i = -1 then -1 else i + 1))"

text \<open>Decimal digits of a natural number, as \<open>String(n)\<close> prints it.\<close>

definition decimal_digits :: string where
  "decimal_digits = ''0123456789''"

definition digit_char :: "nat \<Rightarrow> char" where
  "digit_char d = decimal_digits ! d"

fun show_nat :: "nat \<Rightarrow> string" where
  "show_nat n = (if n < 10 then [digit_char n] else show_nat (n div 10) @ [digit_char (n mod 10)])"

definition show_int :: "int \<Rightarrow> string" where
  "show_int i = (if i < 0 then ''-'' @ show_nat (nat (- i)) else show_nat (nat i))"

text \<open>
  \<open>x.toFixed(1)\<close> for a finite \<open>x\<close>: the integer \<open>n\<close> nearest to \<open>10 x\<close>, the larger one
  on a tie, printed with one decimal; a negative \<open>x\<close> is printed as \<open>-\<close> and the
  rounding of \<open>-x\<close>. (Values of magnitude \<open>10\<^sup>2\<^sup>1\<close> and more, which \<open>toFixed\<close> prints
  in exponent notation, do not occur in the viewer and are not modelled.)
\<close>

definition to_fixed1 :: "real \<Rightarrow> string" where
  "to_fixed1 x =
     (let n = nat \<lfloor>\<bar>x\<bar> * 10 + 1/2\<rfloor>
      in (if x < 0 then ''-'' else []) @ show_nat (n div 10) @ ''.'' @ [digit_char (n mod 10)])"

subsection \<open>Vectors\<close>

definition vadd :: "vec3 \<Rightarrow> vec3 \<Rightarrow> vec3" where
  "vadd a b = (case (a, b) of ((x, y, z), (x', y', z')) \<Rightarrow> (x + x', y + y', z + z'))"

definition vsub :: "vec3 \<Rightarrow> vec3 \<Rightarrow> vec3" where
  "vsub a b = (case (a, b) of ((x, y, z), (x', y', z')) \<Rightarrow> (x - x', y - y', z - z'))"

text \<open>\<open>v.addScaledVector(a, k)\<close>.\<close>

definition add_scaled :: "vec3 \<Rightarrow> vec3 \<Rightarrow> real \<Rightarrow> vec3" where
  "add_scaled v a k = (case (v, a) of ((x, y, z), (ax, ay, az)) \<Rightarrow> (x + k * ax, y + k * ay, z + k * az))"

definition vmin :: "vec3 \<Rightarrow> vec3 \<Rightarrow> vec3" where
  "vmin a b = (case (a, b) of ((x, y, z), (x', y', z')) \<Rightarrow> (min x x', min y y', min z z'))"

definition vmax :: "vec3 \<Rightarrow> vec3 \<Rightarrow> vec3" where
  "vmax a b = (case (a, b) of ((x, y, z), (x', y', z')) \<Rightarrow> (max x x', max y y', max z z'))"

definition vx :: "vec3 \<Rightarrow> real" where
  "vx v = fst v"

declare js_clamp_def [js_simps] js_round_def [js_simps] js_get_def [js_simps]
  decimal_digits_def [js_simps] digit_char_def [js_simps] vadd_def [js_simps] vsub_def [js_simps]
  add_scaled_def [js_simps] vmin_def [js_simps] vmax_def [js_simps] vx_def [js_simps]

subsection \<open>Lemmas on the built-ins\<close>

lemma js_clamp_bounds [simp]:
  "lo \<le> hi \<Longrightarrow> lo \<le> js_clamp lo hi x \<and> js_clamp lo hi x \<le> hi"
  by (simp add: js_clamp_def)

lemma js_clamp_id [simp]: "lo \<le> x \<Longrightarrow> x \<le> hi \<Longrightarrow> js_clamp lo hi x = x"
  by (simp add: js_clamp_def)

lemma js_get_Some_iff: "js_get xs i = Some v \<longleftrightarrow> 0 \<le> i \<and> i < int (length xs) \<and> xs ! nat i = v"
  by (auto simp: js_get_def)

lemma js_get_None_iff: "js_get xs i = None \<longleftrightarrow> i < 0 \<or> int (length xs) \<le> i"
  by (auto simp: js_get_def)

lemma index_of_found:
  "x \<in> set xs \<Longrightarrow> 0 \<le> index_of xs x \<and> index_of xs x < int (length xs) \<and> xs ! nat (index_of xs x) = x"
proof (induction xs)
  case Nil
  then show ?case by simp
next
  case (Cons y ys)
  show ?case
  proof (cases "y = x")
    case True
    then show ?thesis by simp
  next
    case False
    with Cons.prems have "x \<in> set ys" by simp
    with Cons.IH have ih: "0 \<le> index_of ys x \<and> index_of ys x < int (length ys) \<and> ys ! nat (index_of ys x) = x"
      by blast
    then have "nat (index_of ys x + 1) = Suc (nat (index_of ys x))" by (simp add: nat_add_distrib)
    with False ih show ?thesis by (simp add: Let_def)
  qed
qed

lemma index_of_absent: "x \<notin> set xs \<Longrightarrow> index_of xs x = -1"
  by (induction xs) (auto simp: Let_def)

lemma index_of_distinct_nth:
  "distinct xs \<Longrightarrow> i < length xs \<Longrightarrow> index_of xs (xs ! i) = int i"
proof (induction xs arbitrary: i)
  case Nil
  then show ?case by simp
next
  case (Cons y ys)
  show ?case
  proof (cases i)
    case 0
    then show ?thesis by simp
  next
    case (Suc j)
    with Cons.prems have j: "j < length ys" and nin: "ys ! j \<noteq> y" and d: "distinct ys"
      by (auto simp: nth_mem)
    from Cons.IH [OF d j] have "index_of ys (ys ! j) = int j" .
    with Suc nin show ?thesis by (simp add: Let_def)
  qed
qed

lemma js_round_mono: "x \<le> y \<Longrightarrow> js_round x \<le> js_round y"
  by (simp add: js_round_def floor_mono)

lemma digit_char_digit: "d < 10 \<Longrightarrow> digit_char d \<in> set decimal_digits"
  unfolding digit_char_def by (rule nth_mem) (simp add: decimal_digits_def)

lemma show_nat_nonempty [simp]: "show_nat n \<noteq> []"
  by (subst show_nat.simps) simp

lemma show_nat_digits: "set (show_nat n) \<subseteq> set decimal_digits"
proof (induction n rule: show_nat.induct)
  case (1 n)
  show ?case
  proof (cases "n < 10")
    case True
    then show ?thesis by (subst show_nat.simps) (simp add: digit_char_digit)
  next
    case False
    with "1.IH" have "set (show_nat (n div 10)) \<subseteq> set decimal_digits" by simp
    moreover have "digit_char (n mod 10) \<in> set decimal_digits" by (rule digit_char_digit) simp
    ultimately show ?thesis using False by (subst show_nat.simps) simp
  qed
qed

lemma find_append_eq: "find P (xs @ ys) = (case find P xs of None \<Rightarrow> find P ys | Some x \<Rightarrow> Some x)"
  by (induction xs) auto

lemma find_SomeD: "find P xs = Some x \<Longrightarrow> x \<in> set xs \<and> P x"
  by (auto simp: find_Some_iff)

declare show_nat.simps [simp del]

end
