(* ===== verification/Catalog.thy ===== *)
theory Catalog
  imports Prelude "HOL-Library.Multiset"
begin

text \<open>
  The asset catalogue of \<open>src/static/js/gripper-viewer.js\<close>: the static tables the
  rest of the viewer reads (\<open>SIZES\<close>, \<open>PARTS\<close>, \<open>COMPONENT_GROUPS\<close>,
  \<open>LEFT_FINGER_PARTS\<close>, \<open>RIGHT_FINGER_PARTS\<close>, \<open>FRUIT_CONFIG\<close>, \<open>TACTILE_STEPS\<close>), the
  URL conventions of the mesh files, and the facts about the tables that the
  components rely on: the part files are distinct, the checklist's groups
  partition the parts, and the finger sets are the two finger groups.
\<close>

record part =
  part_file :: file_name
  part_label :: string
  part_color :: string

definition SIZES :: "size_name list" where
  "SIZES = [''1.0'', ''1.1'', ''1.2'', ''1.3'', ''1.4'', ''1.5'', ''1.6'', ''1.7'', ''1.8'', ''1.9'', ''2.0'']"

definition PARTS :: "part list" where
  "PARTS = [
    \<lparr>part_file = ''Prints_base'', part_label = ''Base'', part_color = ''#cbd5e1''\<rparr>,
    \<lparr>part_file = ''Prints_motor_mount'', part_label = ''Motor mount'', part_color = ''#b6c1d1''\<rparr>,
    \<lparr>part_file = ''Prints_motor_link'', part_label = ''Motor link'', part_color = ''#a7b3c4''\<rparr>,
    \<lparr>part_file = ''Prints_fingerRack'', part_label = ''Finger rack (left)'', part_color = ''#97a4b8''\<rparr>,
    \<lparr>part_file = ''Prints_fingerRack.001'', part_label = ''Finger rack (right)'', part_color = ''#8795aa''\<rparr>,
    \<lparr>part_file = ''Prints_gear'', part_label = ''Gear'', part_color = ''#76869c''\<rparr>,
    \<lparr>part_file = ''Prints_camera_housing'', part_label = ''Camera housing'', part_color = ''#6b7c92''\<rparr>,
    \<lparr>part_file = ''Prints_led_cap'', part_label = ''LED cap (left)'', part_color = ''#5f7188''\<rparr>,
    \<lparr>part_file = ''Prints_led_cap.001'', part_label = ''LED cap (right)'', part_color = ''#55677f''\<rparr>,
    \<lparr>part_file = ''Optical_shell_locked'', part_label = ''Optical shell (left)'', part_color = ''#8fa2b9''\<rparr>,
    \<lparr>part_file = ''Optical_shell_locked.001'', part_label = ''Optical shell (right)'', part_color = ''#8094ac''\<rparr>,
    \<lparr>part_file = ''Optical_led'', part_label = ''Optical LED (left)'', part_color = ''#22d3ee''\<rparr>,
    \<lparr>part_file = ''Optical_led.001'', part_label = ''Optical LED (right)'', part_color = ''#0ea5e9''\<rparr>,
    \<lparr>part_file = ''Optical_pad'', part_label = ''Optical pad (left)'', part_color = ''#aebfd1''\<rparr>,
    \<lparr>part_file = ''Optical_pad.001'', part_label = ''Optical pad (right)'', part_color = ''#9fb1c4''\<rparr>]"

text \<open>\<open>COMPONENT_GROUPS\<close>, in the order \<open>Object.entries\<close> lists it.\<close>

definition COMPONENT_GROUPS :: "(string \<times> file_name list) list" where
  "COMPONENT_GROUPS = [
    (''Left finger'', [''Prints_fingerRack'', ''Prints_led_cap'', ''Optical_shell_locked.001'',
                       ''Optical_led'', ''Optical_pad'']),
    (''Right finger'', [''Prints_fingerRack.001'', ''Prints_led_cap.001'', ''Optical_shell_locked'',
                        ''Optical_led.001'', ''Optical_pad.001'']),
    (''Base'', [''Prints_base'', ''Prints_motor_mount'', ''Prints_motor_link'', ''Prints_gear'',
                ''Prints_camera_housing''])]"

definition LEFT_FINGER_PARTS :: "file_name set" where
  "LEFT_FINGER_PARTS = set [''Optical_led'', ''Prints_led_cap'', ''Optical_pad'',
                            ''Prints_fingerRack'', ''Optical_shell_locked.001'']"

definition RIGHT_FINGER_PARTS :: "file_name set" where
  "RIGHT_FINGER_PARTS = set [''Optical_led.001'', ''Prints_led_cap.001'', ''Optical_shell_locked'',
                             ''Optical_pad.001'', ''Prints_fingerRack.001'']"

text \<open>The two reference fruits and \<open>FRUIT_CONFIG\<close>.\<close>

datatype fruit = Strawberry | Apple

record fruit_config =
  objPath :: string
  mtlPath :: string
  texturePath :: string
  scale :: real
  targetSize :: size_name
  fruitLabel :: string
  yOffset :: real
  fallbackColor :: int

fun FRUIT_CONFIG :: "fruit \<Rightarrow> fruit_config" where
  "FRUIT_CONFIG Strawberry =
     \<lparr>objPath = ''mesh_strawberry/Strawberry_ST3E1WL.obj'',
      mtlPath = ''mesh_strawberry/Strawberry_ST3E1WL.mtl'',
      texturePath = ''mesh_strawberry/Strawberry_ST3E1WL/Strawberry_MatSG_baseColor.png'',
      scale = 0.005, targetSize = ''1.0'', fruitLabel = ''Strawberry (reference)'',
      yOffset = 0.025, fallbackColor = 0xe63946\<rparr>"
| "FRUIT_CONFIG Apple =
     \<lparr>objPath = ''mesh_apple/apple_ST8R5TY.obj'',
      mtlPath = ''mesh_apple/apple_ST8R5TY.mtl'',
      texturePath = ''mesh_apple/apple_ST8R5TY/red_apple_Mat_baseColor.png'',
      scale = 0.01, targetSize = ''2.0'', fruitLabel = ''Apple (reference)'',
      yOffset = 0.04, fallbackColor = 0xc1121f\<rparr>"

definition TACTILE_RENDER_BASE :: string where
  "TACTILE_RENDER_BASE = ''tactile_render/output''"

text \<open>\<open>Array.from({length: 10}, (_, index) => (index + 1) * 4)\<close>.\<close>

definition TACTILE_STEPS :: "nat list" where
  "TACTILE_STEPS = map (\<lambda>index. (index + 1) * 4) [0..<10]"

text \<open>The URL of one part's mesh for one size, as \<open>loadPart\<close> and \<open>prefetchSizeAssets\<close> build it.\<close>

definition part_url :: "size_name \<Rightarrow> file_name \<Rightarrow> string" where
  "part_url sz f = ''GripGen/output/'' @ sz @ ''/objs/'' @ f @ ''.obj''"

definition pad_url :: "size_name \<Rightarrow> string" where
  "pad_url sz = ''GripGen/output/'' @ sz @ ''/pad_dimensions.txt''"

definition part_files :: "file_name list" where
  "part_files = map part_file PARTS"

lemmas catalog_defs = SIZES_def PARTS_def COMPONENT_GROUPS_def LEFT_FINGER_PARTS_def
  RIGHT_FINGER_PARTS_def TACTILE_STEPS_def part_files_def

subsection \<open>Facts about the tables\<close>

lemma part_files_distinct: "distinct part_files"
  by (simp add: part_files_def PARTS_def)

lemma length_PARTS [simp]: "length PARTS = 15"
  by (simp add: PARTS_def)

lemma length_SIZES [simp]: "length SIZES = 11"
  by (simp add: SIZES_def)

lemma SIZES_distinct: "distinct SIZES"
  by (simp add: SIZES_def)

lemma finger_parts_disjoint: "LEFT_FINGER_PARTS \<inter> RIGHT_FINGER_PARTS = {}"
  by (simp add: LEFT_FINGER_PARTS_def RIGHT_FINGER_PARTS_def)

lemma finger_parts_are_parts: "LEFT_FINGER_PARTS \<subseteq> set part_files" "RIGHT_FINGER_PARTS \<subseteq> set part_files"
  by (simp_all add: LEFT_FINGER_PARTS_def RIGHT_FINGER_PARTS_def part_files_def PARTS_def)

lemma TACTILE_STEPS_eq: "TACTILE_STEPS = [4, 8, 12, 16, 20, 24, 28, 32, 36, 40]"
  by (simp add: TACTILE_STEPS_def upt_rec)

lemma length_TACTILE_STEPS [simp]: "length TACTILE_STEPS = 10"
  by (simp add: TACTILE_STEPS_def)

subsection \<open>Properties of the tables\<close>

text \<open>
  The checklist's groups partition the parts: every part file of \<open>PARTS\<close> is listed
  in exactly one group, and the groups list nothing else.
\<close>

theorem groups_partition_parts: "mset (concat (map snd COMPONENT_GROUPS)) = mset part_files"
  by (simp add: COMPONENT_GROUPS_def part_files_def PARTS_def)

text \<open>
  The "Left finger" and "Right finger" groups of the checklist hold exactly the
  parts that \<open>collectFingerGroups\<close> moves with the left and the right finger.
\<close>

theorem finger_groups_are_finger_sets:
  "set (the (map_of COMPONENT_GROUPS ''Left finger'')) = LEFT_FINGER_PARTS \<and>
   set (the (map_of COMPONENT_GROUPS ''Right finger'')) = RIGHT_FINGER_PARTS"
  by (simp add: COMPONENT_GROUPS_def LEFT_FINGER_PARTS_def RIGHT_FINGER_PARTS_def insert_commute)

text \<open>
  The labels the checklist shows under "Left finger", in \<open>PARTS\<close> order: the shell
  that moves with the left finger is labelled "(right)", and the one labelled "(left)"
  (\<open>Optical_shell_locked\<close>) moves with the right finger.
\<close>

theorem left_finger_group_labels:
  "[part_label p. p \<leftarrow> PARTS, part_file p \<in> set (the (map_of COMPONENT_GROUPS ''Left finger''))] =
     [''Finger rack (left)'', ''LED cap (left)'', ''Optical shell (right)'', ''Optical LED (left)'', ''Optical pad (left)'']"
  by (simp add: COMPONENT_GROUPS_def PARTS_def)

end
