(* ===== verification/Scene.thy ===== *)
theory Scene
  imports Catalog
begin

text \<open>
  The scene state of \<open>gripper-viewer.js\<close>. Part objects live in an explicit store
  \<open>heap\<close> (an object is its index there), because the code keeps references to them
  in several places that outlive one another: \<open>group.children\<close>, the map
  \<open>componentObjects\<close>, and the arrays \<open>leftFinger\<close> and \<open>rightFinger\<close>, which still
  point at the previous size's objects after \<open>group.clear()\<close> until the next
  \<open>collectFingerGroups\<close>. An object keeps what the code reads and writes: the
  \<open>userData\<close> fields \<open>partFile\<close>, \<open>label\<close> and \<open>basePosition\<close>, \<open>visible\<close>,
  \<open>position\<close>, the size directory its mesh was fetched from, and the bounding box
  of its geometry in its own frame (\<open>None\<close> for an empty geometry). Objects are only
  translated (no rotation or scale), so their boxes in the world are their boxes
  shifted by the group's and their own position. The record also holds the text
  of the readouts the scene code writes. This theory has the group operations
  \<open>frameObject\<close>, the capture of base positions in \<open>loadSize\<close>, and
  \<open>collectFingerGroups\<close>.
\<close>

record obj =
  partFile :: file_name
  objLabel :: string
  meshSize :: size_name
  visible :: bool
  position :: vec3
  basePosition :: "vec3 option"
  bounds :: "(vec3 \<times> vec3) option"

type_synonym box = "vec3 \<times> vec3"

record scene =
  heap :: "obj list"
  children :: "nat list"
  componentObjects :: "file_name \<rightharpoonup> nat"
  componentVisibility :: "file_name \<rightharpoonup> bool"
  groupExpanded :: "string \<rightharpoonup> bool"
  groupPosition :: vec3
  leftFinger :: "nat list"
  rightFinger :: "nat list"
  fingerOpenDistance :: real
  sizeReadout :: string
  padDimsReadout :: string
  opennessText :: string
  tactileSrc :: string
  tactileAlt :: string

subsection \<open>Store operations\<close>

abbreviation obj_at :: "'a scene_scheme \<Rightarrow> nat \<Rightarrow> obj" where
  "obj_at s i \<equiv> heap s ! i"

definition update_obj :: "nat \<Rightarrow> (obj \<Rightarrow> obj) \<Rightarrow> 'a scene_scheme \<Rightarrow> 'a scene_scheme" where
  "update_obj i f s = (if i < length (heap s) then s\<lparr>heap := (heap s)[i := f (heap s ! i)]\<rparr> else s)"

text \<open>
  The last three statements of \<open>loadPart\<close>'s success branch for a fresh object:
  \<open>componentObjects.set(part.file, obj)\<close> and \<open>group.add(obj)\<close>.
\<close>

definition add_part_obj :: "obj \<Rightarrow> 'a scene_scheme \<Rightarrow> 'a scene_scheme" where
  "add_part_obj ob s =
     (let i = length (heap s)
      in s\<lparr>heap := heap s @ [ob],
           componentObjects := (componentObjects s)(partFile ob \<mapsto> i),
           children := children s @ [i]\<rparr>)"

subsection \<open>Boxes\<close>

definition box_union :: "box option \<Rightarrow> box option \<Rightarrow> box option" where
  "box_union a b =
     (case (a, b) of
        (None, _) \<Rightarrow> b
      | (_, None) \<Rightarrow> a
      | (Some (lo, hi), Some (lo', hi')) \<Rightarrow> Some (vmin lo lo', vmax hi hi'))"

text \<open>The world box of one object: its geometry box shifted by the group's and its own position.\<close>

definition world_box :: "'a scene_scheme \<Rightarrow> nat \<Rightarrow> box option" where
  "world_box s i =
     (case bounds (obj_at s i) of
        None \<Rightarrow> None
      | Some (lo, hi) \<Rightarrow>
          (let off = vadd (groupPosition s) (position (obj_at s i)) in Some (vadd off lo, vadd off hi)))"

text \<open>\<open>new Box3()\<close> expanded by every object of a list (\<open>None\<close> is the empty box).\<close>

definition boxes_of :: "'a scene_scheme \<Rightarrow> nat list \<Rightarrow> box option" where
  "boxes_of s ids = fold (\<lambda>i b. box_union b (world_box s i)) ids None"

definition dims_text :: "vec3 \<Rightarrow> string" where
  "dims_text v = (case v of (x, y, z) \<Rightarrow> to_fixed1 x @ '' x '' @ to_fixed1 y @ '' x '' @ to_fixed1 z)"

text \<open>
  \<open>frameObject\<close>: the box of the group; nothing when it is empty (its corners are
  not finite); otherwise the group is moved so that the box is centred on the
  origin and \<open>sizeReadout\<close> shows the box's size. (The camera and the orbit
  controls, which it also places, are presentation and not modelled.)
\<close>

definition frameObject :: "'a scene_scheme \<Rightarrow> 'a scene_scheme" where
  "frameObject s =
     (case boxes_of s (children s) of
        None \<Rightarrow> s
      | Some (lo, hi) \<Rightarrow>
          (let sz = vsub hi lo; center = (case (vadd lo hi) of (x, y, z) \<Rightarrow> (x / 2, y / 2, z / 2))
           in s\<lparr>groupPosition := vsub (groupPosition s) center, sizeReadout := dims_text sz\<rparr>))"

text \<open>\<open>group.traverse\<close> storing each direct child's position as its \<open>basePosition\<close>.\<close>

definition capture_base :: "'a scene_scheme \<Rightarrow> 'a scene_scheme" where
  "capture_base s = fold (\<lambda>i s. update_obj i (\<lambda>ob. ob\<lparr>basePosition := Some (position ob)\<rparr>) s) (children s) s"

text \<open>
  \<open>collectFingerGroups\<close>: the children split by \<open>LEFT_FINGER_PARTS\<close> and (else)
  \<open>RIGHT_FINGER_PARTS\<close>; the opening distance is the x-extent of the left finger's
  box, and stays \<open>0\<close> when either finger has no object.
\<close>

definition collectFingerGroups :: "'a scene_scheme \<Rightarrow> 'a scene_scheme" where
  "collectFingerGroups s =
     (let L = filter (\<lambda>i. partFile (obj_at s i) \<in> LEFT_FINGER_PARTS) (children s);
          R = filter (\<lambda>i. partFile (obj_at s i) \<notin> LEFT_FINGER_PARTS \<and> partFile (obj_at s i) \<in> RIGHT_FINGER_PARTS) (children s);
          s1 = s\<lparr>leftFinger := L, rightFinger := R, fingerOpenDistance := 0\<rparr>
      in if L = [] \<or> R = [] then s1
         else s1\<lparr>fingerOpenDistance :=
                   max (case boxes_of s1 L of None \<Rightarrow> 0 | Some (lo, hi) \<Rightarrow> vx hi - vx lo) 0\<rparr>)"

subsection \<open>Frame lemmas\<close>

lemma length_update_obj [simp]: "length (heap (update_obj i f s)) = length (heap s)"
  by (simp add: update_obj_def)

lemma update_obj_other [simp]:
  "children (update_obj i f s) = children s"
  "componentObjects (update_obj i f s) = componentObjects s"
  "componentVisibility (update_obj i f s) = componentVisibility s"
  "leftFinger (update_obj i f s) = leftFinger s"
  "rightFinger (update_obj i f s) = rightFinger s"
  "fingerOpenDistance (update_obj i f s) = fingerOpenDistance s"
  "groupPosition (update_obj i f s) = groupPosition s"
  "scene.more (update_obj i f s) = scene.more s"
  by (simp_all add: update_obj_def)

lemma obj_at_update_obj:
  "obj_at (update_obj i f s) j = (if i = j \<and> i < length (heap s) then f (obj_at s i) else obj_at s j)"
  by (auto simp: update_obj_def)

text \<open>Updating a list of objects with a function that does not read what it writes.\<close>

lemma fold_update_obj:
  assumes "\<And>ob. f (f ob) = f ob"
  shows "obj_at (fold (\<lambda>i s. update_obj i f s) ids s) j =
           (if j \<in> set ids \<and> j < length (heap s) then f (obj_at s j) else obj_at s j)"
proof (induction ids arbitrary: s)
  case Nil
  then show ?case by simp
next
  case (Cons i ids)
  show ?case using Cons.IH [of "update_obj i f s"] assms
    by (auto simp: obj_at_update_obj)
qed

lemma fold_update_obj_other [simp]:
  "length (heap (fold (\<lambda>i s. update_obj i f s) ids s)) = length (heap s)"
  "children (fold (\<lambda>i s. update_obj i f s) ids s) = children s"
  "componentObjects (fold (\<lambda>i s. update_obj i f s) ids s) = componentObjects s"
  "componentVisibility (fold (\<lambda>i s. update_obj i f s) ids s) = componentVisibility s"
  "leftFinger (fold (\<lambda>i s. update_obj i f s) ids s) = leftFinger s"
  "rightFinger (fold (\<lambda>i s. update_obj i f s) ids s) = rightFinger s"
  "fingerOpenDistance (fold (\<lambda>i s. update_obj i f s) ids s) = fingerOpenDistance s"
  "groupPosition (fold (\<lambda>i s. update_obj i f s) ids s) = groupPosition s"
  "scene.more (fold (\<lambda>i s. update_obj i f s) ids s) = scene.more s"
  by (induction ids arbitrary: s) simp_all

lemma capture_base_obj:
  "obj_at (capture_base s) j =
     (if j \<in> set (children s) \<and> j < length (heap s)
      then (obj_at s j)\<lparr>basePosition := Some (position (obj_at s j))\<rparr> else obj_at s j)"
  unfolding capture_base_def by (rule fold_update_obj) simp

lemma capture_base_other [simp]:
  "length (heap (capture_base s)) = length (heap s)"
  "children (capture_base s) = children s"
  "componentObjects (capture_base s) = componentObjects s"
  "componentVisibility (capture_base s) = componentVisibility s"
  "leftFinger (capture_base s) = leftFinger s"
  "rightFinger (capture_base s) = rightFinger s"
  "fingerOpenDistance (capture_base s) = fingerOpenDistance s"
  "scene.more (capture_base s) = scene.more s"
  by (simp_all add: capture_base_def)

lemma frameObject_other [simp]:
  "heap (frameObject s) = heap s"
  "children (frameObject s) = children s"
  "componentObjects (frameObject s) = componentObjects s"
  "componentVisibility (frameObject s) = componentVisibility s"
  "leftFinger (frameObject s) = leftFinger s"
  "rightFinger (frameObject s) = rightFinger s"
  "fingerOpenDistance (frameObject s) = fingerOpenDistance s"
  "scene.more (frameObject s) = scene.more s"
  by (simp_all add: frameObject_def Let_def split: option.splits prod.splits)

lemma collectFingerGroups_other [simp]:
  "heap (collectFingerGroups s) = heap s"
  "children (collectFingerGroups s) = children s"
  "componentObjects (collectFingerGroups s) = componentObjects s"
  "componentVisibility (collectFingerGroups s) = componentVisibility s"
  "scene.more (collectFingerGroups s) = scene.more s"
  by (simp_all add: collectFingerGroups_def Let_def)

lemma collectFingerGroups_fingers:
  "leftFinger (collectFingerGroups s) = filter (\<lambda>i. partFile (obj_at s i) \<in> LEFT_FINGER_PARTS) (children s)"
  "rightFinger (collectFingerGroups s) =
     filter (\<lambda>i. partFile (obj_at s i) \<notin> LEFT_FINGER_PARTS \<and> partFile (obj_at s i) \<in> RIGHT_FINGER_PARTS) (children s)"
  by (simp_all add: collectFingerGroups_def Let_def)

lemma collectFingerGroups_distance_nonneg: "0 \<le> fingerOpenDistance (collectFingerGroups s)"
  by (simp add: collectFingerGroups_def Let_def)

end
