(* ===== verification/Openness.thy ===== *)
theory Openness
  imports Scene
begin

text \<open>
  \<open>applyOpenness\<close> and \<open>updateTactileImage\<close> of \<open>gripper-viewer.js\<close>. The
  openness is a number (the slider's value divided by 100). \<open>applyOpenness\<close> runs
  three loops over the store: every child of the group with a base position is put
  back on it, then every object of \<open>leftFinger\<close> is moved by \<open>+offset\<close> and every
  object of \<open>rightFinger\<close> by \<open>-offset\<close> along the x axis, where
  \<open>offset = fingerOpenDistance * 0.5 * openness\<close>; objects without a base position
  are skipped. It then writes the state label and swaps the tactile image, whose
  index is \<open>Math.round(openness * 9)\<close> clamped to \<open>0 .. 9\<close>.
\<close>

definition openAxis :: vec3 where
  "openAxis = (1, 0, 0)"

text \<open>\<open>child.position.copy(base)\<close> followed by a move \<open>h\<close>, for a child with a base position.\<close>

definition set_pos_from_base :: "(vec3 \<Rightarrow> vec3) \<Rightarrow> nat \<Rightarrow> 'a scene_scheme \<Rightarrow> 'a scene_scheme" where
  "set_pos_from_base h i s =
     (case basePosition (obj_at s i) of
        None \<Rightarrow> s
      | Some b \<Rightarrow> update_obj i (\<lambda>ob. ob\<lparr>position := h b\<rparr>) s)"

definition apply_openness_positions :: "real \<Rightarrow> 'a scene_scheme \<Rightarrow> 'a scene_scheme" where
  "apply_openness_positions openness s =
     (let perFingerOffset = fingerOpenDistance s * 0.5 * openness;
          s1 = fold (set_pos_from_base (\<lambda>b. b)) (children s) s;
          s2 = fold (set_pos_from_base (\<lambda>b. add_scaled b openAxis perFingerOffset)) (leftFinger s1) s1
      in fold (set_pos_from_base (\<lambda>b. add_scaled b openAxis (- perFingerOffset))) (rightFinger s2) s2)"

definition openness_label :: "real \<Rightarrow> string" where
  "openness_label openness =
     (if openness \<ge> 0.95 then ''Open'' else if openness \<le> 0.05 then ''Closed'' else ''Partial'')"

definition tactile_index :: "real \<Rightarrow> nat" where
  "tactile_index openness =
     nat (js_clamp 0 (int (length TACTILE_STEPS) - 1) (js_round (openness * real (length TACTILE_STEPS - 1))))"

definition updateTactileImage :: "real \<Rightarrow> 'a scene_scheme \<Rightarrow> 'a scene_scheme" where
  "updateTactileImage openness s =
     s\<lparr>tactileSrc := TACTILE_RENDER_BASE @ ''/render_'' @ show_nat (TACTILE_STEPS ! tactile_index openness) @ ''.png'',
       tactileAlt := ''Gripper internal view at '' @ show_int (js_round (openness * 100)) @ ''% open''\<rparr>"

definition applyOpenness :: "real \<Rightarrow> 'a scene_scheme \<Rightarrow> 'a scene_scheme" where
  "applyOpenness openness s =
     updateTactileImage openness ((apply_openness_positions openness s)\<lparr>opennessText := openness_label openness\<rparr>)"

text \<open>The side a child moves to: \<open>+1\<close> for the left finger, \<open>-1\<close> for the right one.\<close>

definition finger_side :: "'a scene_scheme \<Rightarrow> nat \<Rightarrow> real" where
  "finger_side s j = (if j \<in> set (leftFinger s) then 1 else if j \<in> set (rightFinger s) then -1 else 0)"

text \<open>A one-part scene: the left finger's pad with its base captured at \<open>(1, 2, 3)\<close>.\<close>

definition demo_scene :: scene where
  "demo_scene =
     \<lparr>heap = [\<lparr>partFile = ''Optical_pad'', objLabel = ''Optical pad (left)'', meshSize = ''1.0'', visible = True,
               position = (0, 0, 0), basePosition = Some (1, 2, 3), bounds = None\<rparr>],
      children = [0], componentObjects = [''Optical_pad'' \<mapsto> 0], componentVisibility = Map.empty,
      groupExpanded = Map.empty, groupPosition = (0, 0, 0), leftFinger = [0], rightFinger = [],
      fingerOpenDistance = 4, sizeReadout = [], padDimsReadout = [], opennessText = [],
      tactileSrc = [], tactileAlt = []\<rparr>"

subsection \<open>The position loops\<close>

lemma set_pos_from_base_obj:
  "obj_at (set_pos_from_base h i s) j =
     (if i = j \<and> i < length (heap s) \<and> basePosition (obj_at s i) \<noteq> None
      then (obj_at s i)\<lparr>position := h (the (basePosition (obj_at s i)))\<rparr> else obj_at s j)"
  by (auto simp: set_pos_from_base_def obj_at_update_obj split: option.splits)

lemma set_pos_from_base_other [simp]:
  "length (heap (set_pos_from_base h i s)) = length (heap s)"
  "children (set_pos_from_base h i s) = children s"
  "componentObjects (set_pos_from_base h i s) = componentObjects s"
  "componentVisibility (set_pos_from_base h i s) = componentVisibility s"
  "leftFinger (set_pos_from_base h i s) = leftFinger s"
  "rightFinger (set_pos_from_base h i s) = rightFinger s"
  "fingerOpenDistance (set_pos_from_base h i s) = fingerOpenDistance s"
  "scene.more (set_pos_from_base h i s) = scene.more s"
  by (simp_all add: set_pos_from_base_def split: option.splits)

lemma fold_set_pos_other [simp]:
  "length (heap (fold (set_pos_from_base h) ids s)) = length (heap s)"
  "children (fold (set_pos_from_base h) ids s) = children s"
  "componentObjects (fold (set_pos_from_base h) ids s) = componentObjects s"
  "componentVisibility (fold (set_pos_from_base h) ids s) = componentVisibility s"
  "leftFinger (fold (set_pos_from_base h) ids s) = leftFinger s"
  "rightFinger (fold (set_pos_from_base h) ids s) = rightFinger s"
  "fingerOpenDistance (fold (set_pos_from_base h) ids s) = fingerOpenDistance s"
  "scene.more (fold (set_pos_from_base h) ids s) = scene.more s"
  by (induction ids arbitrary: s) simp_all

lemma fold_set_pos_obj:
  "obj_at (fold (set_pos_from_base h) ids s) j =
     (if j \<in> set ids \<and> j < length (heap s) \<and> basePosition (obj_at s j) \<noteq> None
      then (obj_at s j)\<lparr>position := h (the (basePosition (obj_at s j)))\<rparr> else obj_at s j)"
proof (induction ids arbitrary: s)
  case Nil
  then show ?case by simp
next
  case (Cons i ids)
  show ?case using Cons.IH [of "set_pos_from_base h i s"] by (auto simp: set_pos_from_base_obj)
qed

lemma apply_openness_positions_other [simp]:
  "length (heap (apply_openness_positions o' s)) = length (heap s)"
  "children (apply_openness_positions o' s) = children s"
  "componentObjects (apply_openness_positions o' s) = componentObjects s"
  "componentVisibility (apply_openness_positions o' s) = componentVisibility s"
  "leftFinger (apply_openness_positions o' s) = leftFinger s"
  "rightFinger (apply_openness_positions o' s) = rightFinger s"
  "fingerOpenDistance (apply_openness_positions o' s) = fingerOpenDistance s"
  "scene.more (apply_openness_positions o' s) = scene.more s"
  by (simp_all add: apply_openness_positions_def Let_def)

text \<open>Where each object ends up: the last loop that touches it wins.\<close>

lemma apply_openness_positions_obj:
  assumes "j < length (heap s)" and "basePosition (obj_at s j) = Some b"
  shows "obj_at (apply_openness_positions o' s) j =
     (let off = fingerOpenDistance s * 0.5 * o'
      in if j \<in> set (rightFinger s) then (obj_at s j)\<lparr>position := add_scaled b openAxis (- off)\<rparr>
         else if j \<in> set (leftFinger s) then (obj_at s j)\<lparr>position := add_scaled b openAxis off\<rparr>
         else if j \<in> set (children s) then (obj_at s j)\<lparr>position := b\<rparr>
         else obj_at s j)"
proof -
  define off where "off = fingerOpenDistance s * 0.5 * o'"
  define s1 where "s1 = fold (set_pos_from_base (\<lambda>b. b)) (children s) s"
  define s2 where "s2 = fold (set_pos_from_base (\<lambda>b. add_scaled b openAxis off)) (leftFinger s1) s1"
  have o1: "obj_at s1 j = (if j \<in> set (children s) then (obj_at s j)\<lparr>position := b\<rparr> else obj_at s j)"
    using assms by (simp add: s1_def fold_set_pos_obj)
  have b1: "basePosition (obj_at s1 j) = Some b" using o1 assms(2) by simp
  have len1: "j < length (heap s1)" using assms(1) by (simp add: s1_def)
  have lf1: "leftFinger s1 = leftFinger s" by (simp add: s1_def)
  have o2': "obj_at s2 j = (if j \<in> set (leftFinger s)
                           then (obj_at s1 j)\<lparr>position := add_scaled b openAxis off\<rparr> else obj_at s1 j)"
    unfolding s2_def fold_set_pos_obj using b1 len1 lf1 by simp
  have o2: "obj_at s2 j = (if j \<in> set (leftFinger s) then (obj_at s j)\<lparr>position := add_scaled b openAxis off\<rparr>
                          else obj_at s1 j)"
    using o2' o1 by simp
  have o3: "obj_at (fold (set_pos_from_base (\<lambda>b. add_scaled b openAxis (- off))) (rightFinger s2) s2) j =
      (if j \<in> set (rightFinger s) then (obj_at s j)\<lparr>position := add_scaled b openAxis (- off)\<rparr> else obj_at s2 j)"
  proof -
    have "basePosition (obj_at s2 j) = Some b" using assms o1 o2 by simp
    moreover have "j < length (heap s2)" using assms by (simp add: s1_def s2_def)
    moreover have "rightFinger s2 = rightFinger s" by (simp add: s1_def s2_def)
    ultimately show ?thesis using o1 o2 by (simp add: fold_set_pos_obj)
  qed
  have "apply_openness_positions o' s =
          fold (set_pos_from_base (\<lambda>b. add_scaled b openAxis (- off))) (rightFinger s2) s2"
    by (simp add: apply_openness_positions_def Let_def off_def s1_def s2_def)
  then show ?thesis using o1 o2 o3 by (simp add: Let_def off_def)
qed

lemma applyOpenness_other [simp]:
  "heap (applyOpenness o' s) = heap (apply_openness_positions o' s)"
  "children (applyOpenness o' s) = children s"
  "componentObjects (applyOpenness o' s) = componentObjects s"
  "componentVisibility (applyOpenness o' s) = componentVisibility s"
  "leftFinger (applyOpenness o' s) = leftFinger s"
  "rightFinger (applyOpenness o' s) = rightFinger s"
  "fingerOpenDistance (applyOpenness o' s) = fingerOpenDistance s"
  "opennessText (applyOpenness o' s) = openness_label o'"
  "scene.more (applyOpenness o' s) = scene.more s"
  by (simp_all add: applyOpenness_def updateTactileImage_def)

lemma obj_at_applyOpenness: "obj_at (applyOpenness o' s) j = obj_at (apply_openness_positions o' s) j"
  by (simp add:)

lemma add_scaled_zero [simp]: "add_scaled b openAxis 0 = b"
  by (cases b) (simp add: add_scaled_def openAxis_def)

lemma vx_add_scaled [simp]: "vx (add_scaled b openAxis k) = vx b + k"
  by (cases b) (simp add: add_scaled_def openAxis_def vx_def)

lemma tactile_index_bound: "tactile_index o' \<le> 9"
proof -
  have "js_clamp 0 9 (js_round (o' * 9)) \<le> 9" using js_clamp_bounds [of 0 9] by simp
  then show ?thesis by (simp add: tactile_index_def nat_le_iff)
qed

lemma TACTILE_STEPS_nth: "i < 10 \<Longrightarrow> TACTILE_STEPS ! i = 4 * (i + 1)"
  by (simp add: TACTILE_STEPS_def)

lemma js_round_slider: "js_round (real v * 9 / 100) = int ((9 * v + 50) div 100)"
proof -
  have "real v * 9 / 100 + 1/2 = real (9 * v + 50) / real (100::nat)" by (simp add: field_simps)
  then show ?thesis unfolding js_round_def by (simp only: floor_divide_of_nat_eq)
qed

subsection \<open>Properties of \<open>applyOpenness\<close>\<close>

text \<open>
  C24. After \<open>applyOpenness(o)\<close>, every child of the group with a base position
  \<open>b\<close> stands at \<open>b\<close> moved along the x axis by \<open>+offset\<close> if it belongs to the left
  finger, \<open>-offset\<close> if it belongs to the right finger and \<open>0\<close> otherwise, with
  \<open>offset = fingerOpenDistance * 0.5 * o\<close> (the two finger lists being disjoint, as
  \<open>collectFingerGroups\<close> makes them).
\<close>

theorem applyOpenness_child_position:
  assumes "j \<in> set (children s)" "j < length (heap s)" "basePosition (obj_at s j) = Some b"
    "set (leftFinger s) \<inter> set (rightFinger s) = {}"
  shows "position (obj_at (applyOpenness o' s) j) =
           add_scaled b openAxis (finger_side s j * (fingerOpenDistance s * 0.5 * o'))"
  using assms apply_openness_positions_obj [OF assms(2,3), of o']
  by (auto simp: obj_at_applyOpenness finger_side_def Let_def)

theorem applyOpenness_child_position_witness:
  "position (obj_at (applyOpenness 1 demo_scene) 0) = (3, 2, 3)"
proof -
  have h: "0 \<in> set (children demo_scene)" "0 < length (heap demo_scene)"
    "basePosition (obj_at demo_scene 0) = Some (1, 2, 3)"
    "set (leftFinger demo_scene) \<inter> set (rightFinger demo_scene) = {}"
    by (simp_all add: demo_scene_def)
  have fs: "finger_side demo_scene 0 = 1" and d: "fingerOpenDistance demo_scene = 4"
    by (simp_all add: finger_side_def demo_scene_def)
  show ?thesis using applyOpenness_child_position [OF h, of 1] fs d
    by (simp add: add_scaled_def openAxis_def)
qed

text \<open>
  The extremes and the midpoint of the specification: at openness \<open>0\<close> every
  child is on its base position, at \<open>1\<close> a finger child is half the opening
  distance away from it, and at \<open>0.5\<close> its x coordinate is exactly the midpoint of
  the two.
\<close>

theorem applyOpenness_extremes_midpoint:
  assumes "j \<in> set (children s)" "j < length (heap s)" "basePosition (obj_at s j) = Some b"
    "set (leftFinger s) \<inter> set (rightFinger s) = {}"
  shows "position (obj_at (applyOpenness 0 s) j) = b \<and>
         vx (position (obj_at (applyOpenness 1 s) j)) = vx b + finger_side s j * fingerOpenDistance s / 2 \<and>
         vx (position (obj_at (applyOpenness 0.5 s) j)) =
           (vx (position (obj_at (applyOpenness 0 s) j)) + vx (position (obj_at (applyOpenness 1 s) j))) / 2"
  using applyOpenness_child_position [OF assms, of 0] applyOpenness_child_position [OF assms, of 1]
    applyOpenness_child_position [OF assms, of "0.5"]
  by (simp add: field_simps)

theorem applyOpenness_extremes_midpoint_witness:
  "position (obj_at (applyOpenness 0 demo_scene) 0) = (1, 2, 3) \<and>
   vx (position (obj_at (applyOpenness 1 demo_scene) 0)) = 3 \<and>
   vx (position (obj_at (applyOpenness 0.5 demo_scene) 0)) = 2"
proof -
  have h: "0 \<in> set (children demo_scene)" "0 < length (heap demo_scene)"
    "basePosition (obj_at demo_scene 0) = Some (1, 2, 3)"
    "set (leftFinger demo_scene) \<inter> set (rightFinger demo_scene) = {}"
    by (simp_all add: demo_scene_def)
  have fs: "finger_side demo_scene 0 = 1" and d: "fingerOpenDistance demo_scene = 4"
    by (simp_all add: finger_side_def demo_scene_def)
  show ?thesis using applyOpenness_extremes_midpoint [OF h] fs d by (auto simp: vx_def)
qed

text \<open>
  C25. The tactile step index is always a valid index of \<open>TACTILE_STEPS\<close> (the
  image name is \<open>render_N.png\<close> with \<open>N\<close> one of \<open>4, 8, ..., 40\<close>), whatever number
  \<open>applyOpenness\<close> receives; for a slider value \<open>v \<le> 100\<close> it is
  \<open>(9 v + 50) div 100\<close>, i.e. \<open>9 v / 100\<close> rounded half up.
\<close>

theorem tactile_index_valid:
  "tactile_index o' < length TACTILE_STEPS \<and> TACTILE_STEPS ! tactile_index o' = 4 * (tactile_index o' + 1) \<and>
   (v \<le> 100 \<longrightarrow> tactile_index (real v / 100) = (9 * v + 50) div 100)"
proof -
  have b: "tactile_index o' \<le> 9" by (rule tactile_index_bound)
  have "v \<le> 100 \<Longrightarrow> tactile_index (real v / 100) = (9 * v + 50) div 100"
  proof -
    assume "v \<le> 100"
    then have "(9 * v + 50) div 100 \<le> 9" by simp
    then show ?thesis by (simp add: tactile_index_def js_round_slider js_clamp_def)
  qed
  with b show ?thesis by (simp add: TACTILE_STEPS_nth)
qed

theorem tactile_index_valid_witness:
  "tactile_index (real (37::nat) / 100) = 3 \<and> (37::nat) \<le> 100"
  using tactile_index_valid [of 0 37] by simp

text \<open>
  For a slider value \<open>v\<close> (openness \<open>v / 100\<close>) the state label is \<open>Open\<close> from
  95 on, \<open>Closed\<close> up to 5, and \<open>Partial\<close> in between.
\<close>

theorem openness_label_slider:
  "openness_label (real v / 100) = (if 95 \<le> v then ''Open'' else if v \<le> 5 then ''Closed'' else ''Partial'')"
proof -
  have a: "(0.95::real) \<le> real v / 100 \<longleftrightarrow> 95 \<le> v" by (simp add: field_simps)
  have b: "real v / 100 \<le> (0.05::real) \<longleftrightarrow> v \<le> 5" by (simp add: field_simps)
  show ?thesis by (simp only: openness_label_def a b)
qed

end
