(* ===== verification/Checklist.thy ===== *)
theory Checklist
  imports Scene
begin

text \<open>
  The component checklist of \<open>gripper-viewer.js\<close>: the map \<open>componentVisibility\<close>
  (part file to boolean, all \<open>true\<close> at start-up), \<open>setPartVisibility\<close>, the state of
  a group's checkbox as \<open>buildComponentList\<close> computes it (\<open>checked\<close> when every
  member is visible, \<open>indeterminate\<close> when some but not all are), and the three
  handlers: a part's checkbox, a group's checkbox and a group's Show/Hide button.
  A lookup \<open>componentVisibility.get(file) !== false\<close> counts a missing file as
  visible. Clicking a checkbox flips its \<open>checked\<close> state (and clears
  \<open>indeterminate\<close>) before the \<open>change\<close> handler reads it; each handler ends with a
  full \<open>buildComponentList\<close>, which redraws every checkbox from the map, so the new
  value a click produces is the negation of what the map said.
\<close>

definition vis_of :: "(file_name \<rightharpoonup> bool) \<Rightarrow> file_name \<Rightarrow> bool" where
  "vis_of m f \<longleftrightarrow> m f \<noteq> Some False"

definition initial_visibility :: "file_name \<rightharpoonup> bool" where
  "initial_visibility = map_of (map (\<lambda>p. (part_file p, True)) PARTS)"

definition initial_expanded :: "string \<rightharpoonup> bool" where
  "initial_expanded = map_of (map (\<lambda>(g, _). (g, False)) COMPONENT_GROUPS)"

definition setPartVisibility :: "file_name \<Rightarrow> bool \<Rightarrow> 'a scene_scheme \<Rightarrow> 'a scene_scheme" where
  "setPartVisibility f v s =
     (let s1 = s\<lparr>componentVisibility := (componentVisibility s)(f \<mapsto> v)\<rparr>
      in case componentObjects s1 f of
           None \<Rightarrow> s1
         | Some i \<Rightarrow> update_obj i (\<lambda>ob. ob\<lparr>visible := v\<rparr>) s1)"

definition group_checked :: "(file_name \<rightharpoonup> bool) \<Rightarrow> file_name list \<Rightarrow> bool" where
  "group_checked m files = list_all (vis_of m) files"

definition group_indeterminate :: "(file_name \<rightharpoonup> bool) \<Rightarrow> file_name list \<Rightarrow> bool" where
  "group_indeterminate m files \<longleftrightarrow> \<not> group_checked m files \<and> list_ex (vis_of m) files"

text \<open>
  The scene as the module's initialisation leaves it: no object, every part visible,
  every group collapsed. (The readouts hold the page's initial text, which is not
  part of the script; they are empty here.)
\<close>

definition start_scene :: scene where
  "start_scene =
     \<lparr>heap = [], children = [], componentObjects = Map.empty, componentVisibility = initial_visibility,
      groupExpanded = initial_expanded, groupPosition = (0, 0, 0), leftFinger = [], rightFinger = [],
      fingerOpenDistance = 0, sizeReadout = [], padDimsReadout = [], opennessText = [],
      tactileSrc = [], tactileAlt = []\<rparr>"

text \<open>A part's checkbox: \<open>setPartVisibility(part.file, checkbox.checked)\<close>.\<close>

definition part_change :: "file_name \<Rightarrow> 'a scene_scheme \<Rightarrow> 'a scene_scheme" where
  "part_change f s = setPartVisibility f (\<not> vis_of (componentVisibility s) f) s"

text \<open>A group's checkbox: every member gets the box's new \<open>checked\<close> state.\<close>

definition group_change :: "file_name list \<Rightarrow> 'a scene_scheme \<Rightarrow> 'a scene_scheme" where
  "group_change files s =
     (let c = \<not> group_checked (componentVisibility s) files
      in fold (\<lambda>f s. setPartVisibility f c s) files s)"

text \<open>
  A reference for \<open>group_change\<close>: the map and every registered member object
  updated at once, instead of one \<open>setPartVisibility\<close> after the other.
\<close>

definition group_change_ref :: "file_name list \<Rightarrow> 'a scene_scheme \<Rightarrow> 'a scene_scheme" where
  "group_change_ref files s =
     (let c = \<not> group_checked (componentVisibility s) files
      in s\<lparr>componentVisibility := (\<lambda>g. if g \<in> set files then Some c else componentVisibility s g),
           heap := map (\<lambda>j. if list_ex (\<lambda>f. componentObjects s f = Some j) files
                              then (heap s ! j)\<lparr>visible := c\<rparr> else heap s ! j) [0..<length (heap s)]\<rparr>)"

text \<open>The Show/Hide button: \<open>classList.toggle\<close> and \<open>groupExpanded.set(name, !isHidden)\<close>.\<close>

definition toggle_expanded :: "string \<Rightarrow> 'a scene_scheme \<Rightarrow> 'a scene_scheme" where
  "toggle_expanded g s = s\<lparr>groupExpanded := (groupExpanded s)(g \<mapsto> \<not> (groupExpanded s g = Some True))\<rparr>"

subsection \<open>Lemmas\<close>

lemma setPartVisibility_other [simp]:
  "length (heap (setPartVisibility f v s)) = length (heap s)"
  "children (setPartVisibility f v s) = children s"
  "componentObjects (setPartVisibility f v s) = componentObjects s"
  "componentVisibility (setPartVisibility f v s) = (componentVisibility s)(f \<mapsto> v)"
  "leftFinger (setPartVisibility f v s) = leftFinger s"
  "rightFinger (setPartVisibility f v s) = rightFinger s"
  "fingerOpenDistance (setPartVisibility f v s) = fingerOpenDistance s"
  "scene.more (setPartVisibility f v s) = scene.more s"
  "groupExpanded (setPartVisibility f v s) = groupExpanded s"
  "groupPosition (setPartVisibility f v s) = groupPosition s"
  "sizeReadout (setPartVisibility f v s) = sizeReadout s"
  "padDimsReadout (setPartVisibility f v s) = padDimsReadout s"
  "opennessText (setPartVisibility f v s) = opennessText s"
  "tactileSrc (setPartVisibility f v s) = tactileSrc s"
  "tactileAlt (setPartVisibility f v s) = tactileAlt s"
  by (simp_all add: setPartVisibility_def update_obj_def Let_def split: option.splits)

lemma fold_setPartVisibility_more [simp]:
  "scene.more (fold (\<lambda>f s. setPartVisibility f c s) files s) = scene.more s"
  by (induction files arbitrary: s) simp_all

lemma fold_setPartVisibility_fields [simp]:
  "children (fold (\<lambda>f s. setPartVisibility f c s) files s) = children s"
  "componentObjects (fold (\<lambda>f s. setPartVisibility f c s) files s) = componentObjects s"
  "leftFinger (fold (\<lambda>f s. setPartVisibility f c s) files s) = leftFinger s"
  "rightFinger (fold (\<lambda>f s. setPartVisibility f c s) files s) = rightFinger s"
  "fingerOpenDistance (fold (\<lambda>f s. setPartVisibility f c s) files s) = fingerOpenDistance s"
  "groupExpanded (fold (\<lambda>f s. setPartVisibility f c s) files s) = groupExpanded s"
  "groupPosition (fold (\<lambda>f s. setPartVisibility f c s) files s) = groupPosition s"
  "sizeReadout (fold (\<lambda>f s. setPartVisibility f c s) files s) = sizeReadout s"
  "padDimsReadout (fold (\<lambda>f s. setPartVisibility f c s) files s) = padDimsReadout s"
  "opennessText (fold (\<lambda>f s. setPartVisibility f c s) files s) = opennessText s"
  "tactileSrc (fold (\<lambda>f s. setPartVisibility f c s) files s) = tactileSrc s"
  "tactileAlt (fold (\<lambda>f s. setPartVisibility f c s) files s) = tactileAlt s"
  by (induction files arbitrary: s; simp)+

lemma setPartVisibility_obj:
  "obj_at (setPartVisibility f v s) j =
     (if componentObjects s f = Some j \<and> j < length (heap s) then (obj_at s j)\<lparr>visible := v\<rparr> else obj_at s j)"
  by (auto simp: setPartVisibility_def Let_def update_obj_def nth_list_update split: option.splits)

lemma vis_of_update [simp]: "vis_of (m(f \<mapsto> v)) g = (if g = f then v else vis_of m g)"
  by (simp add: vis_of_def)

lemma fold_setPartVisibility:
  "componentVisibility (fold (\<lambda>f s. setPartVisibility f c s) files s) =
     (\<lambda>g. if g \<in> set files then Some c else componentVisibility s g) \<and>
   componentObjects (fold (\<lambda>f s. setPartVisibility f c s) files s) = componentObjects s \<and>
   length (heap (fold (\<lambda>f s. setPartVisibility f c s) files s)) = length (heap s) \<and>
   (\<forall>j. obj_at (fold (\<lambda>f s. setPartVisibility f c s) files s) j =
          (if (\<exists>f\<in>set files. componentObjects s f = Some j) \<and> j < length (heap s)
           then (obj_at s j)\<lparr>visible := c\<rparr> else obj_at s j))"
proof (induction files arbitrary: s)
  case Nil
  then show ?case by simp
next
  case (Cons f files)
  show ?case using Cons.IH [of "setPartVisibility f c s"]
    by (auto simp: setPartVisibility_obj fun_eq_iff)
qed

subsection \<open>Properties of the group checkbox\<close>

text \<open>
  A group's checkbox is indeterminate exactly when at least one but not every
  member part is visible.
\<close>

theorem group_indeterminate_iff:
  "group_indeterminate m files \<longleftrightarrow> (\<exists>f\<in>set files. vis_of m f) \<and> (\<exists>f\<in>set files. \<not> vis_of m f)"
  by (auto simp: group_indeterminate_def group_checked_def list_all_iff list_ex_iff)

text \<open>
  C26. Clicking a group's checkbox gives every member the same visibility, the
  negation of "all members visible": in the map and on every member's object; after
  the redraw the box is checked or unchecked, never indeterminate.
\<close>

theorem group_change_uniform:
  assumes "files \<noteq> []"
  shows "(let s' = group_change files s; c = (\<not> group_checked (componentVisibility s) files)
          in group_checked (componentVisibility s') files = c \<and>
             \<not> group_indeterminate (componentVisibility s') files \<and>
             (\<forall>f\<in>set files. vis_of (componentVisibility s') f = c \<and>
                (\<forall>i. componentObjects s f = Some i \<longrightarrow> i < length (heap s) \<longrightarrow> visible (obj_at s' i) = c)))"
proof -
  define c where "c = (\<not> group_checked (componentVisibility s) files)"
  define s' where "s' = group_change files s"
  have fs: "componentVisibility s' = (\<lambda>g. if g \<in> set files then Some c else componentVisibility s g)"
    "\<forall>j. obj_at s' j = (if (\<exists>f\<in>set files. componentObjects s f = Some j) \<and> j < length (heap s)
                         then (obj_at s j)\<lparr>visible := c\<rparr> else obj_at s j)"
    using fold_setPartVisibility [of c files s] by (simp_all add: s'_def c_def group_change_def Let_def)
  have v: "\<forall>f\<in>set files. vis_of (componentVisibility s') f = c" by (simp add: fs vis_of_def)
  have "group_checked (componentVisibility s') files = c"
    using v assms by (cases files) (auto simp: group_checked_def list_all_iff)
  moreover have "\<not> group_indeterminate (componentVisibility s') files"
    using v by (auto simp: group_indeterminate_def group_checked_def list_all_iff list_ex_iff)
  moreover have "\<forall>f\<in>set files. \<forall>i. componentObjects s f = Some i \<longrightarrow> i < length (heap s) \<longrightarrow>
                    visible (obj_at s' i) = c"
    using fs(2) by auto
  ultimately show ?thesis using v by (simp add: s'_def c_def Let_def)
qed

theorem group_change_uniform_witness:
  "group_indeterminate (componentVisibility (part_change ''Optical_pad'' start_scene)) (snd (hd COMPONENT_GROUPS)) \<and>
   group_checked (componentVisibility (group_change (snd (hd COMPONENT_GROUPS))
                    (part_change ''Optical_pad'' start_scene))) (snd (hd COMPONENT_GROUPS)) \<and>
   \<not> group_indeterminate (componentVisibility (group_change (snd (hd COMPONENT_GROUPS))
                    (part_change ''Optical_pad'' start_scene))) (snd (hd COMPONENT_GROUPS))"
proof -
  let ?s = "part_change ''Optical_pad'' start_scene"
  have ne: "snd (hd COMPONENT_GROUPS) \<noteq> []" by (simp add: COMPONENT_GROUPS_def)
  have ind: "group_indeterminate (componentVisibility ?s) (snd (hd COMPONENT_GROUPS))"
    by (simp add: part_change_def start_scene_def initial_visibility_def PARTS_def COMPONENT_GROUPS_def
        group_indeterminate_def group_checked_def vis_of_def)
  then have "\<not> group_checked (componentVisibility ?s) (snd (hd COMPONENT_GROUPS))"
    by (simp add: group_indeterminate_def)
  with group_change_uniform [OF ne, of ?s] ind show ?thesis by (simp add: Let_def)
qed

text \<open>
  C27. A group checkbox change, which the code performs as one \<open>setPartVisibility\<close>
  per member in order, equals the simultaneous update \<open>group_change_ref\<close>: every
  member's map entry and every registered member object get the same new state,
  and nothing else of the scene changes.
\<close>

theorem group_change_simultaneous: "group_change files s = group_change_ref files s"
proof -
  define c where "c = (\<not> group_checked (componentVisibility s) files)"
  define t where "t = fold (\<lambda>f s. setPartVisibility f c s) files s"
  have g: "group_change files s = t" by (simp add: group_change_def Let_def c_def t_def)
  note fs = fold_setPartVisibility [of c files s, folded t_def]
  have "heap t = heap (group_change_ref files s)"
    using fs by (intro nth_equalityI) (simp_all add: group_change_ref_def Let_def c_def list_ex_iff)
  moreover have "componentVisibility t = componentVisibility (group_change_ref files s)"
    using fs unfolding c_def by (simp add: group_change_ref_def Let_def)
  ultimately show ?thesis unfolding g
    by (intro scene.equality) (simp_all add: t_def group_change_ref_def Let_def)
qed

end
