(* ===== verification/Fruit.thy ===== *)
theory Fruit
  imports Catalog
begin

text \<open>
  The reference-fruit overlay of \<open>gripper-viewer.js\<close>: the module state
  \<open>strawberryObject\<close>, \<open>appleObject\<close>, \<open>fruitsLoaded\<close>, \<open>fruitUserOverride\<close> and
  \<open>currentGripperSize\<close>, the two checkboxes of the component list, and the code
  that changes them: the continuation of \<open>loadFruits\<close>, \<open>updateFruitVisibility\<close>
  (with \<open>updateFruitCheckboxes\<close>), \<open>positionFruits\<close>, the two checkbox
  \<open>change\<close> handlers built by \<open>buildComponentList\<close>, and the part of
  \<open>buildComponentList\<close> that recreates the checkboxes. A fruit object is reduced
  to what the viewer's logic reads and writes: its \<open>visible\<close> flag and its position.
  The events of this component run in any order the browser allows; the exclusion
  rule "one fruit at a time" is enforced only by the handlers.
\<close>

record fruit_obj =
  fvisible :: bool
  fposition :: vec3

record fruit_state =
  strawberryObject :: "fruit_obj option"
  appleObject :: "fruit_obj option"
  fruitsLoaded :: bool
  overrideStrawberry :: "bool option"
  overrideApple :: "bool option"
  currentGripperSize :: size_name
  strawberryChecked :: bool
  appleChecked :: bool

subsection \<open>Access by fruit\<close>

fun fobj :: "fruit \<Rightarrow> fruit_state \<Rightarrow> fruit_obj option" where
  "fobj Strawberry fs = strawberryObject fs"
| "fobj Apple fs = appleObject fs"

fun foverride :: "fruit \<Rightarrow> fruit_state \<Rightarrow> bool option" where
  "foverride Strawberry fs = overrideStrawberry fs"
| "foverride Apple fs = overrideApple fs"

fun fchecked :: "fruit \<Rightarrow> fruit_state \<Rightarrow> bool" where
  "fchecked Strawberry fs = strawberryChecked fs"
| "fchecked Apple fs = appleChecked fs"

fun other :: "fruit \<Rightarrow> fruit" where
  "other Strawberry = Apple"
| "other Apple = Strawberry"

text \<open>A fruit is on screen when its object exists and is visible.\<close>

definition shown :: "fruit \<Rightarrow> fruit_state \<Rightarrow> bool" where
  "shown f fs \<longleftrightarrow> (case fobj f fs of None \<Rightarrow> False | Some ob \<Rightarrow> fvisible ob)"

subsection \<open>Operations\<close>

text \<open>Module initialisation, and \<open>buildComponentList\<close> at start-up (no object yet).\<close>

definition fruit_init :: fruit_state where
  "fruit_init =
     \<lparr>strawberryObject = None, appleObject = None, fruitsLoaded = False,
      overrideStrawberry = None, overrideApple = None, currentGripperSize = ''1.5'',
      strawberryChecked = False, appleChecked = False\<rparr>"

text \<open>
  The continuation of \<open>loadFruits\<close> after both \<open>loadFruitModel\<close> promises settled;
  the flags say which model loaded (a failed one resolves to \<open>null\<close>).
\<close>

definition loadFruits_done :: "bool \<Rightarrow> bool \<Rightarrow> fruit_state \<Rightarrow> fruit_state" where
  "loadFruits_done s a fs =
     fs\<lparr>strawberryObject := (if s then Some \<lparr>fvisible = False, fposition = (0, 0, 0)\<rparr> else strawberryObject fs),
        appleObject := (if a then Some \<lparr>fvisible = False, fposition = (0, 0, 0)\<rparr> else appleObject fs),
        fruitsLoaded := True\<rparr>"

definition set_visible :: "bool \<Rightarrow> fruit_obj option \<Rightarrow> fruit_obj option" where
  "set_visible v oo = map_option (\<lambda>ob. ob\<lparr>fvisible := v\<rparr>) oo"

definition auto_visible :: "bool option \<Rightarrow> size_name \<Rightarrow> size_name \<Rightarrow> bool" where
  "auto_visible ov sz target = (case ov of Some b \<Rightarrow> b | None \<Rightarrow> sz = target)"

text \<open>\<open>updateFruitCheckboxes\<close>: each checkbox of an existing object follows its visibility.\<close>

definition updateFruitCheckboxes :: "fruit_state \<Rightarrow> fruit_state" where
  "updateFruitCheckboxes fs =
     fs\<lparr>strawberryChecked := (case strawberryObject fs of Some ob \<Rightarrow> fvisible ob | None \<Rightarrow> strawberryChecked fs),
        appleChecked := (case appleObject fs of Some ob \<Rightarrow> fvisible ob | None \<Rightarrow> appleChecked fs)\<rparr>"

definition updateFruitVisibility :: "size_name \<Rightarrow> fruit_state \<Rightarrow> fruit_state" where
  "updateFruitVisibility sz fs =
     (let fs1 = fs\<lparr>currentGripperSize := sz\<rparr>
      in if \<not> fruitsLoaded fs1 then fs1
         else updateFruitCheckboxes
           (fs1\<lparr>strawberryObject := set_visible
                    (auto_visible (overrideStrawberry fs1) sz (targetSize (FRUIT_CONFIG Strawberry)))
                    (strawberryObject fs1),
                appleObject := set_visible
                    (auto_visible (overrideApple fs1) sz (targetSize (FRUIT_CONFIG Apple)))
                    (appleObject fs1)\<rparr>))"

definition positionFruits :: "fruit_state \<Rightarrow> fruit_state" where
  "positionFruits fs =
     (if \<not> fruitsLoaded fs then fs
      else fs\<lparr>strawberryObject := map_option (\<lambda>ob. ob\<lparr>fposition := (0, yOffset (FRUIT_CONFIG Strawberry), 0)\<rparr>) (strawberryObject fs),
              appleObject := map_option (\<lambda>ob. ob\<lparr>fposition := (0, yOffset (FRUIT_CONFIG Apple), 0)\<rparr>) (appleObject fs)\<rparr>)"

text \<open>
  A click on a fruit's checkbox: the browser flips \<open>checked\<close>, then the \<open>change\<close>
  handler runs. The two handlers of \<open>buildComponentList\<close> are the same code with the
  fruits exchanged.
\<close>

definition strawberry_change :: "fruit_state \<Rightarrow> fruit_state" where
  "strawberry_change fs =
     (let c = \<not> strawberryChecked fs;
          fs1 = fs\<lparr>strawberryChecked := c, overrideStrawberry := Some c,
                   strawberryObject := set_visible c (strawberryObject fs)\<rparr>
      in if c \<and> appleObject fs1 \<noteq> None
         then fs1\<lparr>appleObject := set_visible False (appleObject fs1), overrideApple := Some False,
                  appleChecked := False\<rparr>
         else fs1)"

definition apple_change :: "fruit_state \<Rightarrow> fruit_state" where
  "apple_change fs =
     (let c = \<not> appleChecked fs;
          fs1 = fs\<lparr>appleChecked := c, overrideApple := Some c,
                   appleObject := set_visible c (appleObject fs)\<rparr>
      in if c \<and> strawberryObject fs1 \<noteq> None
         then fs1\<lparr>strawberryObject := set_visible False (strawberryObject fs1), overrideStrawberry := Some False,
                  strawberryChecked := False\<rparr>
         else fs1)"

fun fruit_click :: "fruit \<Rightarrow> fruit_state \<Rightarrow> fruit_state" where
  "fruit_click Strawberry fs = strawberry_change fs"
| "fruit_click Apple fs = apple_change fs"

text \<open>\<open>buildComponentList\<close> recreates both checkboxes from the objects' visibility.\<close>

definition rebuild_fruit_checkboxes :: "fruit_state \<Rightarrow> fruit_state" where
  "rebuild_fruit_checkboxes fs =
     fs\<lparr>strawberryChecked := (case strawberryObject fs of Some ob \<Rightarrow> fvisible ob | None \<Rightarrow> False),
        appleChecked := (case appleObject fs of Some ob \<Rightarrow> fvisible ob | None \<Rightarrow> False)\<rparr>"

subsection \<open>The component as a state machine\<close>

datatype fruit_event =
    FruitsArrive bool bool
  | Click fruit
  | UpdateVisibility size_name
  | PositionFruits
  | RebuildList

text \<open>\<open>None\<close>: the event cannot happen (the \<open>loadFruits\<close> continuation runs once).\<close>

fun fruit_step :: "fruit_state \<Rightarrow> fruit_event \<Rightarrow> fruit_state option" where
  "fruit_step fs (FruitsArrive s a) = (if fruitsLoaded fs then None else Some (loadFruits_done s a fs))"
| "fruit_step fs (Click f) = Some (fruit_click f fs)"
| "fruit_step fs (UpdateVisibility sz) = Some (updateFruitVisibility sz fs)"
| "fruit_step fs PositionFruits = Some (positionFruits fs)"
| "fruit_step fs RebuildList = Some (rebuild_fruit_checkboxes fs)"

fun fruit_run :: "fruit_state \<Rightarrow> fruit_event list \<Rightarrow> fruit_state option" where
  "fruit_run fs [] = Some fs"
| "fruit_run fs (e # es) = (case fruit_step fs e of None \<Rightarrow> None | Some fs' \<Rightarrow> fruit_run fs' es)"

text \<open>Whether a run has no checkbox click before the fruit models have arrived.\<close>

fun no_click_before_arrival :: "fruit_event list \<Rightarrow> bool" where
  "no_click_before_arrival [] = True"
| "no_click_before_arrival (FruitsArrive _ _ # _) = True"
| "no_click_before_arrival (Click _ # _) = False"
| "no_click_before_arrival (_ # es) = no_click_before_arrival es"

subsection \<open>Invariant\<close>

text \<open>
  Before the models arrive there is no object and no override; afterwards at most
  one fruit is shown, and while both objects exist an override forcing one fruit
  on forces the other off.
\<close>

definition override_excl :: "fruit_state \<Rightarrow> bool" where
  "override_excl fs \<longleftrightarrow>
     (strawberryObject fs \<noteq> None \<and> appleObject fs \<noteq> None \<longrightarrow>
        (overrideStrawberry fs = Some True \<longrightarrow> overrideApple fs = Some False) \<and>
        (overrideApple fs = Some True \<longrightarrow> overrideStrawberry fs = Some False))"

definition fruit_inv :: "fruit_state \<Rightarrow> bool" where
  "fruit_inv fs \<longleftrightarrow>
     (\<not> fruitsLoaded fs \<longrightarrow> strawberryObject fs = None \<and> appleObject fs = None \<and>
                            overrideStrawberry fs = None \<and> overrideApple fs = None) \<and>
     \<not> (shown Strawberry fs \<and> shown Apple fs) \<and> override_excl fs"


lemma shown_set_visible [simp]:
  "(case set_visible v oo of None \<Rightarrow> False | Some ob \<Rightarrow> fvisible ob) \<longleftrightarrow> oo \<noteq> None \<and> v"
  by (cases oo) (simp_all add: set_visible_def)

lemma set_visible_None [simp]: "set_visible v oo = None \<longleftrightarrow> oo = None"
  by (simp add: set_visible_def)

lemma set_visible_simps [simp]:
  "set_visible v None = None" "set_visible v (Some ob) = Some (ob\<lparr>fvisible := v\<rparr>)"
  by (simp_all add: set_visible_def)

lemma fruit_inv_loadFruits:
  "fruit_inv fs \<Longrightarrow> \<not> fruitsLoaded fs \<Longrightarrow> fruit_inv (loadFruits_done s a fs)"
  by (simp add: fruit_inv_def override_excl_def shown_def loadFruits_done_def)

lemma fruit_inv_strawberry_change:
  "fruit_inv fs \<Longrightarrow> fruitsLoaded fs \<Longrightarrow> fruit_inv (strawberry_change fs)"
  by (auto simp: fruit_inv_def override_excl_def shown_def strawberry_change_def Let_def split: option.splits)

lemma fruit_inv_apple_change:
  "fruit_inv fs \<Longrightarrow> fruitsLoaded fs \<Longrightarrow> fruit_inv (apple_change fs)"
  by (auto simp: fruit_inv_def override_excl_def shown_def apple_change_def Let_def split: option.splits)

lemma fruit_inv_update:
  "fruit_inv fs \<Longrightarrow> fruit_inv (updateFruitVisibility sz fs)"
  by (auto simp: fruit_inv_def override_excl_def shown_def updateFruitVisibility_def
      updateFruitCheckboxes_def auto_visible_def Let_def split: option.splits)

lemma fruit_inv_position:
  "fruit_inv fs \<Longrightarrow> fruit_inv (positionFruits fs)"
  by (auto simp: fruit_inv_def override_excl_def shown_def positionFruits_def split: option.splits)

lemma fruit_inv_rebuild:
  "fruit_inv fs \<Longrightarrow> fruit_inv (rebuild_fruit_checkboxes fs)"
  by (simp add: fruit_inv_def override_excl_def shown_def rebuild_fruit_checkboxes_def)

lemma fruit_inv_init: "fruit_inv fruit_init"
  by (simp add: fruit_inv_def override_excl_def shown_def fruit_init_def)

lemma fruit_step_loaded: "fruit_step fs e = Some fs' \<Longrightarrow> fruitsLoaded fs \<Longrightarrow> fruitsLoaded fs'"
  by (cases e rule: fruit_event.exhaust; cases "(case e of Click f \<Rightarrow> f | _ \<Rightarrow> Strawberry)")
     (auto simp: loadFruits_done_def updateFruitVisibility_def updateFruitCheckboxes_def
        positionFruits_def rebuild_fruit_checkboxes_def strawberry_change_def apple_change_def Let_def
        split: if_splits)

lemma fruit_step_inv:
  assumes "fruit_inv fs" and "fruit_step fs e = Some fs'" and "fruitsLoaded fs \<or> (\<forall>f. e \<noteq> Click f)"
  shows "fruit_inv fs'"
proof (cases e)
  case (FruitsArrive s a)
  with assms show ?thesis by (auto intro: fruit_inv_loadFruits split: if_splits)
next
  case (Click f)
  with assms show ?thesis
    by (cases f) (auto intro: fruit_inv_strawberry_change fruit_inv_apple_change)
next
  case (UpdateVisibility sz)
  with assms show ?thesis by (auto intro: fruit_inv_update)
next
  case PositionFruits
  with assms show ?thesis by (auto intro: fruit_inv_position)
next
  case RebuildList
  with assms show ?thesis by (auto intro: fruit_inv_rebuild)
qed

lemma fruit_run_inv:
  "fruit_inv fs \<Longrightarrow> fruitsLoaded fs \<or> no_click_before_arrival es \<Longrightarrow> fruit_run fs es = Some fs' \<Longrightarrow> fruit_inv fs'"
proof (induction es arbitrary: fs)
  case Nil
  then show ?case by simp
next
  case (Cons e es)
  from Cons.prems(3) obtain fs1 where s1: "fruit_step fs e = Some fs1" and r: "fruit_run fs1 es = Some fs'"
    by (auto split: option.splits)
  have nc: "fruitsLoaded fs \<or> (\<forall>f. e \<noteq> Click f)"
    using Cons.prems(2) by (cases e) auto
  have i1: "fruit_inv fs1" by (rule fruit_step_inv [OF Cons.prems(1) s1 nc])
  have "fruitsLoaded fs1 \<or> no_click_before_arrival es"
  proof (cases "fruitsLoaded fs")
    case True
    then show ?thesis using fruit_step_loaded [OF s1] by blast
  next
    case False
    with Cons.prems(2) have "no_click_before_arrival (e # es)" by blast
    then show ?thesis using s1 False by (cases e) (auto simp: loadFruits_done_def split: if_splits)
  qed
  from Cons.IH [OF i1 this r] show ?case .
qed

lemmas fruit_eval = fruit_init_def loadFruits_done_def updateFruitVisibility_def
  updateFruitCheckboxes_def auto_visible_def positionFruits_def strawberry_change_def
  apple_change_def rebuild_fruit_checkboxes_def shown_def Let_def

subsection \<open>Properties of the overlay\<close>

text \<open>
  C14. If no fruit checkbox is clicked before both fruit models have arrived, then in
  every state of every run of the overlay's events at most one reference fruit is
  visible.
\<close>

theorem fruit_at_most_one_shown:
  "fruit_run fruit_init es = Some fs \<Longrightarrow> no_click_before_arrival es \<Longrightarrow>
     \<not> (shown Strawberry fs \<and> shown Apple fs)"
  using fruit_run_inv [OF fruit_inv_init] by (auto simp: fruit_inv_def)

theorem fruit_at_most_one_shown_witness:
  "fruit_run fruit_init [FruitsArrive True True, Click Strawberry, UpdateVisibility ''2.0'', Click Apple]
     \<noteq> None \<and>
   no_click_before_arrival [FruitsArrive True True, Click Strawberry, UpdateVisibility ''2.0'', Click Apple] \<and>
   \<not> (shown Strawberry (the (fruit_run fruit_init
          [FruitsArrive True True, Click Strawberry, UpdateVisibility ''2.0'', Click Apple])) \<and>
      shown Apple (the (fruit_run fruit_init
          [FruitsArrive True True, Click Strawberry, UpdateVisibility ''2.0'', Click Apple])))"
proof -
  let ?es = "[FruitsArrive True True, Click Strawberry, UpdateVisibility ''2.0'', Click Apple]"
  have r: "fruit_run fruit_init ?es = Some (the (fruit_run fruit_init ?es))"
    by (simp add: fruit_eval)
  have n: "no_click_before_arrival ?es" by simp
  have nn: "fruit_run fruit_init ?es \<noteq> None" using r by (metis option.distinct(1))
  show ?thesis using fruit_at_most_one_shown [OF r n] nn n by blast
qed

text \<open>
  The exclusion is not an invariant of the code: a click on the strawberry
  checkbox before the fruit models have arrived sets the strawberry override without
  touching the apple's (there is no \<open>appleObject\<close> yet), and once the models have
  arrived, \<open>updateFruitVisibility("2.0")\<close> shows both fruits.
\<close>

theorem fruit_both_shown_after_early_click:
  "\<exists>fs. fruit_run fruit_init [Click Strawberry, FruitsArrive True True, UpdateVisibility ''2.0''] = Some fs \<and>
        shown Strawberry fs \<and> shown Apple fs"
  by (simp add: fruit_eval)

text \<open>
  C15. Checking the strawberry box hides the apple at once, whatever the apple's
  override was; when the apple object exists its override becomes "off", so every
  later \<open>updateFruitVisibility\<close> keeps it hidden.
\<close>

theorem strawberry_on_hides_apple:
  assumes "\<not> strawberryChecked fs"
  shows "\<not> shown Apple (strawberry_change fs) \<and>
         (appleObject fs \<noteq> None \<longrightarrow> overrideApple (strawberry_change fs) = Some False \<and>
            (\<forall>sz. \<not> shown Apple (updateFruitVisibility sz (strawberry_change fs))))"
  using assms by (auto simp: fruit_eval split: option.splits)

theorem strawberry_on_hides_apple_witness:
  "\<not> strawberryChecked (fruit_init\<lparr>fruitsLoaded := True, appleObject := Some \<lparr>fvisible = True, fposition = (0, 0, 0)\<rparr>,
                                     overrideApple := Some True, appleChecked := True\<rparr>) \<and>
   \<not> shown Apple (strawberry_change (fruit_init\<lparr>fruitsLoaded := True,
        appleObject := Some \<lparr>fvisible = True, fposition = (0, 0, 0)\<rparr>, overrideApple := Some True, appleChecked := True\<rparr>))"
  using strawberry_on_hides_apple [of "fruit_init\<lparr>fruitsLoaded := True,
        appleObject := Some \<lparr>fvisible = True, fposition = (0, 0, 0)\<rparr>, overrideApple := Some True, appleChecked := True\<rparr>"]
  by (simp add: fruit_init_def)

text \<open>
  C16. Without user overrides, \<open>updateFruitVisibility\<close> shows the strawberry exactly
  for size \<open>1.0\<close> and the apple exactly for size \<open>2.0\<close>.
\<close>

theorem fruit_auto_visibility:
  assumes "fruitsLoaded fs" "overrideStrawberry fs = None" "overrideApple fs = None"
    "strawberryObject fs \<noteq> None" "appleObject fs \<noteq> None"
  shows "(shown Strawberry (updateFruitVisibility sz fs) \<longleftrightarrow> sz = ''1.0'') \<and>
         (shown Apple (updateFruitVisibility sz fs) \<longleftrightarrow> sz = ''2.0'')"
  using assms by (auto simp: fruit_eval)

theorem fruit_auto_visibility_witness:
  "shown Strawberry (updateFruitVisibility ''1.0'' (loadFruits_done True True fruit_init)) \<and>
   \<not> shown Apple (updateFruitVisibility ''1.0'' (loadFruits_done True True fruit_init)) \<and>
   shown Apple (updateFruitVisibility ''2.0'' (loadFruits_done True True fruit_init))"
proof -
  let ?fs = "loadFruits_done True True fruit_init"
  have h: "fruitsLoaded ?fs" "overrideStrawberry ?fs = None" "overrideApple ?fs = None"
    "strawberryObject ?fs \<noteq> None" "appleObject ?fs \<noteq> None"
    by (simp_all add: loadFruits_done_def fruit_init_def)
  show ?thesis
    using fruit_auto_visibility [OF h, of "''1.0''"] fruit_auto_visibility [OF h, of "''2.0''"] by simp
qed

end
