(* ===== verification/PadDims.thy ===== *)
theory PadDims
  imports Prelude
begin

text \<open>
  The pad-dimension side-car file (\<open>parsePadDimensions\<close> and \<open>updatePadDimensions\<close>
  of \<open>gripper-viewer.js\<close>). \<open>parsePadDimensions\<close> searches the text for the regular
  expression \<open>/X:\s*([0-9.]+)\s*[\r\n]+Y:\s*([0-9.]+)\s*[\r\n]+Z:\s*([0-9.]+)/i\<close> and
  returns its three captures as strings. The model is the deterministic matcher
  that expression denotes: whitespace and the characters \<open>[0-9.]\<close> are disjoint, so
  every greedy quantifier takes its maximal run and never backtracks, and the
  separator \<open>\s*[\r\n]+\<close> before a tag matches exactly a non-empty whitespace run
  whose last character is a line break. \<open>\s\<close> is JavaScript's whitespace class in
  the Latin-1 range (tab, line feed, vertical tab, form feed, carriage return, space,
  no-break space). The readouts multiply the captured strings, which JavaScript
  converts with \<open>Number\<close>; a string that is no decimal literal (such as \<open>1.2.3\<close>)
  becomes \<open>NaN\<close>, printed by \<open>toFixed\<close> as \<open>NaN\<close>.
\<close>

subsection \<open>Character classes\<close>

definition is_space :: "char \<Rightarrow> bool" where
  "is_space c \<longleftrightarrow> c \<in> set [CHR 0x09, CHR 0x0A, CHR 0x0B, CHR 0x0C, CHR 0x0D, CHR 0x20, CHR 0xA0]"

definition is_newline :: "char \<Rightarrow> bool" where
  "is_newline c \<longleftrightarrow> c = CHR 0x0A \<or> c = CHR 0x0D"

definition is_digit :: "char \<Rightarrow> bool" where
  "is_digit c \<longleftrightarrow> c \<in> set decimal_digits"

definition is_num_char :: "char \<Rightarrow> bool" where
  "is_num_char c \<longleftrightarrow> is_digit c \<or> c = CHR ''.''"

subsection \<open>The matcher\<close>

text \<open>\<open>T:\s*([0-9.]+)\<close> for the tag letter \<open>T\<close> in either case: the capture and the rest.\<close>

fun tag_field :: "char \<Rightarrow> char \<Rightarrow> string \<Rightarrow> (string \<times> string) option" where
  "tag_field upper lower (c # d # r) =
     (if (c = upper \<or> c = lower) \<and> d = CHR '':'' then
        (let r1 = dropWhile is_space r; num = takeWhile is_num_char r1
         in if num = [] then None else Some (num, dropWhile is_num_char r1))
      else None)"
| "tag_field upper lower _ = None"

text \<open>\<open>\s*[\r\n]+\<close> in front of the next tag: the rest after it, if it matches.\<close>

definition line_sep :: "string \<Rightarrow> string option" where
  "line_sep s = (let ws = takeWhile is_space s
                 in if ws \<noteq> [] \<and> is_newline (last ws) then Some (dropWhile is_space s) else None)"

definition match_at :: "string \<Rightarrow> (string \<times> string \<times> string) option" where
  "match_at s =
     (case tag_field CHR ''X'' CHR ''x'' s of
        None \<Rightarrow> None
      | Some (x, r1) \<Rightarrow>
          (case line_sep r1 of
             None \<Rightarrow> None
           | Some r2 \<Rightarrow>
               (case tag_field CHR ''Y'' CHR ''y'' r2 of
                  None \<Rightarrow> None
                | Some (y, r3) \<Rightarrow>
                    (case line_sep r3 of
                       None \<Rightarrow> None
                     | Some r4 \<Rightarrow>
                         (case tag_field CHR ''Z'' CHR ''z'' r4 of
                            None \<Rightarrow> None
                          | Some (z, _) \<Rightarrow> Some (x, y, z))))))"

text \<open>\<open>text.match(re)\<close> without the \<open>g\<close> flag: the match at the leftmost position.\<close>

fun parsePadDimensions :: "string \<Rightarrow> (string \<times> string \<times> string) option" where
  "parsePadDimensions [] = None"
| "parsePadDimensions (c # cs) =
     (case match_at (c # cs) of Some m \<Rightarrow> Some m | None \<Rightarrow> parsePadDimensions cs)"

subsection \<open>\<open>Number\<close> and the readouts\<close>

definition digit_val :: "char \<Rightarrow> nat" where
  "digit_val c = of_char c - 48"

definition digits_value :: "string \<Rightarrow> nat" where
  "digits_value s = foldl (\<lambda>n c. 10 * n + digit_val c) 0 s"

text \<open>
  \<open>Number(s)\<close> for a string over \<open>[0-9.]\<close>: \<open>""\<close> is \<open>0\<close>; a decimal literal
  \<open>ddd\<close>, \<open>ddd.\<close>, \<open>ddd.ddd\<close> or \<open>.ddd\<close> is its value; anything else is
  \<open>NaN\<close> (\<open>None\<close>).
\<close>

definition js_number :: "string \<Rightarrow> real option" where
  "js_number s =
     (let a = takeWhile is_digit s; b = dropWhile is_digit s
      in if b = [] then Some (real (digits_value a))
         else if hd b = CHR ''.'' \<and> list_all is_digit (tl b) \<and> (a \<noteq> [] \<or> tl b \<noteq> [])
         then Some (real (digits_value a) + real (digits_value (tl b)) / 10 ^ length (tl b))
         else None)"

definition mm2 :: string where
  "mm2 = '' mm'' @ [CHR 0xB2]"

definition PAD_SIZE_UNAVAILABLE :: string where
  "PAD_SIZE_UNAVAILABLE = ''Pad size unavailable''"

definition PAD_DIMS_PLACEHOLDER :: string where
  "PAD_DIMS_PLACEHOLDER = ''Y: -- mm, Z: -- mm''"

text \<open>\<open>`${(parsed.y * parsed.z).toFixed(1)} mm\<^sup>2`\<close>.\<close>

definition area_text :: "string \<Rightarrow> string \<Rightarrow> string" where
  "area_text y z =
     (case (js_number y, js_number z) of
        (Some a, Some b) \<Rightarrow> to_fixed1 (a * b)
      | _ \<Rightarrow> ''NaN'') @ mm2"

text \<open>The pair (\<open>sizeReadout\<close>, \<open>padDimsReadout\<close>) a fetched text produces.\<close>

definition pad_readouts :: "string \<Rightarrow> string \<times> string" where
  "pad_readouts text =
     (case parsePadDimensions text of
        Some (x, y, z) \<Rightarrow> (area_text y z, ''Y: '' @ y @ '' mm, Z: '' @ z @ '' mm'')
      | None \<Rightarrow> (PAD_SIZE_UNAVAILABLE, PAD_DIMS_PLACEHOLDER))"

text \<open>
  How the side-car fetch ends: a text from an \<open>ok\<close> response, a response that is not
  \<open>ok\<close> (thrown as an error), or a rejected \<open>fetch\<close> or \<open>text()\<close> (caught).
\<close>

datatype pad_response = PadText string | PadNotOk | PadFetchError

text \<open>
  \<open>updatePadDimensions(size, token)\<close> once its fetch has ended, with \<open>cur\<close> the value
  of \<open>loadToken\<close> then: the readouts it writes, or \<open>None\<close> when it returns without
  writing because the token is stale (both the \<open>try\<close> path and the \<open>catch\<close> path
  compare the token before writing).
\<close>

definition updatePadDimensions :: "token \<Rightarrow> token \<Rightarrow> pad_response \<Rightarrow> (string \<times> string) option" where
  "updatePadDimensions tok cur r =
     (case r of
        PadText text \<Rightarrow> (if tok \<noteq> cur then None else Some (pad_readouts text))
      | PadNotOk \<Rightarrow> (if tok \<noteq> cur then None else Some (PAD_SIZE_UNAVAILABLE, PAD_DIMS_PLACEHOLDER))
      | PadFetchError \<Rightarrow> (if tok \<noteq> cur then None else Some (PAD_SIZE_UNAVAILABLE, PAD_DIMS_PLACEHOLDER)))"

text \<open>The file the generator writes: three tagged lines.\<close>

definition pad_file :: "nat \<Rightarrow> nat \<Rightarrow> nat \<Rightarrow> string" where
  "pad_file a b c =
     ''X: '' @ show_nat a @ [CHR 0x0A] @ ''Y: '' @ show_nat b @ [CHR 0x0A] @ ''Z: '' @ show_nat c"


lemma digit_val_digit_char: "d < 10 \<Longrightarrow> digit_val (digit_char d) = d"
proof -
  assume "d < 10"
  then have "d \<in> {0,1,2,3,4,5,6,7,8,9}" by auto
  then show ?thesis by (auto simp: digit_val_def digit_char_def decimal_digits_def)
qed

lemma digits_value_snoc: "digits_value (xs @ [c]) = 10 * digits_value xs + digit_val c"
  by (simp add: digits_value_def)

lemma digits_value_show_nat: "digits_value (show_nat n) = n"
proof (induction n rule: show_nat.induct)
  case (1 n)
  show ?case
  proof (cases "n < 10")
    case True
    then show ?thesis by (subst show_nat.simps) (simp add: digits_value_def digit_val_digit_char)
  next
    case False
    with "1.IH" have "digits_value (show_nat (n div 10)) = n div 10" by simp
    with False show ?thesis by (subst show_nat.simps) (simp add: digits_value_snoc digit_val_digit_char)
  qed
qed

lemma is_digit_show_nat: "c \<in> set (show_nat n) \<Longrightarrow> is_digit c"
  using show_nat_digits by (auto simp: is_digit_def)

lemma js_number_show_nat: "js_number (show_nat n) = Some (real n)"
proof -
  have t: "takeWhile is_digit (show_nat n) = show_nat n" and d: "dropWhile is_digit (show_nat n) = []"
    by (simp_all add: is_digit_show_nat)
  show ?thesis unfolding js_number_def Let_def t d by (simp add: digits_value_show_nat)
qed

lemma to_fixed1_of_nat: "to_fixed1 (real n) = show_nat n @ ''.0''"
proof -
  have "\<lfloor>\<bar>real n\<bar> * 10 + 1/2\<rfloor> = int (n * 10)"
    by (simp add: floor_eq_iff)
  then have n: "nat \<lfloor>\<bar>real n\<bar> * 10 + 1/2\<rfloor> = n * 10" by simp
  show ?thesis unfolding to_fixed1_def Let_def n by (simp add: digit_char_def decimal_digits_def)
qed

lemma digits_then_other:
  assumes "\<And>c. c \<in> set ds \<Longrightarrow> is_digit c" "ds \<noteq> []" "\<not> is_num_char y"
  shows "takeWhile is_num_char (ds @ y # ys) = ds" "dropWhile is_num_char (ds @ y # ys) = y # ys"
    "dropWhile is_space (ds @ y # ys) = ds @ y # ys"
proof -
  have num: "\<And>c. c \<in> set ds \<Longrightarrow> is_num_char c" using assms(1) by (simp add: is_num_char_def)
  show "takeWhile is_num_char (ds @ y # ys) = ds" using num assms(3) by (simp add: takeWhile_append2)
  show "dropWhile is_num_char (ds @ y # ys) = y # ys" using num assms(3) by (simp add: dropWhile_append2)
  obtain d ds' where "ds = d # ds'" using assms(2) by (cases ds) auto
  moreover have "\<not> is_space d" using assms(1) calculation
    by (auto simp: is_space_def is_digit_def decimal_digits_def)
  ultimately show "dropWhile is_space (ds @ y # ys) = ds @ y # ys" by simp
qed

lemma digits_then_end:
  assumes "\<And>c. c \<in> set ds \<Longrightarrow> is_digit c" "ds \<noteq> []"
  shows "takeWhile is_num_char ds = ds" "dropWhile is_space ds = ds"
proof -
  show "takeWhile is_num_char ds = ds" using assms(1) by (simp add: is_num_char_def)
  obtain d ds' where "ds = d # ds'" using assms(2) by (cases ds) auto
  moreover have "\<not> is_space d" using assms(1) calculation
    by (auto simp: is_space_def is_digit_def decimal_digits_def)
  ultimately show "dropWhile is_space ds = ds" by simp
qed

lemma parse_pad_file: "parsePadDimensions (pad_file a b c) = Some (show_nat a, show_nat b, show_nat c)"
proof -
  have lf: "\<not> is_num_char (CHR 0x0A)" by (simp add: is_num_char_def is_digit_def decimal_digits_def)
  note da = digits_then_other [OF is_digit_show_nat show_nat_nonempty lf, of a]
  note db = digits_then_other [OF is_digit_show_nat show_nat_nonempty lf, of b]
  note dc = digits_then_end [OF is_digit_show_nat show_nat_nonempty, of c]
  have m: "match_at (pad_file a b c) = Some (show_nat a, show_nat b, show_nat c)"
    by (simp add: match_at_def pad_file_def line_sep_def da db dc is_space_def is_newline_def Let_def)
  show ?thesis using m by (simp add: pad_file_def)
qed

lemma tag_field_capture:
  "tag_field u l s = Some (n, r) \<Longrightarrow> n \<noteq> [] \<and> list_all is_num_char n"
  by (cases "(u, l, s)" rule: tag_field.cases) (auto simp: Let_def list_all_iff dest: set_takeWhileD split: if_splits)

lemma match_at_captures:
  assumes "match_at s = Some (x, y, z)"
  shows "x \<noteq> [] \<and> y \<noteq> [] \<and> z \<noteq> [] \<and> list_all is_num_char (x @ y @ z)"
proof -
  from assms obtain r1 r2 r3 r4 r5 where
    "tag_field CHR ''X'' CHR ''x'' s = Some (x, r1)" and
    "tag_field CHR ''Y'' CHR ''y'' r2 = Some (y, r3)" and
    "tag_field CHR ''Z'' CHR ''z'' r4 = Some (z, r5)"
    by (auto simp: match_at_def split: option.splits)
  then show ?thesis by (auto dest!: tag_field_capture)
qed

subsection \<open>Properties of the parser and the readouts\<close>

text \<open>
  The example of the specification: the text \<open>X: 10\nY: 27\nZ: 31\<close> gives the
  area readout \<open>837.0 mm\<^sup>2\<close> and the dimension readout \<open>Y: 27 mm, Z: 31 mm\<close>.
\<close>

theorem pad_readouts_spec_example:
  "pad_readouts (''X: 10'' @ [CHR 0x0A] @ ''Y: 27'' @ [CHR 0x0A] @ ''Z: 31'') =
     (''837.0'' @ mm2, ''Y: 27 mm, Z: 31 mm'')"
  by (simp add: pad_readouts_def match_at_def line_sep_def is_space_def is_newline_def
      is_num_char_def is_digit_def area_text_def js_number_def to_fixed1_def digits_value_def
      digit_val_def js_simps show_nat.simps)

text \<open>
  C30. Round trip: for every file the generator writes (\<open>X\<close>, \<open>Y\<close>, \<open>Z\<close> as
  decimal integers on three lines) with \<open>Y\<close>, \<open>Z\<close> and \<open>Y \<times> Z\<close> below \<open>2\<^sup>5\<^sup>3\<close>,
  \<open>parsePadDimensions\<close> recovers the printed numbers and the readouts are the product
  printed with one decimal and the two printed dimensions. Below \<open>2\<^sup>5\<^sup>3\<close> a double
  holds these integers and their product exactly, and below \<open>10\<^sup>2\<^sup>1\<close>
  \<open>toFixed(1)\<close> prints fixed notation, so the model's exact arithmetic is the
  program's there; above, \<open>Number\<close> rounds and \<open>toFixed\<close> switches to exponent form,
  which the model does not follow.
\<close>

theorem pad_readouts_generated_file:
  assumes "b < 2 ^ 53" "c < 2 ^ 53" "b * c < 2 ^ 53"
  shows "pad_readouts (pad_file a b c) =
     (show_nat (b * c) @ ''.0'' @ mm2, ''Y: '' @ show_nat b @ '' mm, Z: '' @ show_nat c @ '' mm'')"
proof -
  have "real b * real c = real (b * c)" by simp
  then have "area_text (show_nat b) (show_nat c) = show_nat (b * c) @ ''.0'' @ mm2"
    by (simp add: area_text_def js_number_show_nat to_fixed1_of_nat del: of_nat_mult)
  then show ?thesis by (simp add: pad_readouts_def parse_pad_file)
qed

theorem pad_readouts_generated_file_witness:
  "(27::nat) < 2 ^ 53 \<and> (31::nat) < 2 ^ 53 \<and> (27 * 31::nat) < 2 ^ 53 \<and>
   pad_readouts (pad_file 10 27 31) = (''837.0'' @ mm2, ''Y: 27 mm, Z: 31 mm'')"
  using pad_readouts_generated_file [of 27 31 10] by (simp add: show_nat.simps digit_char_def decimal_digits_def)

text \<open>
  C31. Malformed content is not the fallback: whenever the pattern matches, the
  readouts are built from the captures and never are the placeholder strings; when a
  capture is no decimal literal (\<open>Number("2.5.1")\<close> is \<open>NaN\<close>), the area readout is
  \<open>NaN mm\<^sup>2\<close>.
\<close>

theorem pad_readouts_malformed_number:
  assumes "parsePadDimensions t = Some (x, y, z)"
  shows "pad_readouts t \<noteq> (PAD_SIZE_UNAVAILABLE, PAD_DIMS_PLACEHOLDER) \<and>
         snd (pad_readouts t) = ''Y: '' @ y @ '' mm, Z: '' @ z @ '' mm'' \<and>
         (js_number y = None \<or> js_number z = None \<longrightarrow> fst (pad_readouts t) = ''NaN'' @ mm2)"
proof -
  have "last (area_text y z) = CHR 0xB2" by (simp add: area_text_def mm2_def)
  then have "area_text y z \<noteq> PAD_SIZE_UNAVAILABLE" by (auto simp: PAD_SIZE_UNAVAILABLE_def)
  then show ?thesis using assms by (auto simp: pad_readouts_def area_text_def split: option.splits)
qed

theorem pad_readouts_malformed_number_witness:
  "parsePadDimensions (''X: 1'' @ [CHR 0x0A] @ ''Y: 2.5.1'' @ [CHR 0x0A] @ ''Z: 3'') = Some (''1'', ''2.5.1'', ''3'') \<and>
   js_number ''2.5.1'' = None \<and>
   pad_readouts (''X: 1'' @ [CHR 0x0A] @ ''Y: 2.5.1'' @ [CHR 0x0A] @ ''Z: 3'') = (''NaN'' @ mm2, ''Y: 2.5.1 mm, Z: 3 mm'')"
proof -
  have p: "parsePadDimensions (''X: 1'' @ [CHR 0x0A] @ ''Y: 2.5.1'' @ [CHR 0x0A] @ ''Z: 3'') = Some (''1'', ''2.5.1'', ''3'')"
    by (simp add: match_at_def line_sep_def is_space_def is_newline_def is_num_char_def is_digit_def js_simps)
  have n: "js_number ''2.5.1'' = None" by (simp add: js_number_def is_digit_def decimal_digits_def)
  show ?thesis using pad_readouts_malformed_number [OF p] p n by (cases "pad_readouts (''X: 1'' @ [CHR 0x0A] @ ''Y: 2.5.1'' @ [CHR 0x0A] @ ''Z: 3'')") simp
qed

text \<open>
  C32. Whatever the text, a successful parse captures three non-empty strings over
  \<open>[0-9.]\<close>: the dimension readout never shows anything but those characters
  between its fixed words.
\<close>

theorem parse_captures_numeric:
  "parsePadDimensions t = Some (x, y, z) \<Longrightarrow>
     x \<noteq> [] \<and> y \<noteq> [] \<and> z \<noteq> [] \<and> list_all is_num_char (x @ y @ z)"
proof (induction t)
  case Nil
  then show ?case by simp
next
  case (Cons c cs)
  then show ?case by (auto split: option.splits dest: match_at_captures)
qed

theorem parse_captures_numeric_witness:
  "parsePadDimensions (pad_file 10 27 31) = Some (''10'', ''27'', ''31'') \<and>
   ''10'' \<noteq> [] \<and> ''27'' \<noteq> [] \<and> ''31'' \<noteq> [] \<and> list_all is_num_char (''10'' @ ''27'' @ ''31'')"
proof -
  have p: "parsePadDimensions (pad_file 10 27 31) = Some (''10'', ''27'', ''31'')"
    by (simp add: parse_pad_file show_nat.simps js_simps)
  show ?thesis using parse_captures_numeric [OF p] p by simp
qed

end
