(* ===== verification/Loader.thy ===== *)
theory Loader
  imports Openness Checklist Fruit PadDims
begin

text \<open>
  The loader of \<open>gripper-viewer.js\<close> and the viewer it drives: \<open>setSizeByIndex\<close>,
  \<open>loadSize\<close>, \<open>loadPart\<close>, \<open>updatePadDimensions\<close>, \<open>prefetchAdjacentSizes\<close> and
  the event listeners, composed into one state machine. \<open>loadSize\<close> is an \<open>async\<close>
  function; each call is an activation (a \<open>frame\<close>) that the browser resumes later:
  \<^item> the synchronous prefix (\<open>++loadToken\<close>, \<open>resetLabel\<close>, \<open>group.clear()\<close>,
    \<open>componentObjects.clear()\<close>, and one fetch per part) runs inside the slider's
    \<open>input\<close> listener;
  \<^item> each part fetch settles on its own (\<open>PartLoaded\<close> runs \<open>loadPart\<close>'s \<open>onLoad\<close>
    callback with the mesh's bounding box, \<open>PartFailed\<close> its \<open>onError\<close>); the frame
    records the value each \<open>loadPart\<close> promise resolved to;
  \<^item> when all have settled, the continuation after \<open>await Promise.all\<close> may run
    (\<open>PartsJoined\<close>); it returns at once if its token is stale, and otherwise frames
    the group, captures base positions, collects the fingers, reapplies the
    openness and fetches the side-car file;
  \<^item> when that fetch ends (\<open>PadDone\<close>), \<open>updatePadDimensions\<close> writes the readouts
    if its token is still current, and \<open>loadSize\<close> continues with
    \<open>updateFruitVisibility\<close>, \<open>positionFruits\<close> and \<open>prefetchAdjacentSizes\<close>.
  The other events are the DOM listeners. Which enabled event happens next is the
  browser's choice: \<open>step\<close> returns \<open>None\<close> for an event that cannot happen in a
  state, and the reachable states are those of every interleaving. Between the
  settling of the last part and the \<open>Promise.all\<close> continuation only microtasks run
  in the browser; allowing any event there only adds interleavings.
\<close>

datatype stage = AwaitParts "part list" "(file_name \<times> bool) list" | AwaitPad

record frame =
  ftoken :: token
  fsize :: size_name
  fstage :: stage

record viewer = scene +
  loadToken :: token
  frames :: "frame list"
  fruits :: fruit_state
  opennessSlider :: nat
  sizeSlider :: nat
  sizeValueText :: string
  lastHitPoint :: "vec3 option"
  lastLabel :: string
  labelVisible :: bool
  prefetched :: "string list"

text \<open>
  The first hit of the ray cast on a click: an object of \<open>objectsToCheck\<close> (a part
  object of the group, or a fruit) and the point hit. Which object is nearest depends
  on the camera and is the event's choice.
\<close>

datatype pick = PickPart nat vec3 | PickFruit fruit vec3

datatype event =
    SizeInput int
  | OpennessInput nat
  | PartLoaded token file_name "box option"
  | PartFailed token file_name
  | PartsJoined token
  | PadDone token pad_response
  | FruitModelsLoaded bool bool
  | FruitChange fruit
  | PartChange file_name
  | GroupChange string
  | ExpandToggle string
  | PointerDown "pick option" bool
  | AnimationFrame bool

subsection \<open>Frames\<close>

definition find_frame :: "token \<Rightarrow> viewer \<Rightarrow> frame option" where
  "find_frame tok v = find (\<lambda>fr. ftoken fr = tok) (frames v)"

definition set_frame :: "token \<Rightarrow> frame \<Rightarrow> viewer \<Rightarrow> viewer" where
  "set_frame tok fr' v = v\<lparr>frames := map (\<lambda>fr. if ftoken fr = tok then fr' else fr) (frames v)\<rparr>"

definition drop_frame :: "token \<Rightarrow> viewer \<Rightarrow> viewer" where
  "drop_frame tok v = v\<lparr>frames := filter (\<lambda>fr. ftoken fr \<noteq> tok) (frames v)\<rparr>"

subsection \<open>\<open>loadSize\<close> and its helpers\<close>

definition resetLabel :: "viewer \<Rightarrow> viewer" where
  "resetLabel v = v\<lparr>lastHitPoint := None, lastLabel := [], labelVisible := False\<rparr>"

subsection \<open>The part label\<close>

text \<open>
  \<open>findLabelForObject\<close> on the object hit: the first ancestor with a non-empty
  \<open>userData.label\<close>. A part's meshes carry the part's label (\<open>applyMaterial\<close>), a
  fruit model carries \<open>config.label\<close>; the group and the scene above them carry none.
\<close>

definition findLabelForObject :: "viewer \<Rightarrow> pick \<Rightarrow> string option" where
  "findLabelForObject v pk =
     (case pk of
        PickPart i _ \<Rightarrow> (if objLabel (obj_at v i) \<noteq> [] then Some (objLabel (obj_at v i)) else None)
      | PickFruit f _ \<Rightarrow> (if fruitLabel (FRUIT_CONFIG f) \<noteq> [] then Some (fruitLabel (FRUIT_CONFIG f)) else None))"

fun pick_point :: "pick \<Rightarrow> vec3" where
  "pick_point (PickPart _ p) = p"
| "pick_point (PickFruit _ p) = p"

text \<open>
  \<open>objectsToCheck\<close> of the \<open>pointerdown\<close> listener: every child of the group, and
  a fruit only while it is visible. The ray cast does not test \<open>visible\<close>, so a part
  hidden in the checklist can still be hit.
\<close>

definition pickable :: "viewer \<Rightarrow> pick \<Rightarrow> bool" where
  "pickable v pk =
     (case pk of
        PickPart i _ \<Rightarrow> i \<in> set (children v)
      | PickFruit f _ \<Rightarrow> shown f (fruits v))"

text \<open>
  \<open>updateLabelPosition\<close>, run by \<open>animate\<close> on every frame and after a hit; the flag
  says whether the projected hit point lies inside the clip range (\<open>-1 \<le> z \<le> 1\<close>).
  Inside, only the label's screen position changes, which is presentation.
\<close>

definition updateLabelPosition :: "bool \<Rightarrow> viewer \<Rightarrow> viewer" where
  "updateLabelPosition inClip v =
     (if lastHitPoint v = None then v
      else if \<not> inClip then v\<lparr>labelVisible := False\<rparr>
      else v)"

definition pointerDown :: "pick option \<Rightarrow> bool \<Rightarrow> viewer \<Rightarrow> viewer" where
  "pointerDown hit inClip v =
     (case hit of
        None \<Rightarrow> resetLabel v
      | Some pk \<Rightarrow>
          (case findLabelForObject v pk of
             None \<Rightarrow> v
           | Some labelText \<Rightarrow>
               updateLabelPosition inClip
                 (v\<lparr>lastHitPoint := Some (pick_point pk), lastLabel := labelText, labelVisible := True\<rparr>)))"

text \<open>The synchronous prefix of \<open>loadSize(size)\<close>, up to its first \<open>await\<close>.\<close>

definition loadSize :: "size_name \<Rightarrow> viewer \<Rightarrow> viewer" where
  "loadSize sz v =
     (let currentToken = Suc (loadToken v);
          v1 = resetLabel (v\<lparr>loadToken := currentToken\<rparr>);
          v2 = v1\<lparr>children := [], componentObjects := Map.empty\<rparr>
      in v2\<lparr>frames := frames v2 @ [\<lparr>ftoken = currentToken, fsize = sz, fstage = AwaitParts PARTS []\<rparr>]\<rparr>)"

definition setSizeByIndex :: "int \<Rightarrow> viewer \<Rightarrow> viewer" where
  "setSizeByIndex index v =
     (let clamped = js_clamp 0 (int (length SIZES) - 1) index;
          sz = SIZES ! nat clamped
      in loadSize sz (v\<lparr>sizeSlider := nat clamped, sizeValueText := sz @ ''x''\<rparr>))"

text \<open>
  \<open>loadPart\<close>'s \<open>onLoad\<close> callback for a fetch issued with \<open>token\<close> for \<open>size\<close>: the
  new state and the value the promise resolves to.
\<close>

definition loadPart_onLoad :: "token \<Rightarrow> size_name \<Rightarrow> part \<Rightarrow> box option \<Rightarrow> viewer \<Rightarrow> viewer \<times> bool" where
  "loadPart_onLoad token sz p bnds v =
     (if token \<noteq> loadToken v then (v, False)
      else (add_part_obj
              \<lparr>partFile = part_file p, objLabel = part_label p, meshSize = sz,
               visible = vis_of (componentVisibility v) (part_file p), position = (0, 0, 0),
               basePosition = None, bounds = bnds\<rparr> v, True))"

text \<open>A part fetch of frame \<open>tok\<close> settles: loaded (with its mesh's box) or failed.\<close>

definition part_settled :: "token \<Rightarrow> file_name \<Rightarrow> box option option \<Rightarrow> viewer \<Rightarrow> viewer option" where
  "part_settled tok f outcome v =
     (case find_frame tok v of
        Some fr \<Rightarrow>
          (case fstage fr of
             AwaitParts pend res \<Rightarrow>
               (case find (\<lambda>p. part_file p = f) pend of
                  None \<Rightarrow> None
                | Some p \<Rightarrow>
                    (let (v', r) = (case outcome of
                                      Some bnds \<Rightarrow> loadPart_onLoad tok (fsize fr) p bnds v
                                    | None \<Rightarrow> (v, False))
                     in Some (set_frame tok (fr\<lparr>fstage := AwaitParts (filter (\<lambda>q. part_file q \<noteq> f) pend)
                                                                      (res @ [(f, r)])\<rparr>) v')))
           | AwaitPad \<Rightarrow> None)
      | None \<Rightarrow> None)"

text \<open>The continuation of \<open>loadSize\<close> after \<open>await Promise.all(...)\<close>.\<close>

definition parts_joined :: "token \<Rightarrow> viewer \<Rightarrow> viewer option" where
  "parts_joined tok v =
     (case find_frame tok v of
        Some fr \<Rightarrow>
          (case fstage fr of
             AwaitParts [] res \<Rightarrow>
               (if tok \<noteq> loadToken v then Some (drop_frame tok v)
                else (let v1 = frameObject v;
                          v2 = capture_base v1;
                          v3 = collectFingerGroups v2;
                          v4 = applyOpenness (real (opennessSlider v3) / 100) v3
                      in Some (set_frame tok (fr\<lparr>fstage := AwaitPad\<rparr>) v4)))
           | _ \<Rightarrow> None)
      | None \<Rightarrow> None)"

definition prefetchSizeAssets :: "size_name \<Rightarrow> string list" where
  "prefetchSizeAssets sz = map (\<lambda>p. part_url sz (part_file p)) PARTS"

text \<open>\<open>if (prev)\<close>: \<open>undefined\<close> and the empty string are falsy.\<close>

definition js_truthy_str :: "string option \<Rightarrow> bool" where
  "js_truthy_str x = (case x of None \<Rightarrow> False | Some s \<Rightarrow> s \<noteq> [])"

definition prefetchAdjacentSizes :: "size_name \<Rightarrow> viewer \<Rightarrow> viewer" where
  "prefetchAdjacentSizes sz v =
     (let index = index_of SIZES sz
      in if index = -1 then v
         else (let prev = js_get SIZES (index - 1); next = js_get SIZES (index + 1)
               in v\<lparr>prefetched := prefetched v
                      @ (if js_truthy_str prev then prefetchSizeAssets (the prev) else [])
                      @ (if js_truthy_str next then prefetchSizeAssets (the next) else [])\<rparr>))"

text \<open>
  The continuation of \<open>loadSize\<close> after \<open>await updatePadDimensions(size, currentToken)\<close>:
  the readouts are token-guarded inside \<open>updatePadDimensions\<close>; what follows in
  \<open>loadSize\<close> is not.
\<close>

definition pad_done :: "token \<Rightarrow> pad_response \<Rightarrow> viewer \<Rightarrow> viewer option" where
  "pad_done tok r v =
     (case find_frame tok v of
        Some fr \<Rightarrow>
          (case fstage fr of
             AwaitPad \<Rightarrow>
               (let v1 = (case updatePadDimensions tok (loadToken v) r of
                            None \<Rightarrow> v
                          | Some (a, d) \<Rightarrow> v\<lparr>sizeReadout := a, padDimsReadout := d\<rparr>);
                    v2 = v1\<lparr>fruits := positionFruits (updateFruitVisibility (fsize fr) (fruits v1))\<rparr>;
                    v3 = prefetchAdjacentSizes (fsize fr) v2
                in Some (drop_frame tok v3))
           | _ \<Rightarrow> None)
      | None \<Rightarrow> None)"

subsection \<open>The listeners and the step function\<close>

definition opennessInput :: "nat \<Rightarrow> viewer \<Rightarrow> viewer" where
  "opennessInput n v = applyOpenness (real n / 100) (v\<lparr>opennessSlider := n\<rparr>)"

text \<open>Every checkbox handler of the component list ends with \<open>buildComponentList()\<close>.\<close>

definition rebuild :: "viewer \<Rightarrow> viewer" where
  "rebuild v = v\<lparr>fruits := rebuild_fruit_checkboxes (fruits v)\<rparr>"

fun step :: "viewer \<Rightarrow> event \<Rightarrow> viewer option" where
  "step v (SizeInput i) =
     (if 0 \<le> i \<and> i \<le> int (length SIZES) - 1 then Some (setSizeByIndex i v) else None)"
| "step v (OpennessInput n) = (if n \<le> 100 then Some (opennessInput n v) else None)"
| "step v (PartLoaded tok f bnds) = part_settled tok f (Some bnds) v"
| "step v (PartFailed tok f) = part_settled tok f None v"
| "step v (PartsJoined tok) = parts_joined tok v"
| "step v (PadDone tok r) = pad_done tok r v"
| "step v (FruitModelsLoaded s a) =
     map_option (\<lambda>fs. v\<lparr>fruits := fs\<rparr>) (fruit_step (fruits v) (fruit_event.FruitsArrive s a))"
| "step v (FruitChange f) = Some (v\<lparr>fruits := fruit_click f (fruits v)\<rparr>)"
| "step v (PartChange f) = (if f \<in> set part_files then Some (rebuild (part_change f v)) else None)"
| "step v (GroupChange g) =
     (case map_of COMPONENT_GROUPS g of None \<Rightarrow> None | Some files \<Rightarrow> Some (rebuild (group_change files v)))"
| "step v (ExpandToggle g) =
     (if g \<in> dom (map_of COMPONENT_GROUPS) then Some (toggle_expanded g v) else None)"
| "step v (PointerDown hit inClip) =
     (if (case hit of None \<Rightarrow> True | Some pk \<Rightarrow> pickable v pk) then Some (pointerDown hit inClip v) else None)"
| "step v (AnimationFrame inClip) = Some (updateLabelPosition inClip v)"

fun run :: "viewer \<Rightarrow> event list \<Rightarrow> viewer option" where
  "run v [] = Some v"
| "run v (e # es) = (case step v e of None \<Rightarrow> None | Some v' \<Rightarrow> run v' es)"

subsection \<open>Start-up\<close>

text \<open>
  The module's global state before its last statements run, and the state they
  leave: \<open>buildComponentList()\<close> (fruit checkboxes unchecked), \<open>loadFruits()\<close>
  (its models now in flight), \<open>setSizeByIndex(SIZES.indexOf("1.5"))\<close> and
  \<open>applyOpenness(0)\<close>.
\<close>

definition viewer_globals :: viewer where
  "viewer_globals =
     \<lparr>heap = [], children = [], componentObjects = Map.empty, componentVisibility = initial_visibility,
      groupExpanded = initial_expanded, groupPosition = (0, 0, 0), leftFinger = [], rightFinger = [],
      fingerOpenDistance = 0, sizeReadout = [], padDimsReadout = [], opennessText = [],
      tactileSrc = [], tactileAlt = [],
      loadToken = 0, frames = [], fruits = fruit_init, opennessSlider = 0, sizeSlider = 0,
      sizeValueText = [], lastHitPoint = None, lastLabel = [], labelVisible = False, prefetched = []\<rparr>"

definition init_viewer :: viewer where
  "init_viewer = applyOpenness 0 (setSizeByIndex (index_of SIZES ''1.5'') viewer_globals)"

text \<open>
  The element lookups at the top of the module and their guard: when one of the
  eleven elements is missing the module throws, and none of its other statements runs
  (no listener, no load). \<open>present\<close> tells which ids \<open>document.getElementById\<close>
  finds.
\<close>

definition REQUIRED_ELEMENTS :: "string list" where
  "REQUIRED_ELEMENTS = [''gripper-viewer'', ''gripper-size'', ''gripper-size-value'', ''gripper-overall-size'',
     ''gripper-pad-dims'', ''gripper-openness'', ''gripper-openness-value'', ''gripper-part-label'',
     ''gripper-part-name'', ''gripper-tactile-image'', ''gripper-component-list'']"

definition module_start :: "(string \<Rightarrow> bool) \<Rightarrow> viewer option" where
  "module_start present = (if list_all present REQUIRED_ELEMENTS then Some init_viewer else None)"

inductive reachable :: "viewer \<Rightarrow> bool" where
  start: "reachable init_viewer"
| step: "reachable v \<Longrightarrow> step v e = Some v' \<Longrightarrow> reachable v'"

end
