(* ===== verification/Loader_Invariant.thy ===== *)
theory Loader_Invariant
  imports Loader
begin

text \<open>
  Invariants of the viewer state machine of \<open>Loader\<close>, and their proofs over
  every interleaving of events. \<open>viewer_inv\<close> bundles:
  \<^item> \<open>inv_frames\<close>: pending \<open>loadSize\<close> activations have distinct tokens, none newer
    than \<open>loadToken\<close>;
  \<^item> \<open>inv_store\<close>: the group's children are distinct live objects with distinct part
    files, and \<open>componentObjects\<close> maps a file to an object exactly when that object
    is a child with that file;
  \<^item> \<open>inv_vis\<close>: every child is visible exactly when the checklist says so;
  \<^item> \<open>inv_current\<close> (through \<open>loading_ok\<close>): while the current request waits for its
    parts, the settled and pending parts partition \<open>PARTS\<close>, the children are the
    loaded ones in settling order, fetched for the request's size, without base
    positions;
  \<^item> \<open>settled v \<longrightarrow> placed v\<close>: once the current request has passed \<open>Promise.all\<close>,
    the finger arrays are the children split by side and every child sits at its
    base position moved by the openness.
  \<open>size_inv\<close> ties the slider, its label, the current request and the children's
  size together. Each event has its preservation lemma; \<open>step_inv\<close>,
  \<open>size_inv_step\<close>, \<open>reachable_viewer_inv\<close> and \<open>reachable_size_inv\<close> combine them.
\<close>


definition child_files :: "'a scene_scheme \<Rightarrow> file_name list" where
  "child_files s = map (\<lambda>i. partFile (obj_at s i)) (children s)"

definition inv_frames :: "viewer \<Rightarrow> bool" where
  "inv_frames v \<longleftrightarrow> distinct (map ftoken (frames v)) \<and> (\<forall>fr\<in>set (frames v). ftoken fr \<le> loadToken v)"

definition inv_store :: "viewer \<Rightarrow> bool" where
  "inv_store v \<longleftrightarrow> (\<forall>i\<in>set (children v). i < length (heap v)) \<and> distinct (children v) \<and>
     distinct (child_files v) \<and>
     (\<forall>f i. componentObjects v f = Some i \<longleftrightarrow> i \<in> set (children v) \<and> partFile (obj_at v i) = f)"

definition inv_vis :: "viewer \<Rightarrow> bool" where
  "inv_vis v \<longleftrightarrow>
     (\<forall>i\<in>set (children v). visible (obj_at v i) = vis_of (componentVisibility v) (partFile (obj_at v i)))"

definition loading_ok :: "viewer \<Rightarrow> frame \<Rightarrow> bool" where
  "loading_ok v fr \<longleftrightarrow>
     (case fstage fr of
        AwaitParts pend res \<Rightarrow>
          set pend \<subseteq> set PARTS \<and> distinct (map part_file pend @ map fst res) \<and>
          set (map part_file pend @ map fst res) = set part_files \<and>
          child_files v = map fst (filter snd res) \<and>
          (\<forall>i\<in>set (children v). basePosition (obj_at v i) = None \<and> meshSize (obj_at v i) = fsize fr)
      | AwaitPad \<Rightarrow> True)"

definition inv_current :: "viewer \<Rightarrow> bool" where
  "inv_current v \<longleftrightarrow> (\<forall>fr\<in>set (frames v). ftoken fr = loadToken v \<longrightarrow> loading_ok v fr)"

definition settled :: "viewer \<Rightarrow> bool" where
  "settled v \<longleftrightarrow> (\<forall>fr\<in>set (frames v). ftoken fr = loadToken v \<longrightarrow> fstage fr = AwaitPad)"

definition finger_sign :: "file_name \<Rightarrow> real" where
  "finger_sign f = (if f \<in> LEFT_FINGER_PARTS then 1 else if f \<in> RIGHT_FINGER_PARTS then -1 else 0)"

definition placed :: "viewer \<Rightarrow> bool" where
  "placed v \<longleftrightarrow>
     leftFinger v = filter (\<lambda>i. partFile (obj_at v i) \<in> LEFT_FINGER_PARTS) (children v) \<and>
     rightFinger v = filter (\<lambda>i. partFile (obj_at v i) \<notin> LEFT_FINGER_PARTS \<and>
                                  partFile (obj_at v i) \<in> RIGHT_FINGER_PARTS) (children v) \<and>
     (\<forall>i\<in>set (children v). \<exists>b. basePosition (obj_at v i) = Some b \<and>
        position (obj_at v i) = add_scaled b openAxis
          (finger_sign (partFile (obj_at v i)) * (fingerOpenDistance v * 0.5 * (real (opennessSlider v) / 100))))"

definition viewer_inv :: "viewer \<Rightarrow> bool" where
  "viewer_inv v \<longleftrightarrow> inv_frames v \<and> inv_store v \<and> inv_vis v \<and> inv_current v \<and> (settled v \<longrightarrow> placed v)"

definition size_inv :: "viewer \<Rightarrow> bool" where
  "size_inv v \<longleftrightarrow> sizeSlider v < length SIZES \<and> sizeValueText v = SIZES ! sizeSlider v @ ''x'' \<and>
     (\<forall>fr\<in>set (frames v). ftoken fr = loadToken v \<longrightarrow> fsize fr = SIZES ! sizeSlider v) \<and>
     (\<forall>i\<in>set (children v). meshSize (obj_at v i) = SIZES ! sizeSlider v)"

lemma more_eq_viewer_fields:
  assumes "scene.more s = scene.more t"
  shows "loadToken s = loadToken t" "frames s = frames t" "fruits s = fruits t"
    "opennessSlider s = opennessSlider t" "prefetched s = prefetched t"
    "sizeSlider s = sizeSlider t" "sizeValueText s = sizeValueText t"
    "lastHitPoint s = lastHitPoint t" "lastLabel s = lastLabel t" "labelVisible s = labelVisible t"
  using assms by (cases s, cases t, simp)+

subsection \<open>What the scene operations keep\<close>

lemma fold_set_pos_keeps:
  "partFile (obj_at (fold (set_pos_from_base h) ids s) j) = partFile (obj_at s j) \<and>
   visible (obj_at (fold (set_pos_from_base h) ids s) j) = visible (obj_at s j) \<and>
   meshSize (obj_at (fold (set_pos_from_base h) ids s) j) = meshSize (obj_at s j) \<and>
   basePosition (obj_at (fold (set_pos_from_base h) ids s) j) = basePosition (obj_at s j)"
  by (simp add: fold_set_pos_obj)

lemma applyOpenness_keeps:
  "partFile (obj_at (applyOpenness o' s) j) = partFile (obj_at s j) \<and>
   visible (obj_at (applyOpenness o' s) j) = visible (obj_at s j) \<and>
   meshSize (obj_at (applyOpenness o' s) j) = meshSize (obj_at s j) \<and>
   basePosition (obj_at (applyOpenness o' s) j) = basePosition (obj_at s j)"
  by (simp add: applyOpenness_def updateTactileImage_def apply_openness_positions_def Let_def fold_set_pos_keeps)

lemma applyOpenness_more [simp]:
  "length (heap (applyOpenness o' s)) = length (heap s)"
  by (simp add: applyOpenness_def updateTactileImage_def)

lemma capture_base_keeps:
  "partFile (obj_at (capture_base s) j) = partFile (obj_at s j) \<and>
   visible (obj_at (capture_base s) j) = visible (obj_at s j) \<and>
   meshSize (obj_at (capture_base s) j) = meshSize (obj_at s j) \<and>
   position (obj_at (capture_base s) j) = position (obj_at s j)"
  by (simp add: capture_base_obj)

lemma setPartVisibility_keeps:
  "partFile (obj_at (setPartVisibility f c s) j) = partFile (obj_at s j) \<and>
   meshSize (obj_at (setPartVisibility f c s) j) = meshSize (obj_at s j) \<and>
   basePosition (obj_at (setPartVisibility f c s) j) = basePosition (obj_at s j) \<and>
   position (obj_at (setPartVisibility f c s) j) = position (obj_at s j)"
  by (simp add: setPartVisibility_obj)

text \<open>The parts of the invariant depend only on some fields.\<close>

lemma child_files_cong:
  "children s = children t \<Longrightarrow> (\<forall>i\<in>set (children s). partFile (obj_at s i) = partFile (obj_at t i)) \<Longrightarrow>
   child_files s = child_files t"
  by (simp add: child_files_def)

lemma loading_ok_cong:
  assumes "children v = children w"
    "\<forall>i\<in>set (children v). partFile (obj_at v i) = partFile (obj_at w i) \<and>
       meshSize (obj_at v i) = meshSize (obj_at w i) \<and> basePosition (obj_at v i) = basePosition (obj_at w i)"
  shows "loading_ok v fr = loading_ok w fr"
proof -
  have "child_files v = child_files w" using assms by (intro child_files_cong) auto
  then show ?thesis using assms by (auto simp: loading_ok_def split: stage.splits)
qed

lemma inv_store_cong:
  assumes "children v = children w" "componentObjects v = componentObjects w"
    "length (heap v) = length (heap w)"
    "\<forall>i\<in>set (children v). partFile (obj_at v i) = partFile (obj_at w i)"
  shows "inv_store v = inv_store w"
proof -
  have c: "child_files v = child_files w" using assms by (intro child_files_cong) auto
  have "\<forall>f i. (i \<in> set (children v) \<and> partFile (obj_at v i) = f) \<longleftrightarrow>
                (i \<in> set (children w) \<and> partFile (obj_at w i) = f)"
    using assms by auto
  then show ?thesis using assms c unfolding inv_store_def by simp
qed

lemma placed_cong:
  assumes "children v = children w" "leftFinger v = leftFinger w" "rightFinger v = rightFinger w"
    "fingerOpenDistance v = fingerOpenDistance w" "opennessSlider v = opennessSlider w"
    "\<forall>i\<in>set (children v). partFile (obj_at v i) = partFile (obj_at w i) \<and>
       basePosition (obj_at v i) = basePosition (obj_at w i) \<and> position (obj_at v i) = position (obj_at w i)"
  shows "placed v = placed w"
proof -
  have "filter (\<lambda>i. partFile (obj_at v i) \<in> LEFT_FINGER_PARTS) (children v) =
        filter (\<lambda>i. partFile (obj_at w i) \<in> LEFT_FINGER_PARTS) (children w)"
    "filter (\<lambda>i. partFile (obj_at v i) \<notin> LEFT_FINGER_PARTS \<and> partFile (obj_at v i) \<in> RIGHT_FINGER_PARTS) (children v) =
     filter (\<lambda>i. partFile (obj_at w i) \<notin> LEFT_FINGER_PARTS \<and> partFile (obj_at w i) \<in> RIGHT_FINGER_PARTS) (children w)"
    using assms(1,6) by (auto intro: filter_cong)
  then show ?thesis using assms unfolding placed_def by (metis (no_types, lifting))
qed

lemmas inv_defs = viewer_inv_def inv_frames_def inv_store_def inv_vis_def inv_current_def
  loading_ok_def settled_def placed_def child_files_def

subsection \<open>Preservation, event by event\<close>

lemma loadSize_simps [simp]:
  "loadToken (loadSize sz v) = Suc (loadToken v)"
  "children (loadSize sz v) = []"
  "componentObjects (loadSize sz v) = Map.empty"
  "frames (loadSize sz v) = frames v @ [\<lparr>ftoken = Suc (loadToken v), fsize = sz, fstage = AwaitParts PARTS []\<rparr>]"
  "heap (loadSize sz v) = heap v"
  "sizeSlider (loadSize sz v) = sizeSlider v"
  "sizeValueText (loadSize sz v) = sizeValueText v"
  by (simp_all add: loadSize_def resetLabel_def Let_def)

lemma inv_loadSize: "viewer_inv v \<Longrightarrow> viewer_inv (loadSize sz v)"
proof -
  assume inv: "viewer_inv v"
  let ?new = "\<lparr>ftoken = Suc (loadToken v), fsize = sz, fstage = AwaitParts PARTS []\<rparr>"
  from inv have le: "\<forall>fr\<in>set (frames v). ftoken fr \<le> loadToken v" and d: "distinct (map ftoken (frames v))"
    by (simp_all add: viewer_inv_def inv_frames_def)
  then have "Suc (loadToken v) \<notin> set (map ftoken (frames v))" by fastforce
  with le d have f: "inv_frames (loadSize sz v)" by (auto simp: inv_frames_def)
  have l: "loading_ok (loadSize sz v) ?new"
    using part_files_distinct by (simp add: loading_ok_def child_files_def part_files_def)
  have c: "inv_current (loadSize sz v)" using le l by (auto simp: inv_current_def)
  have "\<not> settled (loadSize sz v)" by (simp add: settled_def)
  with f c show ?thesis by (simp add: viewer_inv_def inv_store_def inv_vis_def child_files_def)
qed

lemma viewer_inv_ui_fields [simp]:
  "viewer_inv (v\<lparr>sizeSlider := a, sizeValueText := b\<rparr>) = viewer_inv v"
  "viewer_inv (v\<lparr>fruits := fs\<rparr>) = viewer_inv v"
  "viewer_inv (v\<lparr>prefetched := p\<rparr>) = viewer_inv v"
  "viewer_inv (v\<lparr>sizeReadout := t1, padDimsReadout := t2\<rparr>) = viewer_inv v"
  "viewer_inv (v\<lparr>groupExpanded := g\<rparr>) = viewer_inv v"
  "viewer_inv (v\<lparr>labelVisible := lv\<rparr>) = viewer_inv v"
  "viewer_inv (v\<lparr>lastHitPoint := hp, lastLabel := l, labelVisible := lv\<rparr>) = viewer_inv v"
  "viewer_inv (v\<lparr>lastHitPoint := hp, lastLabel := l\<rparr>) = viewer_inv v"
  by (simp_all add: inv_defs split: stage.splits)

lemma viewer_inv_label_ops [simp]:
  "viewer_inv (resetLabel v) = viewer_inv v"
  "viewer_inv (updateLabelPosition b v) = viewer_inv v"
  "viewer_inv (pointerDown h b v) = viewer_inv v"
  by (simp_all add: resetLabel_def updateLabelPosition_def pointerDown_def split: option.splits)

lemma inv_setSizeByIndex: "viewer_inv v \<Longrightarrow> viewer_inv (setSizeByIndex i v)"
  by (simp add: setSizeByIndex_def Let_def inv_loadSize)

text \<open>Positions after \<open>applyOpenness\<close> on a scene whose fingers are the filtered children.\<close>

lemma applyOpenness_placed:
  assumes L: "leftFinger s = filter (\<lambda>i. partFile (obj_at s i) \<in> LEFT_FINGER_PARTS) (children s)"
    and R: "rightFinger s = filter (\<lambda>i. partFile (obj_at s i) \<notin> LEFT_FINGER_PARTS \<and>
                                        partFile (obj_at s i) \<in> RIGHT_FINGER_PARTS) (children s)"
    and j: "j \<in> set (children s)" "j < length (heap s)" "basePosition (obj_at s j) = Some b"
  shows "position (obj_at (applyOpenness o' s) j) =
           add_scaled b openAxis (finger_sign (partFile (obj_at s j)) * (fingerOpenDistance s * 0.5 * o'))"
  using apply_openness_positions_obj [OF j(2,3), of o'] j L R
  by (auto simp: Let_def finger_sign_def)

lemma opennessInput_simps [simp]:
  "children (opennessInput n v) = children v"
  "componentObjects (opennessInput n v) = componentObjects v"
  "componentVisibility (opennessInput n v) = componentVisibility v"
  "leftFinger (opennessInput n v) = leftFinger v"
  "rightFinger (opennessInput n v) = rightFinger v"
  "fingerOpenDistance (opennessInput n v) = fingerOpenDistance v"
  "length (heap (opennessInput n v)) = length (heap v)"
  "loadToken (opennessInput n v) = loadToken v"
  "frames (opennessInput n v) = frames v"
  "opennessSlider (opennessInput n v) = n"
  using more_eq_viewer_fields [OF applyOpenness_other(9) [of "real n / 100" "v\<lparr>opennessSlider := n\<rparr>"]]
  by (simp_all add: opennessInput_def)

lemma inv_opennessInput: "viewer_inv v \<Longrightarrow> viewer_inv (opennessInput n v)"
proof -
  assume inv: "viewer_inv v"
  let ?w = "opennessInput n v"
  have k: "\<forall>i. partFile (obj_at ?w i) = partFile (obj_at v i) \<and> visible (obj_at ?w i) = visible (obj_at v i) \<and>
              meshSize (obj_at ?w i) = meshSize (obj_at v i) \<and> basePosition (obj_at ?w i) = basePosition (obj_at v i)"
    by (simp add: opennessInput_def apply_openness_positions_def Let_def fold_set_pos_keeps)
  have st: "inv_store ?w = inv_store v" by (rule inv_store_cong) (simp_all add: k)
  have cu: "inv_current ?w = inv_current v"
    using loading_ok_cong [of ?w v] k by (simp add: inv_current_def)
  have vi: "inv_vis ?w = inv_vis v" using k by (simp add: inv_vis_def)
  have pl: "settled ?w \<longrightarrow> placed ?w"
  proof
    assume "settled ?w"
    then have "placed v" using inv by (simp add: viewer_inv_def settled_def)
    then have L: "leftFinger v = filter (\<lambda>i. partFile (obj_at v i) \<in> LEFT_FINGER_PARTS) (children v)"
      and R: "rightFinger v = filter (\<lambda>i. partFile (obj_at v i) \<notin> LEFT_FINGER_PARTS \<and>
                                        partFile (obj_at v i) \<in> RIGHT_FINGER_PARTS) (children v)"
      and B: "\<forall>i\<in>set (children v). \<exists>b. basePosition (obj_at v i) = Some b"
      by (auto simp: placed_def)
    have lt: "\<forall>i\<in>set (children v). i < length (heap v)" using inv by (simp add: viewer_inv_def inv_store_def)
    let ?u = "v\<lparr>opennessSlider := n\<rparr>"
    have "\<forall>i\<in>set (children v). \<forall>b. basePosition (obj_at v i) = Some b \<longrightarrow>
            position (obj_at ?w i) = add_scaled b openAxis
              (finger_sign (partFile (obj_at v i)) * (fingerOpenDistance v * 0.5 * (real n / 100)))"
      using applyOpenness_placed [of ?u] L R lt by (simp add: opennessInput_def)
    then show "placed ?w" using L R B k by (auto simp: placed_def)
  qed
  from inv st cu vi pl show ?thesis by (simp add: viewer_inv_def inv_frames_def)
qed

lemma setPartVisibility_more_fields [simp]:
  "loadToken (setPartVisibility f c v) = loadToken v"
  "frames (setPartVisibility f c v) = frames v"
  "opennessSlider (setPartVisibility f c v) = opennessSlider v"
  using more_eq_viewer_fields [OF setPartVisibility_other(8) [of f c v]] by simp_all

lemma fold_setPartVisibility_more_fields [simp]:
  "loadToken (fold (\<lambda>f s. setPartVisibility f c s) files v) = loadToken v"
  "frames (fold (\<lambda>f s. setPartVisibility f c s) files v) = frames v"
  "sizeSlider (fold (\<lambda>f s. setPartVisibility f c s) files v) = sizeSlider v"
  using more_eq_viewer_fields [OF fold_setPartVisibility_more [of c files v]] by simp_all

lemma inv_setPartVisibility: "viewer_inv v \<Longrightarrow> viewer_inv (setPartVisibility f c v)"
proof -
  assume inv: "viewer_inv v"
  let ?w = "setPartVisibility f c v"
  have k: "\<forall>i. partFile (obj_at ?w i) = partFile (obj_at v i) \<and> meshSize (obj_at ?w i) = meshSize (obj_at v i) \<and>
              basePosition (obj_at ?w i) = basePosition (obj_at v i) \<and> position (obj_at ?w i) = position (obj_at v i)"
    by (simp add: setPartVisibility_keeps)
  have st: "inv_store ?w = inv_store v" by (rule inv_store_cong) (simp_all add: k)
  have cu: "inv_current ?w = inv_current v"
    using loading_ok_cong [of ?w v] k by (simp add: inv_current_def)
  have pl: "placed ?w = placed v" by (rule placed_cong) (simp_all add: k)
  have sv: "settled ?w = settled v" by (simp add: settled_def)
  have store: "inv_store v" using inv by (simp add: viewer_inv_def)
  have "inv_vis v" using inv by (simp add: viewer_inv_def)
  then have vi: "inv_vis ?w" using store
    by (auto simp: inv_vis_def inv_store_def setPartVisibility_obj)
  from inv st cu pl sv vi show ?thesis by (simp add: viewer_inv_def inv_frames_def)
qed

lemma inv_fold_setPartVisibility:
  "viewer_inv v \<Longrightarrow> viewer_inv (fold (\<lambda>f s. setPartVisibility f c s) files v)"
  by (induction files arbitrary: v) (simp_all add: inv_setPartVisibility)


subsection \<open>Frames\<close>

lemma find_frame_Some: "find_frame tok v = Some fr \<Longrightarrow> fr \<in> set (frames v) \<and> ftoken fr = tok"
  by (auto simp: find_frame_def find_Some_iff)

lemma map_ftoken_set_frame:
  "ftoken fr' = tok \<Longrightarrow> map ftoken (frames (set_frame tok fr' v)) = map ftoken (frames v)"
  by (induction "frames v" arbitrary: v) (auto simp: set_frame_def)

lemma set_frame_mem:
  "fr \<in> set (frames (set_frame tok fr' v)) \<Longrightarrow> fr = fr' \<or> (fr \<in> set (frames v) \<and> ftoken fr \<noteq> tok)"
  by (auto simp: set_frame_def)

lemma set_frame_keeps_other:
  "fr \<in> set (frames v) \<Longrightarrow> ftoken fr \<noteq> tok \<Longrightarrow> fr \<in> set (frames (set_frame tok fr' v))"
  by (force simp: set_frame_def)

lemma inv_parts_frames [simp]:
  "inv_store (v\<lparr>frames := xs\<rparr>) = inv_store v"
  "inv_vis (v\<lparr>frames := xs\<rparr>) = inv_vis v"
  "loading_ok (v\<lparr>frames := xs\<rparr>) fr = loading_ok v fr"
  "placed (v\<lparr>frames := xs\<rparr>) = placed v"
  by (simp_all add: inv_store_def inv_vis_def loading_ok_def child_files_def placed_def split: stage.splits)

lemma inv_frames_tokens:
  assumes "map ftoken (frames u) = map ftoken (frames v)" "loadToken u = loadToken v"
  shows "inv_frames u = inv_frames v"
proof -
  have e: "(\<forall>fr\<in>set (frames x). ftoken fr \<le> n) \<longleftrightarrow> (\<forall>t\<in>set (map ftoken (frames x)). t \<le> n)" for x :: viewer and n
    by simp
  show ?thesis unfolding inv_frames_def e assms ..
qed

text \<open>Replacing the frame of the current request, over a scene that satisfies the scene invariants.\<close>

lemma inv_set_frame_current:
  assumes inv: "inv_frames v" and w: "frames w = frames v" "loadToken w = loadToken v"
    and sw: "inv_store w" "inv_vis w" "loading_ok w fr'" and tok: "ftoken fr' = loadToken v"
    and pl: "settled (set_frame (loadToken v) fr' w) \<Longrightarrow> placed w"
  shows "viewer_inv (set_frame (loadToken v) fr' w)"
proof -
  let ?u = "set_frame (loadToken v) fr' w"
  have "map ftoken (frames ?u) = map ftoken (frames v)" using map_ftoken_set_frame [OF tok, of w] w by simp
  then have f: "inv_frames ?u" using inv_frames_tokens [of ?u v] inv w by (simp add: set_frame_def)
  have "\<forall>fr\<in>set (frames ?u). ftoken fr = loadToken v \<longrightarrow> fr = fr'" using set_frame_mem w by fastforce
  then have c: "inv_current ?u" using sw w by (auto simp: inv_current_def set_frame_def)
  from f c sw pl show ?thesis by (simp add: viewer_inv_def set_frame_def)
qed

text \<open>Replacing or dropping the frame of a request that is no longer current.\<close>

lemma inv_set_frame_stale:
  assumes inv: "viewer_inv v" and tok: "ftoken fr' = tok" "tok \<noteq> loadToken v"
  shows "viewer_inv (set_frame tok fr' v)"
proof -
  let ?u = "set_frame tok fr' v"
  have cur: "\<forall>fr. fr \<in> set (frames ?u) \<and> ftoken fr = loadToken v \<longleftrightarrow> fr \<in> set (frames v) \<and> ftoken fr = loadToken v"
    using set_frame_mem [of _ tok fr' v] set_frame_keeps_other [of _ v tok fr'] tok by auto
  have "map ftoken (frames ?u) = map ftoken (frames v)" by (rule map_ftoken_set_frame [OF tok(1)])
  then have "inv_frames ?u" using inv_frames_tokens [of ?u v] inv by (simp add: viewer_inv_def set_frame_def)
  moreover have "inv_current ?u = inv_current v" using cur by (auto simp: inv_current_def set_frame_def)
  moreover have "settled ?u = settled v" using cur by (auto simp: settled_def set_frame_def)
  ultimately show ?thesis using inv by (simp add: viewer_inv_def set_frame_def)
qed

lemma inv_drop_frame:
  assumes inv: "viewer_inv v" and cur: "tok = loadToken v \<Longrightarrow> settled v"
  shows "viewer_inv (drop_frame tok v)"
proof -
  let ?u = "drop_frame tok v"
  have "settled ?u \<Longrightarrow> settled v" using cur by (cases "tok = loadToken v") (auto simp: settled_def drop_frame_def)
  moreover have "inv_frames ?u" using inv by (simp add: viewer_inv_def inv_frames_def drop_frame_def distinct_map_filter)
  ultimately show ?thesis using inv by (simp add: viewer_inv_def inv_current_def drop_frame_def)
qed


subsection \<open>A part fetch settles\<close>

lemma add_part_obj_simps [simp]:
  "length (heap (add_part_obj ob s)) = Suc (length (heap s))"
  "children (add_part_obj ob s) = children s @ [length (heap s)]"
  "componentObjects (add_part_obj ob s) = (componentObjects s)(partFile ob \<mapsto> length (heap s))"
  "componentVisibility (add_part_obj ob s) = componentVisibility s"
  "scene.more (add_part_obj ob s) = scene.more s"
  "obj_at (add_part_obj ob s) (length (heap s)) = ob"
  by (simp_all add: add_part_obj_def Let_def)

lemma obj_at_add_part_obj_old [simp]:
  "j < length (heap s) \<Longrightarrow> obj_at (add_part_obj ob s) j = obj_at s j"
  by (simp add: add_part_obj_def Let_def nth_append)

lemma child_files_add_part_obj:
  "\<forall>i\<in>set (children s). i < length (heap s) \<Longrightarrow>
   child_files (add_part_obj ob s) = child_files s @ [partFile ob]"
  by (simp add: child_files_def)

lemma inv_store_add_part_obj:
  assumes st: "inv_store v" and f: "partFile ob \<notin> set (child_files v)"
  shows "inv_store (add_part_obj ob v)"
proof -
  let ?n = "length (heap v)"
  have lt: "\<forall>i\<in>set (children v). i < ?n" using st by (simp add: inv_store_def)
  then have nin: "?n \<notin> set (children v)" by blast
  have co: "\<forall>g i. componentObjects v g = Some i \<longleftrightarrow> i \<in> set (children v) \<and> partFile (obj_at v i) = g"
    using st by (simp add: inv_store_def)
  have "\<forall>i\<in>set (children v). partFile (obj_at v i) \<noteq> partFile ob"
    using f unfolding child_files_def by (metis image_eqI list.set_map)
  then have "\<forall>g i. ((componentObjects v)(partFile ob \<mapsto> ?n)) g = Some i \<longleftrightarrow>
               (i \<in> set (children v) \<or> i = ?n) \<and> partFile (obj_at (add_part_obj ob v) i) = g"
    using co lt by auto
  then show ?thesis using st lt nin f child_files_add_part_obj [OF lt, of ob]
    by (auto simp: inv_store_def)
qed

lemma part_settled_Some:
  "part_settled tok f outcome v = Some v' \<longleftrightarrow>
     (\<exists>fr pend res p. find_frame tok v = Some fr \<and> fstage fr = AwaitParts pend res \<and>
        find (\<lambda>p. part_file p = f) pend = Some p \<and>
        v' = (case (case outcome of Some bnds \<Rightarrow> loadPart_onLoad tok (fsize fr) p bnds v | None \<Rightarrow> (v, False)) of
                (w, r) \<Rightarrow> set_frame tok (fr\<lparr>fstage := AwaitParts (filter (\<lambda>q. part_file q \<noteq> f) pend)
                                                            (res @ [(f, r)])\<rparr>) w))"
  by (auto simp: part_settled_def split: option.splits stage.splits prod.splits)

text \<open>The bookkeeping of a frame that is still waiting for parts, after one of them settles.\<close>

lemma loading_ok_settle:
  assumes ok: "loading_ok v fr" "fstage fr = AwaitParts pend res" and p: "p \<in> set pend" "part_file p = f"
    and cf: "child_files w = child_files v @ (if r then [f] else [])"
    and ch: "\<forall>i\<in>set (children w). basePosition (obj_at w i) = None \<and> meshSize (obj_at w i) = fsize fr"
  shows "loading_ok w (fr\<lparr>fstage := AwaitParts (filter (\<lambda>q. part_file q \<noteq> f) pend) (res @ [(f, r)])\<rparr>)"
proof -
  have d: "distinct (map part_file pend @ map fst res)" and sp: "set pend \<subseteq> set PARTS"
    and se: "set (map part_file pend @ map fst res) = set part_files"
    and c: "child_files v = map fst (filter snd res)"
    using ok by (simp_all add: loading_ok_def)
  have fin: "f \<in> set (map part_file pend)" using p by force
  then have "f \<notin> set (map fst res)" using d by auto
  moreover have "map part_file (filter (\<lambda>q. part_file q \<noteq> f) pend) = filter (\<lambda>g. g \<noteq> f) (map part_file pend)"
    by (simp add: filter_map comp_def)
  ultimately have "distinct (map part_file (filter (\<lambda>q. part_file q \<noteq> f) pend) @ map fst (res @ [(f, r)]))"
    "set (map part_file (filter (\<lambda>q. part_file q \<noteq> f) pend) @ map fst (res @ [(f, r)])) = set part_files"
    using d se fin by auto
  then show ?thesis using sp cf c ch by (auto simp: loading_ok_def)
qed


lemma not_settled_set_frame:
  "fr \<in> set (frames w) \<Longrightarrow> ftoken fr = loadToken w \<Longrightarrow> ftoken fr' = loadToken w \<Longrightarrow>
   fstage fr' \<noteq> AwaitPad \<Longrightarrow> \<not> settled (set_frame (loadToken w) fr' w)"
  by (force simp: settled_def set_frame_def)

lemma inv_part_settled:
  assumes inv: "viewer_inv v" and ps: "part_settled tok f outcome v = Some v'"
  shows "viewer_inv v'"
proof -
  obtain fr pend res p where ff: "find_frame tok v = Some fr" and stg: "fstage fr = AwaitParts pend res"
    and fp: "find (\<lambda>p. part_file p = f) pend = Some p"
    and v': "v' = (case (case outcome of Some bnds \<Rightarrow> loadPart_onLoad tok (fsize fr) p bnds v | None \<Rightarrow> (v, False)) of
                (w, r) \<Rightarrow> set_frame tok (fr\<lparr>fstage := AwaitParts (filter (\<lambda>q. part_file q \<noteq> f) pend)
                                                            (res @ [(f, r)])\<rparr>) w)"
    using ps part_settled_Some by blast
  have fr: "fr \<in> set (frames v)" "ftoken fr = tok" using find_frame_Some [OF ff] by auto
  have p: "p \<in> set pend" "part_file p = f" using find_SomeD [OF fp] by auto
  define fr2 where "fr2 r = fr\<lparr>fstage := AwaitParts (filter (\<lambda>q. part_file q \<noteq> f) pend) (res @ [(f, r)])\<rparr>" for r
  show ?thesis
  proof (cases "tok = loadToken v")
    case False
    then have "v' = set_frame tok (fr2 False) v"
      using v' by (simp add: fr2_def loadPart_onLoad_def split: option.splits)
    then show ?thesis using inv_set_frame_stale [OF inv _ False] fr by (simp add: fr2_def)
  next
    case True
    have ok: "loading_ok v fr" using inv fr True by (simp add: viewer_inv_def inv_current_def)
    have fi: "inv_frames v" and st: "inv_store v" and vi: "inv_vis v" using inv by (simp_all add: viewer_inv_def)
    have ch: "\<forall>i\<in>set (children v). basePosition (obj_at v i) = None \<and> meshSize (obj_at v i) = fsize fr"
      and cf: "child_files v = map fst (filter snd res)" and d: "distinct (map part_file pend @ map fst res)"
      using ok stg by (simp_all add: loading_ok_def)
    have ns: "\<And>(w :: viewer) r. fr \<in> set (frames w) \<Longrightarrow> loadToken w = loadToken v \<Longrightarrow>
                \<not> settled (set_frame (loadToken v) (fr2 r) w)"
    proof -
      fix w :: viewer and r
      assume a: "fr \<in> set (frames w)" "loadToken w = loadToken v"
      show "\<not> settled (set_frame (loadToken v) (fr2 r) w)"
        using not_settled_set_frame [of fr w "fr2 r"] a fr True by (simp add: fr2_def)
    qed
    show ?thesis
    proof (cases outcome)
      case None
      then have "v' = set_frame (loadToken v) (fr2 False) v" using v' True by (simp add: fr2_def)
      moreover have "viewer_inv (set_frame (loadToken v) (fr2 False) v)"
      proof (rule inv_set_frame_current [OF fi _ _ st vi])
        show "loading_ok v (fr2 False)"
          using loading_ok_settle [OF ok stg p, of v False] ch by (simp add: fr2_def)
        show "ftoken (fr2 False) = loadToken v" using fr True by (simp add: fr2_def)
        show "settled (set_frame (loadToken v) (fr2 False) v) \<Longrightarrow> placed v" using ns [of v False] fr by simp
      qed simp_all
      ultimately show ?thesis by simp
    next
      case (Some bnds)
      define ob where "ob = \<lparr>partFile = part_file p, objLabel = part_label p, meshSize = fsize fr,
               visible = vis_of (componentVisibility v) (part_file p), position = (0, 0, 0),
               basePosition = None, bounds = bnds\<rparr>"
      let ?w = "add_part_obj ob v"
      have v'': "v' = set_frame (loadToken v) (fr2 True) ?w"
        using v' True Some by (simp add: fr2_def ob_def loadPart_onLoad_def)
      have lt: "\<forall>i\<in>set (children v). i < length (heap v)" using st by (simp add: inv_store_def)
      have "f \<in> set (map part_file pend)" using p by force
      then have fnot: "f \<notin> set (child_files v)" using d cf by auto
      have pf: "partFile ob = f" using p by (simp add: ob_def)
      have st': "inv_store ?w" using inv_store_add_part_obj [OF st] fnot pf by simp
      have vi': "inv_vis ?w" using vi lt p by (auto simp: inv_vis_def ob_def)
      have cf': "child_files ?w = child_files v @ [f]" using child_files_add_part_obj [OF lt] pf by simp
      have "\<forall>i\<in>set (children ?w). basePosition (obj_at ?w i) = None \<and> meshSize (obj_at ?w i) = fsize fr"
        using ch lt by (auto simp: ob_def)
      moreover have fw: "frames ?w = frames v" "loadToken ?w = loadToken v"
        by (simp_all add: add_part_obj_def Let_def)
      ultimately have "viewer_inv (set_frame (loadToken v) (fr2 True) ?w)"
      proof (intro inv_set_frame_current [OF fi _ _ st' vi'])
        show "settled (set_frame (loadToken v) (fr2 True) ?w) \<Longrightarrow> placed ?w" using ns [of ?w True] fr fw by simp
      qed (use loading_ok_settle [OF ok stg p, of ?w True] cf' fr True in \<open>simp_all add: fr2_def\<close>)
      then show ?thesis using v'' by simp
    qed
  qed
qed


subsection \<open>The continuation after \<open>Promise.all\<close>\<close>

text \<open>The scene work of \<open>loadSize\<close> once all parts have settled.\<close>

lemma join_scene:
  fixes v :: viewer
  defines "w \<equiv> applyOpenness (real (opennessSlider v) / 100) (collectFingerGroups (capture_base (frameObject v)))"
  assumes st: "inv_store v"
  shows "scene.more w = scene.more v" "inv_store w" "inv_vis v \<Longrightarrow> inv_vis w" "placed w"
proof -
  define s where "s = collectFingerGroups (capture_base (frameObject v))"
  have w: "w = applyOpenness (real (opennessSlider v) / 100) s" by (simp add: w_def s_def)
  show m: "scene.more w = scene.more v" by (simp add: w s_def)
  have os: "opennessSlider w = opennessSlider v" using more_eq_viewer_fields [OF m] by simp
  have ks: "\<forall>i. partFile (obj_at s i) = partFile (obj_at v i) \<and> visible (obj_at s i) = visible (obj_at v i)"
    by (simp add: s_def capture_base_keeps)
  have kw: "\<forall>i. partFile (obj_at w i) = partFile (obj_at s i) \<and> visible (obj_at w i) = visible (obj_at s i) \<and>
              basePosition (obj_at w i) = basePosition (obj_at s i)"
    by (simp add: w apply_openness_positions_def Let_def fold_set_pos_keeps)
  have ch: "children w = children v" "children s = children v" "length (heap s) = length (heap v)"
    by (simp_all add: w s_def)
  have pf: "\<forall>i. partFile (obj_at w i) = partFile (obj_at v i)" using ks kw by simp
  have "componentObjects w = componentObjects v" "length (heap w) = length (heap v)"
    by (simp_all add: w s_def)
  then show "inv_store w" using st inv_store_cong [of w v] pf ch by simp
  show "inv_vis v \<Longrightarrow> inv_vis w" using ks kw ch by (simp add: inv_vis_def w s_def)
  have lt: "\<forall>i\<in>set (children v). i < length (heap v)" using st by (simp add: inv_store_def)
  have base: "\<forall>i\<in>set (children v). basePosition (obj_at s i) = Some (position (obj_at (frameObject v) i))"
    using lt by (simp add: s_def capture_base_obj)
  have L: "leftFinger s = filter (\<lambda>i. partFile (obj_at s i) \<in> LEFT_FINGER_PARTS) (children s)"
    and R: "rightFinger s = filter (\<lambda>i. partFile (obj_at s i) \<notin> LEFT_FINGER_PARTS \<and>
                                        partFile (obj_at s i) \<in> RIGHT_FINGER_PARTS) (children s)"
    by (simp_all add: s_def collectFingerGroups_fingers)
  have pos: "\<forall>i\<in>set (children v). position (obj_at w i) = add_scaled (the (basePosition (obj_at w i))) openAxis
               (finger_sign (partFile (obj_at w i)) * (fingerOpenDistance w * 0.5 * (real (opennessSlider w) / 100)))"
    using applyOpenness_placed [OF L R] base lt ch kw os by (simp add: w)
  have "leftFinger w = filter (\<lambda>i. partFile (obj_at w i) \<in> LEFT_FINGER_PARTS) (children w)"
    "rightFinger w = filter (\<lambda>i. partFile (obj_at w i) \<notin> LEFT_FINGER_PARTS \<and>
                                  partFile (obj_at w i) \<in> RIGHT_FINGER_PARTS) (children w)"
    using L R kw ch by (simp_all add: w)
  then show "placed w" using pos base kw ch by (auto simp: placed_def)
qed

lemma parts_joined_Some:
  "parts_joined tok v = Some v' \<longleftrightarrow>
     (\<exists>fr res. find_frame tok v = Some fr \<and> fstage fr = AwaitParts [] res \<and>
        v' = (if tok \<noteq> loadToken v then drop_frame tok v
              else set_frame tok (fr\<lparr>fstage := AwaitPad\<rparr>)
                     (applyOpenness (real (opennessSlider v) / 100) (collectFingerGroups (capture_base (frameObject v))))))"
proof -
  have "opennessSlider (collectFingerGroups (capture_base (frameObject v))) = opennessSlider v"
    using more_eq_viewer_fields [of "collectFingerGroups (capture_base (frameObject v))" v] by simp
  then show ?thesis by (auto simp: parts_joined_def Let_def split: option.splits stage.splits list.splits)
qed

lemma inv_parts_joined:
  assumes inv: "viewer_inv v" and pj: "parts_joined tok v = Some v'"
  shows "viewer_inv v'"
proof -
  obtain fr res where ff: "find_frame tok v = Some fr" and stg: "fstage fr = AwaitParts [] res"
    and v': "v' = (if tok \<noteq> loadToken v then drop_frame tok v
              else set_frame tok (fr\<lparr>fstage := AwaitPad\<rparr>)
                     (applyOpenness (real (opennessSlider v) / 100) (collectFingerGroups (capture_base (frameObject v)))))"
    using pj parts_joined_Some by blast
  show ?thesis
  proof (cases "tok = loadToken v")
    case False
    then show ?thesis using inv_drop_frame [OF inv] v' by simp
  next
    case True
    let ?w = "applyOpenness (real (opennessSlider v) / 100) (collectFingerGroups (capture_base (frameObject v)))"
    have st: "inv_store v" and vi: "inv_vis v" and fi: "inv_frames v" using inv by (simp_all add: viewer_inv_def)
    note j = join_scene [OF st]
    have "frames ?w = frames v" "loadToken ?w = loadToken v" using more_eq_viewer_fields [OF j(1)] by simp_all
    moreover have "ftoken (fr\<lparr>fstage := AwaitPad\<rparr>) = loadToken v" using find_frame_Some [OF ff] True by simp
    ultimately have "viewer_inv (set_frame (loadToken v) (fr\<lparr>fstage := AwaitPad\<rparr>) ?w)"
      using inv_set_frame_current [OF fi _ _ j(2) j(3) [OF vi]] j(4) by (simp add: loading_ok_def)
    then show ?thesis using v' True by simp
  qed
qed


subsection \<open>The continuation after the side-car fetch\<close>

lemma prefetchAdjacentSizes_fields [simp]:
  "viewer_inv (prefetchAdjacentSizes sz v) = viewer_inv v"
  "frames (prefetchAdjacentSizes sz v) = frames v"
  "loadToken (prefetchAdjacentSizes sz v) = loadToken v"
  by (simp_all add: prefetchAdjacentSizes_def Let_def)

lemma settled_current_frame:
  "inv_frames v \<Longrightarrow> fr \<in> set (frames v) \<Longrightarrow> ftoken fr = loadToken v \<Longrightarrow> fstage fr = AwaitPad \<Longrightarrow> settled v"
  unfolding settled_def inv_frames_def by (metis distinct_map inj_onD)

lemma inv_pad_done:
  assumes inv: "viewer_inv v" and pd: "pad_done tok r v = Some v'"
  shows "viewer_inv v'"
proof -
  obtain fr where ff: "find_frame tok v = Some fr" and stg: "fstage fr = AwaitPad"
    using pd by (auto simp: pad_done_def split: option.splits stage.splits)
  define v1 where "v1 = (case updatePadDimensions tok (loadToken v) r of
                            None \<Rightarrow> v
                          | Some (a, d) \<Rightarrow> v\<lparr>sizeReadout := a, padDimsReadout := d\<rparr>)"
  define v3 where "v3 = prefetchAdjacentSizes (fsize fr) (v1\<lparr>fruits := positionFruits (updateFruitVisibility (fsize fr) (fruits v1))\<rparr>)"
  have v': "v' = drop_frame tok v3" using pd ff stg by (simp add: pad_done_def v1_def v3_def Let_def)
  have "viewer_inv v1 \<and> frames v1 = frames v \<and> loadToken v1 = loadToken v"
    using inv by (simp add: v1_def split: option.splits)
  then have i3: "viewer_inv v3" and f3: "frames v3 = frames v" "loadToken v3 = loadToken v"
    by (simp_all add: v3_def)
  have "tok = loadToken v3 \<Longrightarrow> settled v3"
    using settled_current_frame [of v fr] find_frame_Some [OF ff] stg inv f3
    by (simp add: viewer_inv_def settled_def)
  then show ?thesis using inv_drop_frame [OF i3] v' by simp
qed

subsection \<open>Every step, every reachable state\<close>

lemma rebuild_inv [simp]: "viewer_inv (rebuild v) = viewer_inv v"
  by (simp add: rebuild_def)

lemma step_inv:
  assumes "viewer_inv v" "step v e = Some v'"
  shows "viewer_inv v'"
  using assms
proof (cases e)
  case (PartLoaded tok f b)
  then show ?thesis using assms inv_part_settled by simp
next
  case (PartFailed tok f)
  then show ?thesis using assms inv_part_settled by simp
next
  case (PartsJoined tok)
  then show ?thesis using assms inv_parts_joined by simp
next
  case (PadDone tok r)
  then show ?thesis using assms inv_pad_done by simp
next
  case (PartChange f)
  then show ?thesis using assms inv_setPartVisibility by (auto simp: part_change_def split: if_splits)
next
  case (GroupChange g)
  then show ?thesis using assms inv_fold_setPartVisibility
    by (auto simp: group_change_def Let_def split: option.splits)
qed (auto simp: inv_setSizeByIndex inv_opennessInput toggle_expanded_def split: if_splits)

lemma init_viewer_opennessInput:
  "init_viewer = opennessInput 0 (setSizeByIndex (index_of SIZES ''1.5'') viewer_globals)"
proof -
  let ?u = "setSizeByIndex (index_of SIZES ''1.5'') viewer_globals"
  have e: "opennessSlider ?u = 0"
    by (simp add: setSizeByIndex_def loadSize_def resetLabel_def Let_def viewer_globals_def)
  have "?u\<lparr>opennessSlider := 0\<rparr> = ?u" by (subst e [symmetric]) simp
  then show ?thesis by (simp add: init_viewer_def opennessInput_def)
qed

lemma viewer_inv_init: "viewer_inv init_viewer"
proof -
  have "viewer_inv viewer_globals" by (simp add: inv_defs viewer_globals_def)
  then show ?thesis by (simp add: init_viewer_opennessInput inv_setSizeByIndex inv_opennessInput)
qed

lemma reachable_viewer_inv: "reachable v \<Longrightarrow> viewer_inv v"
  by (induction rule: reachable.induct) (auto intro: viewer_inv_init step_inv)


subsection \<open>The scene shows the size on the slider\<close>

lemma size_inv_setSizeByIndex: "inv_frames v \<Longrightarrow> size_inv (setSizeByIndex i v)"
proof -
  assume fi: "inv_frames v"
  let ?c = "js_clamp 0 (int (length SIZES) - 1) i"
  have b: "0 \<le> ?c" "?c \<le> int (length SIZES) - 1" using js_clamp_bounds [of 0 "int (length SIZES) - 1" i] by simp_all
  then have "nat ?c < length SIZES" by linarith
  moreover have "\<forall>fr\<in>set (frames v). ftoken fr \<noteq> Suc (loadToken v)" using fi by (fastforce simp: inv_frames_def)
  ultimately show ?thesis by (simp add: size_inv_def setSizeByIndex_def Let_def)
qed

lemma size_inv_ui_fields [simp]:
  "size_inv (v\<lparr>fruits := fs\<rparr>) = size_inv v"
  "size_inv (v\<lparr>prefetched := p\<rparr>) = size_inv v"
  "size_inv (v\<lparr>sizeReadout := t1, padDimsReadout := t2\<rparr>) = size_inv v"
  "size_inv (v\<lparr>groupExpanded := g\<rparr>) = size_inv v"
  "size_inv (prefetchAdjacentSizes sz v) = size_inv v"
  "size_inv (rebuild v) = size_inv v"
  "size_inv (resetLabel v) = size_inv v"
  "size_inv (updateLabelPosition b v) = size_inv v"
  "size_inv (pointerDown h b v) = size_inv v"
  by (simp_all add: size_inv_def prefetchAdjacentSizes_def rebuild_def Let_def resetLabel_def
      updateLabelPosition_def pointerDown_def split: option.splits)

lemma size_inv_cong:
  assumes "children w = children v" "frames w = frames v" "loadToken w = loadToken v"
    "sizeSlider w = sizeSlider v" "sizeValueText w = sizeValueText v"
    "\<forall>i\<in>set (children v). meshSize (obj_at w i) = meshSize (obj_at v i)"
  shows "size_inv w = size_inv v"
  using assms by (simp add: size_inv_def)

lemma size_inv_set_frame:
  assumes "size_inv v" "ftoken fr' = tok" "tok = loadToken v \<Longrightarrow> fsize fr' = SIZES ! sizeSlider v"
  shows "size_inv (set_frame tok fr' v)"
  using assms set_frame_mem [of _ tok fr' v] by (auto simp: size_inv_def set_frame_def)

lemma size_inv_drop_frame: "size_inv v \<Longrightarrow> size_inv (drop_frame tok v)"
  by (simp add: size_inv_def drop_frame_def)



lemma size_inv_opennessInput: "size_inv v \<Longrightarrow> size_inv (opennessInput n v)"
proof -
  assume "size_inv v"
  moreover have "size_inv (opennessInput n v) = size_inv v"
  proof (rule size_inv_cong)
    show "\<forall>i\<in>set (children v). meshSize (obj_at (opennessInput n v) i) = meshSize (obj_at v i)"
      by (simp add: opennessInput_def apply_openness_positions_def Let_def fold_set_pos_keeps)
    show "sizeSlider (opennessInput n v) = sizeSlider v" "sizeValueText (opennessInput n v) = sizeValueText v"
      using more_eq_viewer_fields [OF applyOpenness_other(9) [of "real n / 100" "v\<lparr>opennessSlider := n\<rparr>"]]
      by (simp_all add: opennessInput_def)
  qed simp_all
  ultimately show ?thesis by simp
qed

lemma size_inv_setPartVisibility: "size_inv (setPartVisibility f c v) = size_inv v"
  by (rule size_inv_cong) (simp_all add: setPartVisibility_keeps more_eq_viewer_fields [OF setPartVisibility_other(8)])

lemma size_inv_fold_setPartVisibility:
  "size_inv (fold (\<lambda>f s. setPartVisibility f c s) files v) = size_inv v"
  by (induction files arbitrary: v) (simp_all add: size_inv_setPartVisibility)

lemma size_inv_part_settled:
  assumes inv: "viewer_inv v" "size_inv v" and ps: "part_settled tok f outcome v = Some v'"
  shows "size_inv v'"
proof -
  obtain fr pend res p where ff: "find_frame tok v = Some fr" and stg: "fstage fr = AwaitParts pend res"
    and fp: "find (\<lambda>p. part_file p = f) pend = Some p"
    and v': "v' = (case (case outcome of Some bnds \<Rightarrow> loadPart_onLoad tok (fsize fr) p bnds v | None \<Rightarrow> (v, False)) of
                (w, r) \<Rightarrow> set_frame tok (fr\<lparr>fstage := AwaitParts (filter (\<lambda>q. part_file q \<noteq> f) pend)
                                                            (res @ [(f, r)])\<rparr>) w)"
    using ps part_settled_Some by blast
  have fr: "fr \<in> set (frames v)" "ftoken fr = tok" using find_frame_Some [OF ff] by auto
  obtain w r where wr: "(case outcome of Some bnds \<Rightarrow> loadPart_onLoad tok (fsize fr) p bnds v | None \<Rightarrow> (v, False)) = (w, r)"
    by fastforce
  have sw: "size_inv w \<and> loadToken w = loadToken v \<and> sizeSlider w = sizeSlider v"
  proof (cases "outcome = None \<or> tok \<noteq> loadToken v")
    case True
    then have "w = v" using wr by (auto simp: loadPart_onLoad_def split: option.splits)
    then show ?thesis using inv by simp
  next
    case False
    then obtain bnds where o: "outcome = Some bnds" and t: "tok = loadToken v" by auto
    have lt: "\<forall>i\<in>set (children v). i < length (heap v)" using inv by (simp add: viewer_inv_def inv_store_def)
    have "fsize fr = SIZES ! sizeSlider v" using inv(2) fr t by (simp add: size_inv_def)
    then show ?thesis using wr o t inv(2) lt
      by (auto simp: loadPart_onLoad_def size_inv_def add_part_obj_def Let_def nth_append)
  qed
  then have "size_inv (set_frame tok (fr\<lparr>fstage := AwaitParts (filter (\<lambda>q. part_file q \<noteq> f) pend) (res @ [(f, r)])\<rparr>) w)"
    using inv(2) fr by (intro size_inv_set_frame) (auto simp: size_inv_def)
  then show ?thesis using v' wr by simp
qed

lemma size_inv_parts_joined:
  assumes inv: "viewer_inv v" "size_inv v" and pj: "parts_joined tok v = Some v'"
  shows "size_inv v'"
proof -
  obtain fr res where ff: "find_frame tok v = Some fr"
    and v': "v' = (if tok \<noteq> loadToken v then drop_frame tok v
              else set_frame tok (fr\<lparr>fstage := AwaitPad\<rparr>)
                     (applyOpenness (real (opennessSlider v) / 100) (collectFingerGroups (capture_base (frameObject v)))))"
    using pj parts_joined_Some by blast
  let ?w = "applyOpenness (real (opennessSlider v) / 100) (collectFingerGroups (capture_base (frameObject v)))"
  have m: "scene.more ?w = scene.more v" by simp
  have "size_inv ?w = size_inv v"
  proof (rule size_inv_cong)
    show "\<forall>i\<in>set (children v). meshSize (obj_at ?w i) = meshSize (obj_at v i)"
      by (simp add: apply_openness_positions_def Let_def fold_set_pos_keeps capture_base_keeps)
  qed (simp_all add: more_eq_viewer_fields [OF m])
  then have sw: "size_inv ?w" using inv(2) by simp
  show ?thesis
  proof (cases "tok = loadToken v")
    case False
    then show ?thesis using v' inv(2) size_inv_drop_frame by simp
  next
    case True
    have "fsize fr = SIZES ! sizeSlider ?w"
      using inv(2) find_frame_Some [OF ff] True more_eq_viewer_fields(6) [OF m] by (simp add: size_inv_def)
    then have "size_inv (set_frame tok (fr\<lparr>fstage := AwaitPad\<rparr>) ?w)"
      using size_inv_set_frame [OF sw, of "fr\<lparr>fstage := AwaitPad\<rparr>" tok] find_frame_Some [OF ff] by simp
    then show ?thesis using v' True by simp
  qed
qed

lemma size_inv_pad_done:
  assumes inv: "size_inv v" and pd: "pad_done tok r v = Some v'"
  shows "size_inv v'"
  using assms by (auto simp: pad_done_def Let_def size_inv_drop_frame split: option.splits stage.splits)

lemma size_inv_step:
  assumes "viewer_inv v" "size_inv v" "step v e = Some v'"
  shows "size_inv v'"
  using assms
proof (cases e)
  case (SizeInput i)
  then show ?thesis using assms size_inv_setSizeByIndex by (auto simp: viewer_inv_def split: if_splits)
next
  case (PartLoaded tok f b)
  then show ?thesis using assms size_inv_part_settled by simp
next
  case (PartFailed tok f)
  then show ?thesis using assms size_inv_part_settled by simp
next
  case (PartsJoined tok)
  then show ?thesis using assms size_inv_parts_joined by simp
next
  case (PadDone tok r)
  then show ?thesis using assms size_inv_pad_done by simp
next
  case (PartChange f)
  then show ?thesis using assms by (auto simp: part_change_def size_inv_setPartVisibility split: if_splits)
next
  case (GroupChange g)
  then show ?thesis using assms
    by (auto simp: group_change_def Let_def size_inv_fold_setPartVisibility split: option.splits)
qed (auto simp: size_inv_opennessInput toggle_expanded_def split: if_splits)

lemma reachable_size_inv: "reachable v \<Longrightarrow> size_inv v"
proof (induction rule: reachable.induct)
  case start
  have "inv_frames viewer_globals" by (simp add: inv_frames_def viewer_globals_def)
  then show ?case by (simp add: init_viewer_opennessInput size_inv_setSizeByIndex size_inv_opennessInput)
next
  case (step v e v')
  then show ?case using reachable_viewer_inv size_inv_step by blast
qed

subsection \<open>The token\<close>

lemma step_loadToken:
  "step v e = Some v' \<Longrightarrow> loadToken v' = (case e of SizeInput i \<Rightarrow> Suc (loadToken v) | _ \<Rightarrow> loadToken v)"
proof (cases e)
  case (SizeInput i)
  then show "step v e = Some v' \<Longrightarrow> ?thesis" by (auto simp: setSizeByIndex_def Let_def split: if_splits)
next
  case (OpennessInput n)
  then show "step v e = Some v' \<Longrightarrow> ?thesis" by (auto split: if_splits)
next
  case (PartLoaded tok f b)
  then show "step v e = Some v' \<Longrightarrow> ?thesis"
    by (auto simp: part_settled_def loadPart_onLoad_def add_part_obj_def set_frame_def Let_def
        split: option.splits stage.splits prod.splits if_splits)
next
  case (PartFailed tok f)
  then show "step v e = Some v' \<Longrightarrow> ?thesis"
    by (auto simp: part_settled_def set_frame_def split: option.splits stage.splits)
next
  case (PartsJoined tok)
  then show "step v e = Some v' \<Longrightarrow> ?thesis"
  proof -
    assume "e = PartsJoined tok" "step v e = Some v'"
    then obtain fr res where v': "v' = (if tok \<noteq> loadToken v then drop_frame tok v
              else set_frame tok (fr\<lparr>fstage := AwaitPad\<rparr>)
                     (applyOpenness (real (opennessSlider v) / 100) (collectFingerGroups (capture_base (frameObject v)))))"
      using parts_joined_Some by auto
    have "scene.more (applyOpenness (real (opennessSlider v) / 100) (collectFingerGroups (capture_base (frameObject v)))) =
          scene.more v" by simp
    note m = more_eq_viewer_fields(1) [OF this]
    show ?thesis using v' m \<open>e = PartsJoined tok\<close> by (auto simp: set_frame_def drop_frame_def)
  qed
next
  case (PadDone tok r)
  then show "step v e = Some v' \<Longrightarrow> ?thesis"
    by (auto simp: pad_done_def Let_def drop_frame_def prefetchAdjacentSizes_def split: option.splits stage.splits)
next
  case (PartChange f)
  then show "step v e = Some v' \<Longrightarrow> ?thesis"
    using more_eq_viewer_fields(1) [OF setPartVisibility_other(8)]
    by (auto simp: part_change_def rebuild_def split: if_splits)
next
  case (GroupChange g)
  then show "step v e = Some v' \<Longrightarrow> ?thesis"
    by (auto simp: group_change_def Let_def rebuild_def split: option.splits)
qed (auto simp: toggle_expanded_def pointerDown_def resetLabel_def updateLabelPosition_def split: if_splits option.splits)

subsection \<open>Runs\<close>

lemma run_reachable: "reachable v \<Longrightarrow> run v es = Some w \<Longrightarrow> reachable w"
  by (induction es arbitrary: v) (auto split: option.splits intro: reachable.step)

lemma init_viewer_token_children: "loadToken init_viewer = 1" "child_files init_viewer = []"
  by (simp_all add: init_viewer_opennessInput opennessInput_def setSizeByIndex_def loadSize_def resetLabel_def Let_def
      viewer_globals_def child_files_def more_eq_viewer_fields [OF applyOpenness_other(9)])

lemma run_append: "run v (xs @ ys) = (case run v xs of None \<Rightarrow> None | Some w \<Rightarrow> run w ys)"
  by (induction xs arbitrary: v) (auto split: option.splits)

lemma module_start_reachable:
  "module_start present = Some v \<Longrightarrow> reachable v"
  "module_start present = None \<longleftrightarrow> (\<exists>x\<in>set REQUIRED_ELEMENTS. \<not> present x)"
  by (auto simp: module_start_def list_all_iff intro: reachable.start split: if_splits)

lemma run_init_reachable: "run init_viewer es = Some w \<Longrightarrow> reachable w"
  using run_reachable reachable.start by blast

subsection \<open>The fruit overlay under the loader's events\<close>

lemma loadPart_onLoad_fruits: "loadPart_onLoad t sz p b v = (w, r) \<Longrightarrow> fruits w = fruits v"
  using more_eq_viewer_fields(3) [of "add_part_obj ob v" v for ob]
  by (auto simp: loadPart_onLoad_def split: if_splits)

lemma step_fruit_objects:
  assumes st: "step v e = Some v'" and e: "\<forall>t r. e \<noteq> PadDone t r" "\<forall>f. e \<noteq> FruitChange f"
    "\<forall>s a. e \<noteq> FruitModelsLoaded s a"
  shows "strawberryObject (fruits v') = strawberryObject (fruits v) \<and> appleObject (fruits v') = appleObject (fruits v) \<and>
         fruitsLoaded (fruits v') = fruitsLoaded (fruits v)"
proof -
  have "fruits v' = fruits v \<or> fruits v' = rebuild_fruit_checkboxes (fruits v)"
  proof (cases e)
    case (SizeInput i)
    then show ?thesis using st by (auto simp: setSizeByIndex_def loadSize_def resetLabel_def Let_def split: if_splits)
  next
    case (OpennessInput n)
    then show ?thesis using st more_eq_viewer_fields(3) [OF applyOpenness_other(9) [of "real n / 100" "v\<lparr>opennessSlider := n\<rparr>"]]
      by (auto simp: opennessInput_def split: if_splits)
  next
    case (PartLoaded t f b)
    then have "part_settled t f (Some b) v = Some v'" using st by simp
    then obtain fr pend res p where
      v': "v' = (case loadPart_onLoad t (fsize fr) p b v of
                   (w, r) \<Rightarrow> set_frame t (fr\<lparr>fstage := AwaitParts (filter (\<lambda>q. part_file q \<noteq> f) pend) (res @ [(f, r)])\<rparr>) w)"
      unfolding part_settled_Some by auto
    obtain w r where wr: "loadPart_onLoad t (fsize fr) p b v = (w, r)" by (cases "loadPart_onLoad t (fsize fr) p b v") auto
    show ?thesis using v' wr loadPart_onLoad_fruits [OF wr] by (simp add: set_frame_def)
  next
    case (PartFailed t f)
    then have "part_settled t f None v = Some v'" using st by simp
    then show ?thesis by (auto simp: part_settled_def set_frame_def split: option.splits stage.splits)
  next
    case (PartsJoined t)
    then have "parts_joined t v = Some v'" using st by simp
    then obtain fr res where v': "v' = (if t \<noteq> loadToken v then drop_frame t v
              else set_frame t (fr\<lparr>fstage := AwaitPad\<rparr>)
                     (applyOpenness (real (opennessSlider v) / 100) (collectFingerGroups (capture_base (frameObject v)))))"
      unfolding parts_joined_Some by blast
    have "scene.more (applyOpenness (real (opennessSlider v) / 100) (collectFingerGroups (capture_base (frameObject v)))) =
          scene.more v" by simp
    note m = more_eq_viewer_fields(3) [OF this]
    show ?thesis using v' m by (simp add: set_frame_def drop_frame_def)
  next
    case (PartChange f)
    then show ?thesis using st
      by (auto simp: part_change_def rebuild_def more_eq_viewer_fields(3) [OF setPartVisibility_other(8)] split: if_splits)
  next
    case (GroupChange g)
    then show ?thesis using st
      by (auto simp: group_change_def Let_def rebuild_def more_eq_viewer_fields(3) [OF fold_setPartVisibility_more]
          split: option.splits)
  qed (use st e in \<open>auto simp: toggle_expanded_def pointerDown_def resetLabel_def updateLabelPosition_def
       split: if_splits option.splits\<close>)
  then show ?thesis by (auto simp: rebuild_fruit_checkboxes_def)
qed

lemma run_fruit_objects:
  "run w es = Some v' \<Longrightarrow> fruitsLoaded (fruits w) \<Longrightarrow>
   \<forall>e\<in>set es. (\<forall>t r. e \<noteq> PadDone t r) \<and> (\<forall>f. e \<noteq> FruitChange f) \<Longrightarrow>
   strawberryObject (fruits v') = strawberryObject (fruits w) \<and> appleObject (fruits v') = appleObject (fruits w)"
proof (induction es arbitrary: w)
  case (Cons e es)
  from Cons.prems(1) obtain u where st: "step w e = Some u" and r: "run u es = Some v'"
    by (auto split: option.splits)
  have "\<forall>s a. e \<noteq> FruitModelsLoaded s a" using st Cons.prems(2) by auto
  then have "strawberryObject (fruits u) = strawberryObject (fruits w) \<and> appleObject (fruits u) = appleObject (fruits w) \<and>
             fruitsLoaded (fruits u) = fruitsLoaded (fruits w)"
    using step_fruit_objects [OF st] Cons.prems(3) by simp
  then show ?case using Cons.IH [OF r] Cons.prems(2,3) by simp
qed simp

lemma reachable_fruits_unloaded:
  "reachable v \<Longrightarrow> \<not> fruitsLoaded (fruits v) \<Longrightarrow> strawberryObject (fruits v) = None \<and> appleObject (fruits v) = None"
proof (induction rule: reachable.induct)
  case start
  have "fruits init_viewer = fruits viewer_globals"
    by (simp add: init_viewer_def setSizeByIndex_def loadSize_def resetLabel_def Let_def
        more_eq_viewer_fields(3) [OF applyOpenness_other(9)])
  then show ?case by (simp add: viewer_globals_def fruit_init_def)
next
  case (step v e v')
  show ?case
  proof (cases "(\<exists>t r. e = PadDone t r) \<or> (\<exists>f. e = FruitChange f) \<or> (\<exists>s a. e = FruitModelsLoaded s a)")
    case False
    then show ?thesis using step_fruit_objects [OF step.hyps(2)] step by auto
  next
    case True
    then consider t r where "e = PadDone t r" | f where "e = FruitChange f" | s a where "e = FruitModelsLoaded s a"
      by blast
    then show ?thesis
    proof cases
      case 1
      then obtain w sz where "fruits v' = positionFruits (updateFruitVisibility sz (fruits v))"
        using step.hyps(2)
        by (auto simp: pad_done_def Let_def prefetchAdjacentSizes_def drop_frame_def
            split: option.splits stage.splits)
      then show ?thesis using step
        by (auto simp: positionFruits_def updateFruitVisibility_def Let_def updateFruitCheckboxes_def split: if_splits)
    next
      case 2
      then show ?thesis using step
        by (cases f) (auto simp: strawberry_change_def apple_change_def set_visible_def Let_def)
    next
      case 3
      then show ?thesis using step.hyps(2) step.prems
        by (auto simp: loadFruits_done_def split: if_splits)
    qed
  qed
qed

end
