(* ===== verification/Scenarios.thy ===== *)
theory Scenarios
  imports Loader
begin

text \<open>
  Event sequences the witnesses run from \<open>init_viewer\<close>: every part of a request
  failing, some parts loading with a unit box and the rest failing, and the
  interleaving in which the side-car fetch of a superseded request ends last.
\<close>

definition fail_all :: "token \<Rightarrow> event list" where
  "fail_all tok = map (\<lambda>p. PartFailed tok (part_file p)) PARTS"

definition unit_box :: box where
  "unit_box = ((0, 0, 0), (1, 1, 1))"

definition load_some :: "token \<Rightarrow> file_name list \<Rightarrow> event list" where
  "load_some tok fs = map (\<lambda>p. if part_file p \<in> set fs then PartLoaded tok (part_file p) (Some unit_box)
                              else PartFailed tok (part_file p)) PARTS"

definition stale_pad_trace :: "event list" where
  "stale_pad_trace =
     [FruitModelsLoaded True True, SizeInput 0] @ fail_all 2 @ [PartsJoined 2, SizeInput 10] @
     fail_all 3 @ [PartsJoined 3, PadDone 3 PadNotOk, PadDone 2 PadNotOk]"

end
