(* ===== verification/Picking.thy ===== *)
theory Picking
  imports Loader_Invariant Scenarios
begin

text \<open>
  The part label of \<open>gripper-viewer.js\<close>: what the \<open>pointerdown\<close> listener,
  \<open>findLabelForObject\<close>, \<open>updateLabelPosition\<close> and \<open>resetLabel\<close> do to
  \<open>lastHitPoint\<close>, \<open>lastLabel\<close> and the label's \<open>visible\<close> class. \<open>label_inv\<close> says
  that a hit point and a label are set together, that a shown label has a hit
  point, and that a label is the label of a part or of a fruit; \<open>heap_labels\<close>
  that every object of the store carries a part's label.
\<close>

definition known_labels :: "string set" where
  "known_labels = set (map part_label PARTS) \<union> {fruitLabel (FRUIT_CONFIG Strawberry), fruitLabel (FRUIT_CONFIG Apple)}"

definition heap_labels :: "viewer \<Rightarrow> bool" where
  "heap_labels v \<longleftrightarrow> (\<forall>i<length (heap v). objLabel (obj_at v i) \<in> set (map part_label PARTS))"

definition label_inv :: "viewer \<Rightarrow> bool" where
  "label_inv v \<longleftrightarrow> (lastHitPoint v = None \<longleftrightarrow> lastLabel v = []) \<and> (labelVisible v \<longrightarrow> lastHitPoint v \<noteq> None) \<and>
     (lastLabel v \<noteq> [] \<longrightarrow> lastLabel v \<in> known_labels)"

subsection \<open>Events that leave the label alone\<close>

lemma label_fields_cong:
  "lastHitPoint w = lastHitPoint v \<Longrightarrow> lastLabel w = lastLabel v \<Longrightarrow> labelVisible w = labelVisible v \<Longrightarrow>
   label_inv w = label_inv v"
  by (simp add: label_inv_def)

lemma heap_labels_cong:
  "length (heap w) = length (heap v) \<Longrightarrow> (\<forall>i<length (heap v). objLabel (obj_at w i) = objLabel (obj_at v i)) \<Longrightarrow>
   heap_labels w = heap_labels v"
  by (simp add: heap_labels_def)

lemma scene_ops_keep_label:
  "objLabel (obj_at (applyOpenness o' s) j) = objLabel (obj_at s j)"
  "objLabel (obj_at (capture_base s) j) = objLabel (obj_at s j)"
  "objLabel (obj_at (setPartVisibility f c s) j) = objLabel (obj_at s j)"
  "objLabel (obj_at (fold (\<lambda>f s. setPartVisibility f c s) files s) j) = objLabel (obj_at s j)"
  by (simp_all add: apply_openness_positions_def Let_def fold_set_pos_obj capture_base_obj setPartVisibility_obj
      fold_setPartVisibility)


lemma loadSize_label [simp]:
  "lastHitPoint (loadSize sz v) = None" "lastLabel (loadSize sz v) = []" "labelVisible (loadSize sz v) = False"
  by (simp_all add: loadSize_def resetLabel_def Let_def)

lemma frames_ops_label [simp]:
  "lastHitPoint (set_frame tok fr v) = lastHitPoint v" "lastLabel (set_frame tok fr v) = lastLabel v"
  "labelVisible (set_frame tok fr v) = labelVisible v" "heap (set_frame tok fr v) = heap v"
  "lastHitPoint (drop_frame tok v) = lastHitPoint v" "lastLabel (drop_frame tok v) = lastLabel v"
  "labelVisible (drop_frame tok v) = labelVisible v" "heap (drop_frame tok v) = heap v"
  by (simp_all add: set_frame_def drop_frame_def)

lemma heap_labels_frames [simp]:
  "heap_labels (set_frame tok fr v) = heap_labels v" "heap_labels (drop_frame tok v) = heap_labels v"
  by (simp_all add: heap_labels_def set_frame_def drop_frame_def)

lemma heap_labels_fruits [simp]: "heap_labels (v\<lparr>fruits := fs\<rparr>) = heap_labels v"
  by (simp add: heap_labels_def)

lemma heap_labels_add_part_obj:
  "heap_labels v \<Longrightarrow> objLabel ob \<in> set (map part_label PARTS) \<Longrightarrow> heap_labels (add_part_obj ob v)"
  by (auto simp: heap_labels_def add_part_obj_def Let_def nth_append less_Suc_eq)

lemma part_settled_label_fields:
  "part_settled tok f outcome v = Some v' \<Longrightarrow>
   lastHitPoint v' = lastHitPoint v \<and> lastLabel v' = lastLabel v \<and> labelVisible v' = labelVisible v"
  by (auto simp: part_settled_def loadPart_onLoad_def add_part_obj_def Let_def
      split: option.splits stage.splits prod.splits if_splits)

lemma parts_joined_label_fields:
  "parts_joined tok v = Some v' \<Longrightarrow>
   lastHitPoint v' = lastHitPoint v \<and> lastLabel v' = lastLabel v \<and> labelVisible v' = labelVisible v"
proof -
  assume "parts_joined tok v = Some v'"
  then obtain fr res where v': "v' = (if tok \<noteq> loadToken v then drop_frame tok v
              else set_frame tok (fr\<lparr>fstage := AwaitPad\<rparr>)
                     (applyOpenness (real (opennessSlider v) / 100) (collectFingerGroups (capture_base (frameObject v)))))"
    using parts_joined_Some by blast
  have "scene.more (applyOpenness (real (opennessSlider v) / 100) (collectFingerGroups (capture_base (frameObject v)))) =
        scene.more v" by simp
  note m = more_eq_viewer_fields [OF this]
  show ?thesis using v' m by simp
qed

lemma label_part_settled:
  assumes inv: "viewer_inv v" "heap_labels v" and ps: "part_settled tok f outcome v = Some v'"
  shows "heap_labels v' \<and> lastHitPoint v' = lastHitPoint v \<and> lastLabel v' = lastLabel v \<and> labelVisible v' = labelVisible v"
proof -
  obtain fr pend res p where ff: "find_frame tok v = Some fr" and stg: "fstage fr = AwaitParts pend res"
    and fp: "find (\<lambda>p. part_file p = f) pend = Some p"
    and v': "v' = (case (case outcome of Some bnds \<Rightarrow> loadPart_onLoad tok (fsize fr) p bnds v | None \<Rightarrow> (v, False)) of
                (w, r) \<Rightarrow> set_frame tok (fr\<lparr>fstage := AwaitParts (filter (\<lambda>q. part_file q \<noteq> f) pend)
                                                            (res @ [(f, r)])\<rparr>) w)"
    using ps part_settled_Some by blast
  obtain w r where wr: "(case outcome of Some bnds \<Rightarrow> loadPart_onLoad tok (fsize fr) p bnds v | None \<Rightarrow> (v, False)) = (w, r)"
    by fastforce
  have "heap_labels w \<and> lastHitPoint w = lastHitPoint v \<and> lastLabel w = lastLabel v \<and> labelVisible w = labelVisible v"
  proof (cases "outcome = None \<or> tok \<noteq> loadToken v")
    case True
    then have "w = v" using wr by (auto simp: loadPart_onLoad_def split: option.splits)
    then show ?thesis using inv by simp
  next
    case False
    then obtain bnds where o: "outcome = Some bnds" and t: "tok = loadToken v" by auto
    have "loading_ok v fr" using inv(1) find_frame_Some [OF ff] t by (simp add: viewer_inv_def inv_current_def)
    then have "p \<in> set PARTS" using stg find_SomeD [OF fp] by (auto simp: loading_ok_def)
    then have lab: "part_label p \<in> set (map part_label PARTS)" by simp
    define ob where "ob = \<lparr>partFile = part_file p, objLabel = part_label p, meshSize = fsize fr,
               visible = vis_of (componentVisibility v) (part_file p), position = (0, 0, 0),
               basePosition = None, bounds = bnds\<rparr>"
    have w: "w = add_part_obj ob v" using wr o t by (simp add: loadPart_onLoad_def ob_def)
    have "heap_labels w" using heap_labels_add_part_obj [OF inv(2), of ob] lab w by (simp add: ob_def)
    then show ?thesis by (simp add: w add_part_obj_def Let_def)
  qed
  then show ?thesis using v' wr by simp
qed

lemma label_parts_joined:
  assumes "heap_labels v" and pj: "parts_joined tok v = Some v'"
  shows "heap_labels v' \<and> lastHitPoint v' = lastHitPoint v \<and> lastLabel v' = lastLabel v \<and> labelVisible v' = labelVisible v"
proof -
  obtain fr res where v': "v' = (if tok \<noteq> loadToken v then drop_frame tok v
              else set_frame tok (fr\<lparr>fstage := AwaitPad\<rparr>)
                     (applyOpenness (real (opennessSlider v) / 100) (collectFingerGroups (capture_base (frameObject v)))))"
    using pj parts_joined_Some by blast
  let ?w = "applyOpenness (real (opennessSlider v) / 100) (collectFingerGroups (capture_base (frameObject v)))"
  have m: "scene.more ?w = scene.more v" by simp
  have "heap_labels ?w = heap_labels v"
    by (rule heap_labels_cong) (simp_all add: scene_ops_keep_label(1) [of _ "collectFingerGroups (capture_base (frameObject v))"]
        scene_ops_keep_label(2) del: obj_at_applyOpenness applyOpenness_other)
  then show ?thesis using v' assms(1) more_eq_viewer_fields [OF m] by auto
qed



lemma prefetchAdjacentSizes_label [simp]:
  "heap (prefetchAdjacentSizes sz v) = heap v" "lastHitPoint (prefetchAdjacentSizes sz v) = lastHitPoint v"
  "lastLabel (prefetchAdjacentSizes sz v) = lastLabel v" "labelVisible (prefetchAdjacentSizes sz v) = labelVisible v"
  by (simp_all add: prefetchAdjacentSizes_def Let_def)

lemma label_pad_done:
  "pad_done tok r v = Some v' \<Longrightarrow>
   heap v' = heap v \<and> lastHitPoint v' = lastHitPoint v \<and> lastLabel v' = lastLabel v \<and> labelVisible v' = labelVisible v"
  by (auto simp: pad_done_def Let_def split: option.splits stage.splits)

lemma opennessInput_label:
  "heap_labels (opennessInput n v) = heap_labels v"
  "lastHitPoint (opennessInput n v) = lastHitPoint v" "lastLabel (opennessInput n v) = lastLabel v"
  "labelVisible (opennessInput n v) = labelVisible v"
proof -
  have m: "scene.more (opennessInput n v) = scene.more (v\<lparr>opennessSlider := n\<rparr>)" by (simp add: opennessInput_def)
  show "heap_labels (opennessInput n v) = heap_labels v"
    by (rule heap_labels_cong) (simp_all add: opennessInput_def scene_ops_keep_label(1) [of _ "v\<lparr>opennessSlider := n\<rparr>"]
        del: obj_at_applyOpenness applyOpenness_other)
  show "lastHitPoint (opennessInput n v) = lastHitPoint v" "lastLabel (opennessInput n v) = lastLabel v"
    "labelVisible (opennessInput n v) = labelVisible v"
    using more_eq_viewer_fields [OF m] by simp_all
qed

lemma checklist_label:
  "heap_labels (setPartVisibility f c v) = heap_labels v"
  "heap_labels (fold (\<lambda>f s. setPartVisibility f c s) files v) = heap_labels v"
  "lastHitPoint (setPartVisibility f c v) = lastHitPoint v" "lastLabel (setPartVisibility f c v) = lastLabel v"
  "labelVisible (setPartVisibility f c v) = labelVisible v"
  "lastHitPoint (fold (\<lambda>f s. setPartVisibility f c s) files v) = lastHitPoint v"
  "lastLabel (fold (\<lambda>f s. setPartVisibility f c s) files v) = lastLabel v"
  "labelVisible (fold (\<lambda>f s. setPartVisibility f c s) files v) = labelVisible v"
proof -
  show "heap_labels (setPartVisibility f c v) = heap_labels v"
    "heap_labels (fold (\<lambda>f s. setPartVisibility f c s) files v) = heap_labels v"
    by (rule heap_labels_cong; simp add: scene_ops_keep_label fold_setPartVisibility)+
  have m: "scene.more (setPartVisibility f c v) = scene.more v" by simp
  show "lastHitPoint (setPartVisibility f c v) = lastHitPoint v" "lastLabel (setPartVisibility f c v) = lastLabel v"
    "labelVisible (setPartVisibility f c v) = labelVisible v"
    using more_eq_viewer_fields [OF m] by simp_all
  have "scene.more (fold (\<lambda>f s. setPartVisibility f c s) files v) = scene.more v"
    by (induction files arbitrary: v) simp_all
  note m' = more_eq_viewer_fields [OF this]
  show "lastHitPoint (fold (\<lambda>f s. setPartVisibility f c s) files v) = lastHitPoint v"
    "lastLabel (fold (\<lambda>f s. setPartVisibility f c s) files v) = lastLabel v"
    "labelVisible (fold (\<lambda>f s. setPartVisibility f c s) files v) = labelVisible v"
    using m' by simp_all
qed

lemma label_inv_pointerDown:
  assumes "viewer_inv v" "heap_labels v" "label_inv v" "case hit of None \<Rightarrow> True | Some pk \<Rightarrow> pickable v pk"
  shows "label_inv (pointerDown hit b v)"
proof (cases hit)
  case None
  then show ?thesis by (simp add: pointerDown_def resetLabel_def label_inv_def)
next
  case (Some pk)
  show ?thesis
  proof (cases "findLabelForObject v pk")
    case None
    then show ?thesis using Some assms(3) by (simp add: pointerDown_def)
  next
    case (Some l)
    have "l \<in> known_labels \<and> l \<noteq> []"
    proof (cases pk)
      case (PickPart i p)
      then have "i < length (heap v)" using assms(1,4) \<open>hit = Some pk\<close>
        by (auto simp: pickable_def viewer_inv_def inv_store_def)
      then show ?thesis using Some PickPart assms(2)
        by (auto simp: findLabelForObject_def heap_labels_def known_labels_def split: if_splits)
    next
      case (PickFruit f p)
      then show ?thesis using Some by (cases f) (auto simp: findLabelForObject_def known_labels_def split: if_splits)
    qed
    then show ?thesis using Some \<open>hit = Some pk\<close>
      by (simp add: pointerDown_def updateLabelPosition_def label_inv_def del: not_None_eq)
  qed
qed

lemma label_step:
  assumes inv: "viewer_inv v" "heap_labels v" "label_inv v" and st: "step v e = Some v'"
  shows "heap_labels v' \<and> label_inv v'"
proof (cases e)
  case (SizeInput i)
  then show ?thesis using inv st
    by (auto simp: setSizeByIndex_def Let_def label_inv_def heap_labels_def split: if_splits)
next
  case (OpennessInput n)
  then show ?thesis using inv st label_fields_cong [of "opennessInput n v" v]
    by (auto simp: opennessInput_label split: if_splits)
next
  case (PartLoaded tok f b)
  then show ?thesis using inv st label_part_settled [of v tok f "Some b" v'] label_fields_cong [of v' v] by auto
next
  case (PartFailed tok f)
  then show ?thesis using inv st label_part_settled [of v tok f None v'] label_fields_cong [of v' v] by auto
next
  case (PartsJoined tok)
  then show ?thesis using inv st label_parts_joined [of v tok v'] label_fields_cong [of v' v] by auto
next
  case (PadDone tok r)
  then show ?thesis using inv st label_pad_done [of tok r v v'] label_fields_cong [of v' v]
    by (auto simp: heap_labels_def)
next
  case (PartChange f)
  then show ?thesis using inv st
    by (auto simp: part_change_def rebuild_def checklist_label label_inv_def heap_labels_def [symmetric] split: if_splits)
next
  case (GroupChange g)
  then show ?thesis using inv st
    by (auto simp: group_change_def Let_def rebuild_def checklist_label label_inv_def split: option.splits)
next
  case (PointerDown hit b)
  then have pk: "case hit of None \<Rightarrow> True | Some pk \<Rightarrow> pickable v pk" and v': "v' = pointerDown hit b v"
    using st by (auto split: if_splits)
  have "heap v' = heap v"
    by (simp add: v' pointerDown_def resetLabel_def updateLabelPosition_def split: option.splits)
  then show ?thesis using label_inv_pointerDown [OF inv pk] inv(2) v' by (simp add: heap_labels_def)
next
  case (AnimationFrame b)
  then show ?thesis using inv st by (cases b) (auto simp: updateLabelPosition_def label_inv_def heap_labels_def)
qed (use inv st in \<open>auto simp: toggle_expanded_def label_inv_def heap_labels_def split: option.splits if_splits\<close>)

lemma reachable_label_inv: "reachable v \<Longrightarrow> heap_labels v \<and> label_inv v"
proof (induction rule: reachable.induct)
  case start
  show ?case
    by (simp add: init_viewer_opennessInput opennessInput_label setSizeByIndex_def Let_def label_inv_def
        heap_labels_def viewer_globals_def)
next
  case (step v e v')
  then show ?case using label_step reachable_viewer_inv by blast
qed


subsection \<open>Properties of the label\<close>

text \<open>
  C20. In every reachable state the label shown belongs to a hit point, a hit point and a
  label text are set together, and the text is the label of a part or of a fruit.
\<close>

theorem label_consistent:
  assumes "reachable v"
  shows "(labelVisible v \<longrightarrow> lastHitPoint v \<noteq> None) \<and> (lastHitPoint v = None \<longleftrightarrow> lastLabel v = []) \<and>
         (lastLabel v \<noteq> [] \<longrightarrow> lastLabel v \<in> set (map part_label PARTS) \<union> {''Strawberry (reference)'', ''Apple (reference)''})"
  using reachable_label_inv [OF assms] unfolding label_inv_def known_labels_def by auto

theorem label_consistent_witness:
  "\<exists>v. run init_viewer (load_some 1 [''Optical_pad''] @ [PointerDown (Some (PickPart 0 (0, 0, 0))) True]) = Some v \<and>
       labelVisible v \<and> lastLabel v \<in> set (map part_label PARTS)"
proof -
  have "case run init_viewer (load_some 1 [''Optical_pad''] @ [PointerDown (Some (PickPart 0 (0, 0, 0))) True]) of
          Some v \<Rightarrow> labelVisible v \<and> lastLabel v = ''Optical pad (left)'' | None \<Rightarrow> False"
    by code_simp
  then obtain v where r: "run init_viewer (load_some 1 [''Optical_pad''] @ [PointerDown (Some (PickPart 0 (0, 0, 0))) True]) = Some v"
    and c: "labelVisible v" "lastLabel v = ''Optical pad (left)''" by (auto split: option.splits)
  have "lastLabel v \<in> set (map part_label PARTS) \<union> {''Strawberry (reference)'', ''Apple (reference)''}"
    using label_consistent [OF run_init_reachable [OF r]] c by simp
  then show ?thesis using r c by auto
qed

text \<open>
  C21. Only a click that hits a labelled object inside the clip range shows the label:
  no other event turns it on.
\<close>

theorem only_click_shows_label:
  assumes "\<not> labelVisible v" "step v e = Some v'" "labelVisible v'"
  shows "\<exists>pk. e = PointerDown (Some pk) True"
proof (cases e)
  case (PointerDown hit b)
  then show ?thesis using assms
    by (cases hit; cases b) (auto simp: pointerDown_def resetLabel_def updateLabelPosition_def split: option.splits if_splits)
next
  case (AnimationFrame b)
  then show ?thesis using assms by (auto simp: updateLabelPosition_def split: if_splits)
qed (use assms in \<open>auto simp: setSizeByIndex_def Let_def opennessInput_label part_change_def rebuild_def
       group_change_def checklist_label toggle_expanded_def split: if_splits option.splits
       dest: part_settled_label_fields parts_joined_label_fields label_pad_done\<close>)

theorem only_click_shows_label_witness:
  "\<exists>v v'. run init_viewer (load_some 1 [''Optical_pad'']) = Some v \<and> \<not> labelVisible v \<and>
          step v (PointerDown (Some (PickPart 0 (1, 0, 0))) True) = Some v' \<and> labelVisible v'"
proof -
  have "case run init_viewer (load_some 1 [''Optical_pad'']) of
          Some v \<Rightarrow> \<not> labelVisible v \<and> (case step v (PointerDown (Some (PickPart 0 (1, 0, 0))) True) of
                                          Some v' \<Rightarrow> labelVisible v' | None \<Rightarrow> False)
        | None \<Rightarrow> False"
    by code_simp
  then obtain v v' where "run init_viewer (load_some 1 [''Optical_pad'']) = Some v" "\<not> labelVisible v"
    "step v (PointerDown (Some (PickPart 0 (1, 0, 0))) True) = Some v'" "labelVisible v'"
    by (auto split: option.splits)
  then show ?thesis using only_click_shows_label [of v] by blast
qed

text \<open>
  \<open>updateLabelPosition\<close> removes the label's \<open>visible\<close> class when the hit point
  leaves the clip range and never adds it back: after the view returns, the label
  stays hidden although its hit point and text are kept.
\<close>

theorem label_stays_hidden_after_clip:
  "\<exists>v. run init_viewer (load_some 1 [''Optical_pad''] @
         [PointerDown (Some (PickPart 0 (0, 0, 0))) True, AnimationFrame False, AnimationFrame True]) = Some v \<and>
       lastHitPoint v = Some (0, 0, 0) \<and> lastLabel v = ''Optical pad (left)'' \<and> \<not> labelVisible v"
proof -
  have "case run init_viewer (load_some 1 [''Optical_pad''] @
         [PointerDown (Some (PickPart 0 (0, 0, 0))) True, AnimationFrame False, AnimationFrame True]) of
          Some v \<Rightarrow> lastHitPoint v = Some (0, 0, 0) \<and> lastLabel v = ''Optical pad (left)'' \<and> \<not> labelVisible v
        | None \<Rightarrow> False"
    by code_simp
  then show ?thesis by (auto split: option.splits)
qed

text \<open>
  C22. The ray cast tests every child of the group, visible or not: in every reachable
  state, a click inside the clip range that hits any child, also one hidden through
  the checklist, is accepted and shows that part's label at the hit point.
\<close>

theorem hidden_part_labelled:
  assumes "reachable v" "i \<in> set (children v)"
  shows "\<exists>v'. step v (PointerDown (Some (PickPart i p)) True) = Some v' \<and> labelVisible v' \<and>
              lastLabel v' = objLabel (obj_at v i) \<and> lastHitPoint v' = Some p"
proof -
  have "i < length (heap v)"
    using reachable_viewer_inv [OF assms(1)] assms(2) by (simp add: viewer_inv_def inv_store_def)
  then have "objLabel (obj_at v i) \<in> set (map part_label PARTS)"
    using reachable_label_inv [OF assms(1)] by (simp add: heap_labels_def)
  moreover have "\<forall>l\<in>set (map part_label PARTS). l \<noteq> []" by (simp add: PARTS_def)
  ultimately have "objLabel (obj_at v i) \<noteq> []" by blast
  then show ?thesis using assms(2)
    by (simp add: pickable_def pointerDown_def findLabelForObject_def updateLabelPosition_def)
qed

theorem hidden_part_labelled_witness:
  "\<exists>v v'. run init_viewer (load_some 1 [''Optical_pad''] @ [PartChange ''Optical_pad'']) = Some v \<and>
          0 \<in> set (children v) \<and> \<not> visible (obj_at v 0) \<and>
          step v (PointerDown (Some (PickPart 0 (0, 0, 0))) True) = Some v' \<and> labelVisible v' \<and>
          lastLabel v' = ''Optical pad (left)''"
proof -
  have "case run init_viewer (load_some 1 [''Optical_pad''] @ [PartChange ''Optical_pad'']) of
          Some v \<Rightarrow> children v = [0] \<and> \<not> visible (obj_at v 0) \<and> objLabel (obj_at v 0) = ''Optical pad (left)''
        | None \<Rightarrow> False"
    by code_simp
  then obtain v where r: "run init_viewer (load_some 1 [''Optical_pad''] @ [PartChange ''Optical_pad'']) = Some v"
    and c: "children v = [0]" "\<not> visible (obj_at v 0)" "objLabel (obj_at v 0) = ''Optical pad (left)''"
    by (auto split: option.splits)
  have "0 \<in> set (children v)" using c(1) by simp
  from hidden_part_labelled [OF run_init_reachable [OF r] this, of "(0, 0, 0)"]
  obtain v' where "step v (PointerDown (Some (PickPart 0 (0, 0, 0))) True) = Some v'"
    and l: "labelVisible v'" "lastLabel v' = objLabel (obj_at v 0)" by blast
  moreover have "lastLabel v' = ''Optical pad (left)''" using l(2) c(3) by (simp only:)
  ultimately show ?thesis using r c(2) l(1) \<open>0 \<in> set (children v)\<close> by blast
qed

text \<open>C23. Moving the size slider clears the label: \<open>loadSize\<close> starts with \<open>resetLabel\<close>.\<close>

theorem size_input_resets_label:
  assumes "step v (SizeInput i) = Some v'"
  shows "lastHitPoint v' = None \<and> lastLabel v' = [] \<and> \<not> labelVisible v'"
  using assms by (auto simp: setSizeByIndex_def Let_def split: if_splits)

theorem size_input_resets_label_witness:
  "\<exists>v'. step viewer_globals (SizeInput 3) = Some v' \<and> lastHitPoint v' = None \<and> lastLabel v' = [] \<and> \<not> labelVisible v'"
proof -
  obtain v' where "step viewer_globals (SizeInput 3) = Some v'" by simp
  then show ?thesis using size_input_resets_label [of viewer_globals 3] by blast
qed

end
