(* ===== verification/Loader_Spec.thy ===== *)
theory Loader_Spec
  imports Loader_Invariant Scenarios
begin

text \<open>
  The loader's contract (spec 3 and 4.1) as an abstract machine, and the refinement
  of it by \<open>step\<close>. The abstract state holds the size last requested, the parts
  on screen in the order they appeared, and the checklist's visibility. A request
  replaces the size and empties the scene; a part of the current request can appear
  once; a checklist click sets the visibility of some parts; every other event is
  invisible at this level. \<open>abs_viewer\<close> reads the abstract state off a viewer,
  \<open>abs_event\<close> names the abstract event a concrete one performs, and
  \<open>step_refines_astep\<close> shows that every step of a reachable viewer is that abstract
  step.
\<close>

record aviewer =
  aSize :: size_name
  aShown :: "file_name list"
  aVisible :: "file_name \<Rightarrow> bool"

datatype aevent = ARequest size_name | AShow file_name | ASetVisible "file_name list" bool | ASkip

fun astep :: "aviewer \<Rightarrow> aevent \<Rightarrow> aviewer option" where
  "astep a (ARequest sz) = (if sz \<in> set SIZES then Some (a\<lparr>aSize := sz, aShown := []\<rparr>) else None)"
| "astep a (AShow f) =
     (if f \<in> set part_files \<and> f \<notin> set (aShown a) then Some (a\<lparr>aShown := aShown a @ [f]\<rparr>) else None)"
| "astep a (ASetVisible fs c) = Some (a\<lparr>aVisible := (\<lambda>g. if g \<in> set fs then c else aVisible a g)\<rparr>)"
| "astep a ASkip = Some a"

definition abs_viewer :: "viewer \<Rightarrow> aviewer" where
  "abs_viewer v = \<lparr>aSize = SIZES ! sizeSlider v, aShown = child_files v, aVisible = vis_of (componentVisibility v)\<rparr>"

fun abs_event :: "viewer \<Rightarrow> event \<Rightarrow> aevent" where
  "abs_event v (SizeInput i) = ARequest (SIZES ! nat (js_clamp 0 (int (length SIZES) - 1) i))"
| "abs_event v (PartLoaded tok f b) = (if tok = loadToken v then AShow f else ASkip)"
| "abs_event v (PartChange f) = ASetVisible [f] (\<not> vis_of (componentVisibility v) f)"
| "abs_event v (GroupChange g) =
     (case map_of COMPONENT_GROUPS g of
        None \<Rightarrow> ASkip
      | Some files \<Rightarrow> ASetVisible files (\<not> group_checked (componentVisibility v) files))"
| "abs_event v _ = ASkip"

inductive areachable :: "aviewer \<Rightarrow> bool" where
  astart: "areachable (abs_viewer init_viewer)"
| astep: "areachable a \<Longrightarrow> astep a e = Some a' \<Longrightarrow> areachable a'"


text \<open>
  The parts that the specification allows on screen after a sequence of events,
  computed from the events alone: every size input issues the next token and starts
  an empty scene; a mesh that arrives with the current token is appended; nothing
  else shows a part.
\<close>

fun spec_shown :: "token \<Rightarrow> file_name list \<Rightarrow> event list \<Rightarrow> file_name list" where
  "spec_shown tok fs [] = fs"
| "spec_shown tok fs (SizeInput i # es) = spec_shown (Suc tok) [] es"
| "spec_shown tok fs (PartLoaded t f b # es) = spec_shown tok (if t = tok then fs @ [f] else fs) es"
| "spec_shown tok fs (e # es) = spec_shown tok fs es"

subsection \<open>The abstraction under each operation\<close>

lemma abs_viewer_cong:
  assumes "sizeSlider w = sizeSlider v" "children w = children v" "componentVisibility w = componentVisibility v"
    "\<forall>i\<in>set (children v). partFile (obj_at w i) = partFile (obj_at v i)"
  shows "abs_viewer w = abs_viewer v"
  using assms by (simp add: abs_viewer_def child_files_def)

lemma abs_viewer_frames [simp]:
  "abs_viewer (set_frame tok fr v) = abs_viewer v" "abs_viewer (drop_frame tok v) = abs_viewer v"
  "abs_viewer (v\<lparr>fruits := fs\<rparr>) = abs_viewer v" "abs_viewer (prefetchAdjacentSizes sz v) = abs_viewer v"
  "abs_viewer (v\<lparr>sizeReadout := t1, padDimsReadout := t2\<rparr>) = abs_viewer v"
  "abs_viewer (toggle_expanded g v) = abs_viewer v"
  "abs_viewer (updateLabelPosition b v) = abs_viewer v" "abs_viewer (pointerDown h b v) = abs_viewer v"
  by (simp_all add: abs_viewer_def child_files_def set_frame_def drop_frame_def prefetchAdjacentSizes_def Let_def
      toggle_expanded_def updateLabelPosition_def pointerDown_def resetLabel_def split: option.splits)

lemma abs_part_settled:
  assumes inv: "viewer_inv v" and ps: "part_settled tok f outcome v = Some v'"
  shows "abs_viewer v' = (if tok = loadToken v \<and> outcome \<noteq> None then (abs_viewer v)\<lparr>aShown := child_files v @ [f]\<rparr>
                          else abs_viewer v) \<and>
         (tok = loadToken v \<and> outcome \<noteq> None \<longrightarrow> f \<in> set part_files \<and> f \<notin> set (child_files v))"
proof -
  obtain fr pend res p where ff: "find_frame tok v = Some fr" and stg: "fstage fr = AwaitParts pend res"
    and fp: "find (\<lambda>p. part_file p = f) pend = Some p"
    and v': "v' = (case (case outcome of Some bnds \<Rightarrow> loadPart_onLoad tok (fsize fr) p bnds v | None \<Rightarrow> (v, False)) of
                (w, r) \<Rightarrow> set_frame tok (fr\<lparr>fstage := AwaitParts (filter (\<lambda>q. part_file q \<noteq> f) pend)
                                                            (res @ [(f, r)])\<rparr>) w)"
    using ps part_settled_Some by blast
  show ?thesis
  proof (cases "tok = loadToken v \<and> outcome \<noteq> None")
    case False
    then have "v' = set_frame tok (fr\<lparr>fstage := AwaitParts (filter (\<lambda>q. part_file q \<noteq> f) pend) (res @ [(f, False)])\<rparr>) v"
      using v' by (auto simp: loadPart_onLoad_def split: option.splits)
    then show ?thesis using False by auto
  next
    case True
    then obtain bnds where o: "outcome = Some bnds" and t: "tok = loadToken v" by auto
    have fr: "fr \<in> set (frames v)" "ftoken fr = tok" using find_frame_Some [OF ff] by auto
    have p: "p \<in> set pend" "part_file p = f" using find_SomeD [OF fp] by auto
    have ok: "loading_ok v fr" using inv fr t by (simp add: viewer_inv_def inv_current_def)
    then have "set pend \<subseteq> set PARTS" and d: "distinct (map part_file pend @ map fst res)"
      and cf: "child_files v = map fst (filter snd res)" using stg by (simp_all add: loading_ok_def)
    then have fin: "f \<in> set part_files" using p by (force simp: part_files_def)
    have "f \<in> set (map part_file pend)" using p by force
    then have fnot: "f \<notin> set (child_files v)" using d cf by auto
    define ob where "ob = \<lparr>partFile = part_file p, objLabel = part_label p, meshSize = fsize fr,
               visible = vis_of (componentVisibility v) (part_file p), position = (0, 0, 0),
               basePosition = None, bounds = bnds\<rparr>"
    have w: "v' = set_frame tok (fr\<lparr>fstage := AwaitParts (filter (\<lambda>q. part_file q \<noteq> f) pend) (res @ [(f, True)])\<rparr>)
                     (add_part_obj ob v)"
      using v' o t by (simp add: loadPart_onLoad_def ob_def)
    have lt: "\<forall>i\<in>set (children v). i < length (heap v)" using inv by (simp add: viewer_inv_def inv_store_def)
    have "child_files (add_part_obj ob v) = child_files v @ [f]"
      using child_files_add_part_obj [OF lt, of ob] p by (simp add: ob_def)
    moreover have "sizeSlider (add_part_obj ob v) = sizeSlider v" by (simp add: add_part_obj_def Let_def)
    ultimately have "abs_viewer (add_part_obj ob v) = (abs_viewer v)\<lparr>aShown := child_files v @ [f]\<rparr>"
      by (simp add: abs_viewer_def)
    then show ?thesis using w True fin fnot by simp
  qed
qed


lemma abs_opennessInput [simp]: "abs_viewer (opennessInput n v) = abs_viewer v"
proof (rule abs_viewer_cong)
  have "scene.more (opennessInput n v) = scene.more (v\<lparr>opennessSlider := n\<rparr>)" by (simp add: opennessInput_def)
  then show "sizeSlider (opennessInput n v) = sizeSlider v" using more_eq_viewer_fields(6) by fastforce
qed (simp_all add: opennessInput_def apply_openness_positions_def Let_def fold_set_pos_keeps)

lemma abs_parts_joined: "parts_joined tok v = Some v' \<Longrightarrow> abs_viewer v' = abs_viewer v"
proof -
  assume "parts_joined tok v = Some v'"
  then obtain fr res where v': "v' = (if tok \<noteq> loadToken v then drop_frame tok v
              else set_frame tok (fr\<lparr>fstage := AwaitPad\<rparr>)
                     (applyOpenness (real (opennessSlider v) / 100) (collectFingerGroups (capture_base (frameObject v)))))"
    using parts_joined_Some by blast
  let ?w = "applyOpenness (real (opennessSlider v) / 100) (collectFingerGroups (capture_base (frameObject v)))"
  have m: "scene.more ?w = scene.more v" by simp
  have "abs_viewer ?w = abs_viewer v"
    by (rule abs_viewer_cong) (simp_all add: more_eq_viewer_fields [OF m] apply_openness_positions_def Let_def
        fold_set_pos_keeps capture_base_keeps)
  then show ?thesis using v' by simp
qed

lemma abs_pad_done: "pad_done tok r v = Some v' \<Longrightarrow> abs_viewer v' = abs_viewer v"
  by (auto simp: pad_done_def Let_def split: option.splits stage.splits)

lemma abs_setSizeByIndex:
  "abs_viewer (setSizeByIndex i v) =
     (abs_viewer v)\<lparr>aSize := SIZES ! nat (js_clamp 0 (int (length SIZES) - 1) i), aShown := []\<rparr>"
  by (simp add: abs_viewer_def setSizeByIndex_def loadSize_def resetLabel_def Let_def child_files_def)

lemma abs_setPartVisibility:
  "abs_viewer (setPartVisibility f c v) = (abs_viewer v)\<lparr>aVisible := (\<lambda>g. if g = f then c else aVisible (abs_viewer v) g)\<rparr>"
proof -
  have m: "scene.more (setPartVisibility f c v) = scene.more v" by simp
  show ?thesis using more_eq_viewer_fields(6) [OF m]
    by (simp add: abs_viewer_def child_files_def setPartVisibility_keeps fun_eq_iff)
qed

lemma abs_fold_setPartVisibility:
  "abs_viewer (fold (\<lambda>f s. setPartVisibility f c s) files v) =
     (abs_viewer v)\<lparr>aVisible := (\<lambda>g. if g \<in> set files then c else aVisible (abs_viewer v) g)\<rparr>"
  by (induction files arbitrary: v) (auto simp: abs_setPartVisibility fun_eq_iff)

subsection \<open>Refinement\<close>

lemma step_refines:
  assumes inv: "viewer_inv v" and st: "step v e = Some v'"
  shows "astep (abs_viewer v) (abs_event v e) = Some (abs_viewer v')"
proof (cases e)
  case (SizeInput i)
  let ?c = "js_clamp 0 (int (length SIZES) - 1) i"
  have "0 \<le> ?c" "?c \<le> int (length SIZES) - 1"
    using js_clamp_bounds [of 0 "int (length SIZES) - 1" i] by simp_all
  then have "nat ?c < length SIZES" by linarith
  then have "SIZES ! nat ?c \<in> set SIZES" by (rule nth_mem)
  then show ?thesis using SizeInput st by (auto simp: abs_setSizeByIndex split: if_splits)
next
  case (PartLoaded tok f b)
  then show ?thesis using st abs_part_settled [OF inv, of tok f "Some b" v'] by (auto simp: abs_viewer_def)
next
  case (PartFailed tok f)
  then show ?thesis using st abs_part_settled [OF inv, of tok f None v'] by simp
next
  case (PartsJoined tok)
  then show ?thesis using st abs_parts_joined by simp
next
  case (PadDone tok r)
  then show ?thesis using st abs_pad_done by simp
next
  case (PartChange f)
  then show ?thesis using st by (auto simp: part_change_def rebuild_def abs_setPartVisibility split: if_splits)
next
  case (GroupChange g)
  then show ?thesis using st
    by (auto simp: group_change_def Let_def rebuild_def abs_fold_setPartVisibility split: option.splits)
qed (use st in \<open>auto split: if_splits option.splits\<close>)


lemma run_spec_shown:
  "viewer_inv v \<Longrightarrow> run v es = Some v' \<Longrightarrow> child_files v' = spec_shown (loadToken v) (child_files v) es"
proof (induction es arbitrary: v)
  case Nil
  then show ?case by simp
next
  case (Cons e es)
  then obtain w where w: "step v e = Some w" "run w es = Some v'" by (auto split: option.splits)
  have iw: "viewer_inv w" using step_inv [OF Cons.prems(1) w(1)] .
  have r: "astep (abs_viewer v) (abs_event v e) = Some (abs_viewer w)" by (rule step_refines [OF Cons.prems(1) w(1)])
  have t: "loadToken w = (case e of SizeInput i \<Rightarrow> Suc (loadToken v) | _ \<Rightarrow> loadToken v)" by (rule step_loadToken [OF w(1)])
  have ih: "child_files v' = spec_shown (loadToken w) (child_files w) es" using Cons.IH [OF iw w(2)] .
  show ?case
  proof (cases e)
    case (PartLoaded tok f b)
    then show ?thesis using r t ih by (auto simp: abs_viewer_def split: if_splits)
  qed (use r t ih in \<open>auto simp: abs_viewer_def split: if_splits option.splits\<close>)
qed


subsection \<open>Properties of the refinement\<close>

text \<open>
  C12. Refinement: every step of a reachable viewer performs, on its abstraction, the
  abstract event \<open>abs_event\<close> names, and that event is enabled there: a size input is
  a request for a size of \<open>SIZES\<close>, a current mesh shows a part of the catalog not on
  screen yet, a checklist click sets visibilities, and everything else, stale
  meshes included, changes nothing the specification can observe.
\<close>

theorem step_refines_astep:
  assumes "reachable v" "step v e = Some v'"
  shows "astep (abs_viewer v) (abs_event v e) = Some (abs_viewer v')"
  using step_refines [OF reachable_viewer_inv [OF assms(1)] assms(2)] .

theorem step_refines_astep_witness:
  "\<exists>v v'. run init_viewer [SizeInput 10] = Some v \<and>
          step v (PartLoaded 2 ''Optical_pad'' (Some unit_box)) = Some v' \<and>
          astep (abs_viewer v) (AShow ''Optical_pad'') = Some (abs_viewer v')"
proof -
  have "case run init_viewer [SizeInput 10] of
          Some v \<Rightarrow> loadToken v = 2 \<and> step v (PartLoaded 2 ''Optical_pad'' (Some unit_box)) \<noteq> None | None \<Rightarrow> False"
    by code_simp
  then obtain v v' where r: "run init_viewer [SizeInput 10] = Some v" "loadToken v = 2"
    "step v (PartLoaded 2 ''Optical_pad'' (Some unit_box)) = Some v'" by (auto split: option.splits)
  then show ?thesis using step_refines_astep [OF run_init_reachable [OF r(1)] r(3)] by auto
qed

text \<open>
  Every reachable viewer abstracts to a state the abstract machine reaches from
  the abstraction of the start-up state.
\<close>

theorem reachable_refines_spec:
  assumes "reachable v"
  shows "areachable (abs_viewer v)"
  using assms
proof (induction rule: reachable.induct)
  case start
  show ?case by (rule areachable.astart)
next
  case (step v e v')
  then show ?case using areachable.astep step_refines reachable_viewer_inv by blast
qed

theorem reachable_refines_spec_witness:
  "\<exists>v. run init_viewer [SizeInput 10] = Some v \<and> areachable (abs_viewer v)"
proof -
  obtain v where r: "run init_viewer [SizeInput 10] = Some v"
    by (simp add: init_viewer_opennessInput split: if_splits)
  then show ?thesis using reachable_refines_spec [OF run_init_reachable [OF r]] by blast
qed

text \<open>
  C2. The property the specification lists first (8): for any sequence of events,
  size requests issued without waiting included, the parts on screen are exactly the
  meshes that arrived with the token of the last request, in arrival order.
\<close>

theorem scene_is_latest_request:
  assumes "run init_viewer es = Some v"
  shows "map (\<lambda>i. partFile (obj_at v i)) (children v) = spec_shown 1 [] es"
  using run_spec_shown [OF viewer_inv_init assms] init_viewer_token_children by (simp add: child_files_def)

theorem scene_is_latest_request_witness:
  "\<exists>v. run init_viewer [SizeInput 10, PartLoaded 1 ''Optical_pad'' None, PartLoaded 2 ''Prints_gear'' None] = Some v \<and>
       map (\<lambda>i. partFile (obj_at v i)) (children v) = [''Prints_gear'']"
proof -
  have "run init_viewer [SizeInput 10, PartLoaded 1 ''Optical_pad'' None, PartLoaded 2 ''Prints_gear'' None] \<noteq> None"
    by code_simp
  then obtain v where r: "run init_viewer [SizeInput 10, PartLoaded 1 ''Optical_pad'' None, PartLoaded 2 ''Prints_gear'' None] = Some v"
    by auto
  then show ?thesis using scene_is_latest_request [OF r] by simp
qed

end
