(* ===== verification/Progress.thy ===== *)
theory Progress
  imports Loader_Invariant
begin

text \<open>
  Progress and termination of \<open>loadSize\<close>. Progress: whatever state the viewer is
  in, the current request can run to its end (every pending part fetch settles, here
  by failing, then the \<open>Promise.all\<close> continuation, then the side-car fetch) with no
  other event; the bookkeeping of the frames never blocks it. Termination: an
  activation resumes a bounded number of times. \<open>frame_budget tok v\<close> is a variant
  in the style of a loop measure: two more than the number of pending parts while the
  activation of \<open>tok\<close> waits for its parts, one while it waits for the side-car, none
  once it has ended, and its initial value before \<open>tok\<close> is issued. Every event of
  the activation that \<open>step\<close> accepts lowers it, and no other event raises it.
\<close>

text \<open>The activation whose continuation an event runs (\<open>event_token\<close>).\<close>

fun event_token :: "event \<Rightarrow> token option" where
  "event_token (PartLoaded tok f b) = Some tok"
| "event_token (PartFailed tok f) = Some tok"
| "event_token (PartsJoined tok) = Some tok"
| "event_token (PadDone tok r) = Some tok"
| "event_token _ = None"

definition frame_budget :: "token \<Rightarrow> viewer \<Rightarrow> nat" where
  "frame_budget tok v =
     (if loadToken v < tok then length PARTS + 2
      else case find_frame tok v of
             None \<Rightarrow> 0
           | Some fr \<Rightarrow> (case fstage fr of AwaitParts pend res \<Rightarrow> length pend + 2 | AwaitPad \<Rightarrow> 1))"

lemma find_frame_set_frame:
  "ftoken fr' = tok \<Longrightarrow> find_frame tok (set_frame tok fr' v) = map_option (\<lambda>_. fr') (find_frame tok v)"
proof -
  assume t: "ftoken fr' = tok"
  have "find (\<lambda>fr. ftoken fr = tok) (map (\<lambda>fr. if ftoken fr = tok then fr' else fr) xs) =
        map_option (\<lambda>_. fr') (find (\<lambda>fr. ftoken fr = tok) xs)" for xs
    using t by (induction xs) auto
  then show ?thesis by (simp add: find_frame_def set_frame_def)
qed

lemma find_frame_drop_frame [simp]: "find_frame tok (drop_frame tok v) = None"
  by (simp add: find_frame_def drop_frame_def find_None_iff)

lemma find_frame_other_fields [simp]:
  "find_frame tok (v\<lparr>fruits := fs\<rparr>) = find_frame tok v"
  "find_frame tok (prefetchAdjacentSizes sz v) = find_frame tok v"
  by (simp_all add: find_frame_def prefetchAdjacentSizes_def Let_def)


lemma find_frame_set_frame_other:
  "ftoken fr' = t \<Longrightarrow> t \<noteq> tok \<Longrightarrow> find_frame tok (set_frame t fr' v) = find_frame tok v"
proof -
  assume "ftoken fr' = t" "t \<noteq> tok"
  then have "find (\<lambda>fr. ftoken fr = tok) (map (\<lambda>fr. if ftoken fr = t then fr' else fr) xs) =
             find (\<lambda>fr. ftoken fr = tok) xs" for xs
    by (induction xs) auto
  then show ?thesis by (simp add: find_frame_def set_frame_def)
qed

lemma find_frame_drop_frame_other: "t \<noteq> tok \<Longrightarrow> find_frame tok (drop_frame t v) = find_frame tok v"
proof -
  assume "t \<noteq> tok"
  then have "find (\<lambda>fr. ftoken fr = tok) (filter (\<lambda>fr. ftoken fr \<noteq> t) xs) = find (\<lambda>fr. ftoken fr = tok) xs" for xs
    by (induction xs) auto
  then show ?thesis by (simp add: find_frame_def drop_frame_def)
qed

lemma loadToken_frame_ops [simp]:
  "loadToken (drop_frame t v) = loadToken v" "loadToken (set_frame t fr v) = loadToken v"
  by (simp_all add: drop_frame_def set_frame_def)

lemma find_frame_frames_cong: "frames w = frames v \<Longrightarrow> find_frame tok w = find_frame tok v"
  by (simp add: find_frame_def)

lemma find_frame_above_token: "inv_frames v \<Longrightarrow> loadToken v < tok \<Longrightarrow> find_frame tok v = None"
  by (auto simp: inv_frames_def find_frame_def find_None_iff)

lemma loadPart_onLoad_frames:
  "loadPart_onLoad t sz p b v = (w, r) \<Longrightarrow> frames w = frames v \<and> loadToken w = loadToken v"
  using more_eq_viewer_fields(1,2) [of "add_part_obj ob v" v for ob]
  by (auto simp: loadPart_onLoad_def split: if_splits)

lemma step_frames_other:
  assumes "step v e = Some v'" "event_token e = None" "\<forall>i. e \<noteq> SizeInput i"
  shows "frames v' = frames v"
proof (cases e)
  case (PartChange f)
  then show ?thesis using assms more_eq_viewer_fields(2) [OF setPartVisibility_other(8)]
    by (auto simp: part_change_def rebuild_def split: if_splits)
next
  case (GroupChange g)
  then show ?thesis using assms by (auto simp: group_change_def Let_def rebuild_def split: option.splits)
qed (use assms in \<open>auto simp: toggle_expanded_def pointerDown_def resetLabel_def updateLabelPosition_def
       split: if_splits option.splits\<close>)

lemma budget_cong:
  "loadToken w = loadToken v \<Longrightarrow> find_frame tok w = find_frame tok v \<Longrightarrow> frame_budget tok w = frame_budget tok v"
  by (simp add: frame_budget_def)

text \<open>A continuation of another activation leaves the budget of \<open>tok\<close> as it is.\<close>

lemma budget_other_frame:
  assumes "t \<noteq> tok" "frames w = frames v" "loadToken w = loadToken v"
    and "v' = drop_frame t w \<or> (v' = set_frame t fr' w \<and> ftoken fr' = t)"
  shows "frame_budget tok v' = frame_budget tok v"
proof (rule budget_cong)
  show "loadToken v' = loadToken v" using assms(3,4) by auto
  show "find_frame tok v' = find_frame tok v"
    using assms(4) find_frame_drop_frame_other [OF assms(1), of w] find_frame_set_frame_other [OF _ assms(1), of fr' w]
      find_frame_frames_cong [OF assms(2)] by auto
qed

lemma part_settled_budget:
  assumes inv: "inv_frames v" and ps: "part_settled t f outcome v = Some v'"
  shows "frame_budget tok v' + (if t = tok then 1 else 0) \<le> frame_budget tok v"
proof -
  obtain fr pend res p where ff: "find_frame t v = Some fr" and stg: "fstage fr = AwaitParts pend res"
    and fp: "find (\<lambda>p. part_file p = f) pend = Some p"
    and v': "v' = (case (case outcome of Some bnds \<Rightarrow> loadPart_onLoad t (fsize fr) p bnds v | None \<Rightarrow> (v, False)) of
                (w, r) \<Rightarrow> set_frame t (fr\<lparr>fstage := AwaitParts (filter (\<lambda>q. part_file q \<noteq> f) pend)
                                                            (res @ [(f, r)])\<rparr>) w)"
    using ps unfolding part_settled_Some by (elim exE conjE)
  obtain w r where wr: "(case outcome of Some bnds \<Rightarrow> loadPart_onLoad t (fsize fr) p bnds v | None \<Rightarrow> (v, False)) = (w, r)"
    by (cases "case outcome of Some bnds \<Rightarrow> loadPart_onLoad t (fsize fr) p bnds v | None \<Rightarrow> (v, False)") auto
  have w: "frames w = frames v" "loadToken w = loadToken v"
    using wr loadPart_onLoad_frames [of t "fsize fr" p _ v w r] by (auto split: option.splits)
  let ?fr1 = "fr\<lparr>fstage := AwaitParts (filter (\<lambda>q. part_file q \<noteq> f) pend) (res @ [(f, r)])\<rparr>"
  have v'': "v' = set_frame t ?fr1 w" using v' wr by simp
  have tk: "ftoken ?fr1 = t" using find_frame_Some [OF ff] by simp
  have lt: "loadToken v' = loadToken v" using v'' w(2) by simp
  show ?thesis
  proof (cases "t = tok")
    case False
    have "frame_budget tok v' = frame_budget tok v"
      using v'' tk by (intro budget_other_frame [OF False w, where fr' = ?fr1]) simp
    then show ?thesis using False by simp
  next
    case True
    have le: "\<not> loadToken v < tok" using find_frame_above_token [OF inv] ff True by auto
    have "find_frame tok v' = Some ?fr1"
      using find_frame_set_frame [OF tk, of w] find_frame_frames_cong [OF w(1)] ff True v'' by simp
    moreover have "length (filter (\<lambda>q. part_file q \<noteq> f) pend) < length pend"
      using fp by (auto simp: find_Some_iff intro!: length_filter_less)
    ultimately show ?thesis using le lt ff stg True by (simp add: frame_budget_def)
  qed
qed

lemma parts_joined_budget:
  assumes inv: "inv_frames v" and pj: "parts_joined t v = Some v'"
  shows "frame_budget tok v' + (if t = tok then 1 else 0) \<le> frame_budget tok v"
proof -
  obtain fr res where ff: "find_frame t v = Some fr" and stg: "fstage fr = AwaitParts [] res"
    and v': "v' = (if t \<noteq> loadToken v then drop_frame t v
              else set_frame t (fr\<lparr>fstage := AwaitPad\<rparr>)
                     (applyOpenness (real (opennessSlider v) / 100) (collectFingerGroups (capture_base (frameObject v)))))"
    using pj unfolding parts_joined_Some by (elim exE conjE)
  let ?w = "if t \<noteq> loadToken v then v
            else applyOpenness (real (opennessSlider v) / 100) (collectFingerGroups (capture_base (frameObject v)))"
  have "scene.more ?w = scene.more v" by simp
  note m = more_eq_viewer_fields(1,2) [OF this]
  have tk: "ftoken (fr\<lparr>fstage := AwaitPad\<rparr>) = t" using find_frame_Some [OF ff] by simp
  have v'': "v' = drop_frame t ?w \<or> (v' = set_frame t (fr\<lparr>fstage := AwaitPad\<rparr>) ?w \<and> ftoken (fr\<lparr>fstage := AwaitPad\<rparr>) = t)"
    using v' tk by auto
  show ?thesis
  proof (cases "t = tok")
    case False
    have "frame_budget tok v' = frame_budget tok v" by (rule budget_other_frame [OF False m(2,1) v''])
    then show ?thesis using False by simp
  next
    case True
    have le: "\<not> loadToken v < tok" using find_frame_above_token [OF inv] ff True by auto
    have lt: "loadToken v' = loadToken v" using v'' m by auto
    have "find_frame tok v' = None \<or> find_frame tok v' = Some (fr\<lparr>fstage := AwaitPad\<rparr>)"
      using v'' find_frame_set_frame [OF tk, of ?w] find_frame_frames_cong [OF m(2)] ff True by auto
    then show ?thesis using le lt ff stg True by (auto simp: frame_budget_def)
  qed
qed

lemma pad_done_budget:
  assumes inv: "inv_frames v" and pd: "pad_done t r v = Some v'"
  shows "frame_budget tok v' + (if t = tok then 1 else 0) \<le> frame_budget tok v"
proof -
  obtain fr w where ff: "find_frame t v = Some fr" and stg: "fstage fr = AwaitPad" and v': "v' = drop_frame t w"
    and w: "frames w = frames v" "loadToken w = loadToken v"
    using pd by (auto simp: pad_done_def Let_def split: option.splits stage.splits)
  show ?thesis
  proof (cases "t = tok")
    case False
    have "frame_budget tok v' = frame_budget tok v" using v' by (intro budget_other_frame [OF False w]) simp
    then show ?thesis using False by simp
  next
    case True
    have "\<not> loadToken v < tok" using find_frame_above_token [OF inv] ff True by auto
    then show ?thesis using v' w ff stg True by (simp add: frame_budget_def)
  qed
qed

lemma size_input_budget:
  assumes inv: "inv_frames v"
  shows "frame_budget tok (setSizeByIndex i v) = frame_budget tok v"
proof -
  obtain sz where fr: "frames (setSizeByIndex i v) = frames v @ [\<lparr>ftoken = Suc (loadToken v), fsize = sz, fstage = AwaitParts PARTS []\<rparr>]"
    and lt: "loadToken (setSizeByIndex i v) = Suc (loadToken v)"
    by (simp add: setSizeByIndex_def Let_def)
  have none: "find_frame (Suc (loadToken v)) v = None" using find_frame_above_token [OF inv] by simp
  have "find_frame tok (setSizeByIndex i v) =
          (if tok = Suc (loadToken v) then Some \<lparr>ftoken = Suc (loadToken v), fsize = sz, fstage = AwaitParts PARTS []\<rparr>
           else find_frame tok v)"
    using fr none by (auto simp: find_frame_def find_append_eq split: option.splits)
  then show ?thesis using lt find_frame_above_token [OF inv, of tok] by (auto simp: frame_budget_def)
qed

lemma step_budget_other:
  assumes st: "step v e = Some v'" and "event_token e = None" "\<forall>i. e \<noteq> SizeInput i"
  shows "frame_budget tok v' = frame_budget tok v"
proof (rule budget_cong)
  show "loadToken v' = loadToken v" using step_loadToken [OF st] assms(3) by (cases e) auto
  show "find_frame tok v' = find_frame tok v" using step_frames_other [OF assms] by (rule find_frame_frames_cong)
qed

lemma step_budget:
  assumes inv: "viewer_inv v" and st: "step v e = Some v'"
  shows "frame_budget tok v' + (if event_token e = Some tok then 1 else 0) \<le> frame_budget tok v"
proof -
  have fi: "inv_frames v" using inv by (simp add: viewer_inv_def)
  show ?thesis
  proof (cases e)
    case (SizeInput i)
    then have "v' = setSizeByIndex i v" using st by (simp split: if_splits)
    then show ?thesis using SizeInput size_input_budget [OF fi] by simp
  next
    case (PartLoaded t f b)
    then show ?thesis using st part_settled_budget [OF fi, of t f "Some b" v' tok] by simp
  next
    case (PartFailed t f)
    then show ?thesis using st part_settled_budget [OF fi, of t f None v' tok] by simp
  next
    case (PartsJoined t)
    then show ?thesis using st parts_joined_budget [OF fi, of t v' tok] by simp
  next
    case (PadDone t r)
    then show ?thesis using st pad_done_budget [OF fi, of t r v' tok] by simp
  qed (use st step_budget_other [OF st] in simp_all)
qed

lemma run_budget:
  "viewer_inv v \<Longrightarrow> run v es = Some v' \<Longrightarrow>
   length (filter (\<lambda>e. event_token e = Some tok) es) + frame_budget tok v' \<le> frame_budget tok v"
proof (induction es arbitrary: v)
  case (Cons e es)
  from Cons.prems(2) obtain w where st: "step v e = Some w" and r: "run w es = Some v'"
    by (auto split: option.splits)
  have "length (filter (\<lambda>e. event_token e = Some tok) es) + frame_budget tok v' \<le> frame_budget tok w"
    using Cons.IH [OF step_inv [OF Cons.prems(1) st] r] .
  moreover have "frame_budget tok w + (if event_token e = Some tok then 1 else 0) \<le> frame_budget tok v"
    by (rule step_budget [OF Cons.prems(1) st])
  ultimately show ?case by (cases "event_token e = Some tok") simp_all
qed simp

lemma init_budget: "frame_budget tok init_viewer \<le> length PARTS + 2"
proof -
  have "frames init_viewer = [\<lparr>ftoken = 1, fsize = SIZES ! nat (js_clamp 0 (int (length SIZES) - 1) (index_of SIZES ''1.5'')),
                               fstage = AwaitParts PARTS []\<rparr>]"
    by (simp add: init_viewer_opennessInput setSizeByIndex_def Let_def viewer_globals_def)
  then show ?thesis by (simp add: frame_budget_def find_frame_def init_viewer_token_children(1))
qed

text \<open>Failing the pending parts one by one empties the frame's pending list.\<close>

lemma fail_pending:
  assumes "find_frame tok v = Some fr" "fstage fr = AwaitParts pend res" "distinct (map part_file pend)"
  shows "\<exists>v' fr'. run v (map (\<lambda>p. PartFailed tok (part_file p)) pend) = Some v' \<and>
           find_frame tok v' = Some fr' \<and> fstage fr' = AwaitParts [] (res @ map (\<lambda>p. (part_file p, False)) pend) \<and>
           loadToken v' = loadToken v \<and> fsize fr' = fsize fr"
  using assms
proof (induction pend arbitrary: v fr res)
  case Nil
  then show ?case by simp
next
  case (Cons p ps)
  let ?f = "part_file p"
  let ?fr1 = "fr\<lparr>fstage := AwaitParts (filter (\<lambda>q. part_file q \<noteq> ?f) (p # ps)) (res @ [(?f, False)])\<rparr>"
  let ?v1 = "set_frame tok ?fr1 v"
  have tok: "ftoken fr = tok" using find_frame_Some [OF Cons.prems(1)] by simp
  have "step v (PartFailed tok ?f) = Some ?v1"
    using Cons.prems(1,2) by (simp add: part_settled_def)
  moreover have f1: "find_frame tok ?v1 = Some ?fr1" using find_frame_set_frame [of ?fr1 tok v] Cons.prems(1) tok by simp
  moreover have "\<forall>q\<in>set ps. part_file q \<noteq> ?f" using Cons.prems(3) by (auto simp: image_iff)
  then have "filter (\<lambda>q. part_file q \<noteq> ?f) ps = ps" by (simp add: filter_id_conv)
  then have "fstage ?fr1 = AwaitParts ps (res @ [(?f, False)])" by simp
  moreover have "distinct (map part_file ps)" using Cons.prems(3) by simp
  ultimately obtain v' fr' where "run ?v1 (map (\<lambda>p. PartFailed tok (part_file p)) ps) = Some v'"
    "find_frame tok v' = Some fr'" "fstage fr' = AwaitParts [] ((res @ [(?f, False)]) @ map (\<lambda>p. (part_file p, False)) ps)"
    "loadToken v' = loadToken ?v1" "fsize fr' = fsize ?fr1"
    using Cons.IH [of ?v1 ?fr1 "res @ [(?f, False)]"] by blast
  moreover have "step v (PartFailed tok ?f) = Some ?v1" using Cons.prems(1,2) by (simp add: part_settled_def)
  ultimately show ?case by (auto simp: set_frame_def)
qed


lemma complete_from_pad:
  assumes "find_frame tok v = Some fr" "fstage fr = AwaitPad"
  shows "\<exists>v'. run v [PadDone tok PadNotOk] = Some v' \<and> find_frame tok v' = None \<and> loadToken v' = loadToken v"
proof -
  obtain v' where st: "step v (PadDone tok PadNotOk) = Some v'" "find_frame tok v' = None"
    using assms by (auto simp: pad_done_def Let_def split: option.splits)
  then show ?thesis using step_loadToken [OF st(1)] by auto
qed

lemma complete_from_join:
  assumes "find_frame tok v = Some fr" "fstage fr = AwaitParts [] res" "tok = loadToken v"
  shows "\<exists>v'. run v [PartsJoined tok, PadDone tok PadNotOk] = Some v' \<and> find_frame tok v' = None \<and>
              loadToken v' = loadToken v"
proof -
  let ?w = "applyOpenness (real (opennessSlider v) / 100) (collectFingerGroups (capture_base (frameObject v)))"
  let ?v1 = "set_frame tok (fr\<lparr>fstage := AwaitPad\<rparr>) ?w"
  have st: "step v (PartsJoined tok) = Some ?v1" using assms parts_joined_Some [of tok v ?v1] by auto
  have m: "scene.more ?w = scene.more v" by simp
  have "find_frame tok ?v1 = Some (fr\<lparr>fstage := AwaitPad\<rparr>)"
    using find_frame_set_frame [of "fr\<lparr>fstage := AwaitPad\<rparr>" tok ?w] assms(1) find_frame_Some [OF assms(1)]
      more_eq_viewer_fields(2) [OF m] by (simp add: find_frame_def)
  then obtain v' where "run ?v1 [PadDone tok PadNotOk] = Some v'" "find_frame tok v' = None" "loadToken v' = loadToken ?v1"
    using complete_from_pad [of tok ?v1] by auto
  then show ?thesis using st step_loadToken [OF st] by auto
qed


subsection \<open>Properties of progress\<close>

text \<open>
  C5. Progress: from every reachable state the current size request can complete,
  using only its own fetch events (each pending part failing, the \<open>Promise.all\<close>
  continuation, the side-car fetch). The state machine never blocks the request.
\<close>

theorem current_request_completes:
  assumes "reachable v"
  shows "\<exists>es v'. run v es = Some v' \<and> loadToken v' = loadToken v \<and> find_frame (loadToken v) v' = None \<and>
           (\<forall>e\<in>set es. (\<exists>f. e = PartFailed (loadToken v) f) \<or> e = PartsJoined (loadToken v) \<or>
                        e = PadDone (loadToken v) PadNotOk)"
proof (cases "find_frame (loadToken v) v")
  case None
  then show ?thesis by (intro exI [of _ "[]"]) simp
next
  case (Some fr)
  show ?thesis
  proof (cases "fstage fr")
    case AwaitPad
    then show ?thesis using complete_from_pad [OF Some AwaitPad] by (intro exI [of _ "[PadDone (loadToken v) PadNotOk]"]) auto
  next
    case (AwaitParts pend res)
    have "loading_ok v fr"
      using reachable_viewer_inv [OF assms] find_frame_Some [OF Some] by (simp add: viewer_inv_def inv_current_def)
    then have "distinct (map part_file pend)" using AwaitParts by (simp add: loading_ok_def)
    then obtain v1 fr1 where r1: "run v (map (\<lambda>p. PartFailed (loadToken v) (part_file p)) pend) = Some v1"
      and f1: "find_frame (loadToken v) v1 = Some fr1" "fstage fr1 = AwaitParts [] (res @ map (\<lambda>p. (part_file p, False)) pend)"
      and t1: "loadToken v1 = loadToken v"
      using fail_pending [OF Some AwaitParts] by blast
    obtain v' where r2: "run v1 [PartsJoined (loadToken v), PadDone (loadToken v) PadNotOk] = Some v'"
      "find_frame (loadToken v) v' = None" "loadToken v' = loadToken v1"
      using complete_from_join [OF f1] t1 by auto
    let ?es = "map (\<lambda>p. PartFailed (loadToken v) (part_file p)) pend @ [PartsJoined (loadToken v), PadDone (loadToken v) PadNotOk]"
    have "run v ?es = Some v'" using r1 r2 by (simp add: run_append)
    then show ?thesis using r2 t1 by (intro exI [of _ ?es]) auto
  qed
qed

theorem current_request_completes_witness:
  "\<exists>es v'. run init_viewer es = Some v' \<and> find_frame 1 v' = None \<and> loadToken v' = 1"
  using current_request_completes [OF reachable.start] init_viewer_token_children(1) by auto

subsection \<open>Termination of an activation\<close>

text \<open>
  C6. Termination of \<open>loadSize\<close>: in any run from start-up, with the events of all
  requests and all user inputs interleaved, \<open>step\<close> accepts at most
  \<open>length PARTS + 2\<close> continuations of one activation (one settle per part, the
  \<open>Promise.all\<close> continuation, the side-car fetch). A settled part cannot settle again
  and an ended activation accepts nothing.
\<close>

theorem loadSize_resumptions_bounded:
  assumes "run init_viewer es = Some v"
  shows "length (filter (\<lambda>e. event_token e = Some tok) es) \<le> length PARTS + 2"
  using run_budget [OF viewer_inv_init assms, of tok] init_budget [of tok] by linarith

theorem loadSize_resumptions_bounded_witness:
  "\<exists>v. run init_viewer [SizeInput 10, PartLoaded 2 ''Optical_pad'' None, PartFailed 2 ''Prints_gear'', PartFailed 1 ''Optical_pad''] = Some v \<and>
       length (filter (\<lambda>e. event_token e = Some 2)
         [SizeInput 10, PartLoaded 2 ''Optical_pad'' None, PartFailed 2 ''Prints_gear'', PartFailed 1 ''Optical_pad'']) \<le> length PARTS + 2"
proof -
  let ?es = "[SizeInput 10, PartLoaded 2 ''Optical_pad'' None, PartFailed 2 ''Prints_gear'', PartFailed 1 ''Optical_pad'']"
  have "run init_viewer ?es \<noteq> None" by code_simp
  then obtain v where r: "run init_viewer ?es = Some v" by auto
  then show ?thesis using loadSize_resumptions_bounded [OF r, of 2] by blast
qed

end
