(* ===== verification/Fruit_Model.thy ===== *)
theory Fruit_Model
  imports Fruit
begin

text \<open>
  Loading a reference fruit: \<open>loadFruitModel\<close> with its three outcomes (the OBJ
  fails, the OBJ loads and its texture loads, the texture fails) and
  \<open>applyFallbackColors\<close>, which paints each mesh of the model by the heights of its
  vertices. A loaded model is a tree of three.js objects; \<open>traverse\<close> visits an
  object and then its children, as \<open>Object3D.traverse\<close> does, and \<open>objs\<close> lists the
  objects in that order. Of an object the model keeps what the code reads or writes:
  \<open>isMesh\<close>, the y coordinates of \<open>geometry.attributes.position\<close> when the mesh has
  one, its material, \<open>userData.label\<close> and \<open>userData.isFruit\<close>, and the uniform
  scale. The accumulators of \<open>applyFallbackColors\<close> start at \<open>-Infinity\<close> and
  \<open>Infinity\<close> and its ratio divides by the vertex count, so its numbers are JavaScript
  numbers: \<open>jsnum\<close> adds the infinities and \<open>NaN\<close> to the reals, with IEEE
  arithmetic and comparisons.
\<close>

subsection \<open>JavaScript numbers\<close>

datatype jsnum = NaN | NegInf | Fin real | PosInf

fun js_add :: "jsnum \<Rightarrow> jsnum \<Rightarrow> jsnum" where
  "js_add (Fin a) (Fin b) = Fin (a + b)"
| "js_add NaN _ = NaN"
| "js_add _ NaN = NaN"
| "js_add PosInf NegInf = NaN"
| "js_add NegInf PosInf = NaN"
| "js_add PosInf _ = PosInf"
| "js_add _ PosInf = PosInf"
| "js_add NegInf _ = NegInf"
| "js_add _ NegInf = NegInf"

fun js_neg :: "jsnum \<Rightarrow> jsnum" where
  "js_neg (Fin a) = Fin (- a)"
| "js_neg NaN = NaN"
| "js_neg PosInf = NegInf"
| "js_neg NegInf = PosInf"

definition js_sub :: "jsnum \<Rightarrow> jsnum \<Rightarrow> jsnum" where
  "js_sub a b = js_add a (js_neg b)"

text \<open>Multiplication by a literal constant \<open>c\<close> of the code.\<close>

fun js_scale :: "jsnum \<Rightarrow> real \<Rightarrow> jsnum" where
  "js_scale (Fin a) c = Fin (a * c)"
| "js_scale NaN c = NaN"
| "js_scale PosInf c = (if c > 0 then PosInf else if c < 0 then NegInf else NaN)"
| "js_scale NegInf c = (if c > 0 then NegInf else if c < 0 then PosInf else NaN)"

text \<open>\<open>a > b\<close>; every comparison with \<open>NaN\<close> is false.\<close>

fun js_gt :: "jsnum \<Rightarrow> jsnum \<Rightarrow> bool" where
  "js_gt (Fin a) (Fin b) = (a > b)"
| "js_gt PosInf (Fin b) = True"
| "js_gt PosInf NegInf = True"
| "js_gt (Fin a) NegInf = True"
| "js_gt _ _ = False"

text \<open>\<open>Math.max(m, y)\<close> and \<open>Math.min(m, y)\<close> for a vertex coordinate \<open>y\<close>.\<close>

fun js_max :: "jsnum \<Rightarrow> real \<Rightarrow> jsnum" where
  "js_max NaN y = NaN"
| "js_max NegInf y = Fin y"
| "js_max (Fin m) y = Fin (max m y)"
| "js_max PosInf y = PosInf"

fun js_min :: "jsnum \<Rightarrow> real \<Rightarrow> jsnum" where
  "js_min NaN y = NaN"
| "js_min PosInf y = Fin y"
| "js_min (Fin m) y = Fin (min m y)"
| "js_min NegInf y = NegInf"

text \<open>\<open>n / count\<close> for two counts.\<close>

definition js_div_nat :: "nat \<Rightarrow> nat \<Rightarrow> jsnum" where
  "js_div_nat a b = (if b = 0 then (if a = 0 then NaN else PosInf) else Fin (real a / real b))"

subsection \<open>Fruit models\<close>

datatype material = Textured | StrawberryBody | StrawberryLeaves | AppleBody | AppleStem

record obj3 =
  isMesh :: bool
  posY :: "real list option"
  objMaterial :: "material option"
  objLabel3 :: "string option"
  isFruit :: bool
  objScale :: real

datatype node = Node obj3 "node list"

fun traverse :: "(obj3 \<Rightarrow> obj3) \<Rightarrow> node \<Rightarrow> node" where
  "traverse f (Node ob ks) = Node (f ob) (map (traverse f) ks)"

fun objs :: "node \<Rightarrow> obj3 list" where
  "objs (Node ob ks) = ob # concat (map objs ks)"

text \<open>
  The vertex heights the first \<open>traverse\<close> of \<open>applyFallbackColors\<close> visits: those
  of every mesh with a position attribute, in traversal order.
\<close>

definition mesh_ys :: "node \<Rightarrow> real list" where
  "mesh_ys n = concat (map (\<lambda>ob. if isMesh ob then (case posY ob of Some l \<Rightarrow> l | None \<Rightarrow> []) else []) (objs n))"

definition globalMaxY :: "node \<Rightarrow> jsnum" where
  "globalMaxY n = fold (\<lambda>y m. js_max m y) (mesh_ys n) NegInf"

definition globalMinY :: "node \<Rightarrow> jsnum" where
  "globalMinY n = fold (\<lambda>y m. js_min m y) (mesh_ys n) PosInf"

text \<open>The strawberry: a mesh with more than 30\% of its vertices above the leaf threshold is leaves.\<close>

definition leafThreshold :: "node \<Rightarrow> jsnum" where
  "leafThreshold n = (let height = js_sub (globalMaxY n) (globalMinY n)
                      in js_add (globalMinY n) (js_scale height 0.78))"

definition strawberry_material :: "jsnum \<Rightarrow> real list option \<Rightarrow> material" where
  "strawberry_material thr p =
     (case p of
        Some l \<Rightarrow> (let leafVertices = length (filter (\<lambda>y. js_gt (Fin y) thr) l)
                   in if js_gt (js_div_nat leafVertices (length l)) (Fin 0.3) then StrawberryLeaves
                      else StrawberryBody)
      | None \<Rightarrow> StrawberryBody)"

text \<open>
  The apple: a mesh of fewer than 1000 vertices whose lowest vertex lies above
  \<open>0.85 * globalMaxY\<close> is the stem. The code also sums the heights into \<open>avgY\<close>, which
  it never reads.
\<close>

definition apple_material :: "jsnum \<Rightarrow> real list option \<Rightarrow> material" where
  "apple_material gmax p =
     (case p of
        Some l \<Rightarrow> (let minLocalY = fold (\<lambda>y m. js_min m y) l PosInf
                   in if length l < 1000 \<and> js_gt minLocalY (js_scale gmax 0.85) then AppleStem
                      else AppleBody)
      | None \<Rightarrow> AppleBody)"

definition paint :: "string \<Rightarrow> (real list option \<Rightarrow> material) \<Rightarrow> obj3 \<Rightarrow> obj3" where
  "paint lbl pickMat ob =
     (if isMesh ob then ob\<lparr>objLabel3 := Some lbl, objMaterial := Some (pickMat (posY ob))\<rparr> else ob)"

definition applyFallbackColors :: "fruit \<Rightarrow> node \<Rightarrow> node" where
  "applyFallbackColors f obj =
     (let lbl = fruitLabel (FRUIT_CONFIG f)
      in case f of
           Strawberry \<Rightarrow> traverse (paint lbl (strawberry_material (leafThreshold obj))) obj
         | Apple \<Rightarrow> traverse (paint lbl (apple_material (globalMaxY obj))) obj)"

text \<open>
  \<open>loadFruitModel(config)\<close>: the OBJ load's outcome (\<open>None\<close> when its \<open>onError\<close>
  runs) and whether the texture loads decide the value the promise resolves to.
\<close>

fun set_root :: "(obj3 \<Rightarrow> obj3) \<Rightarrow> node \<Rightarrow> node" where
  "set_root g (Node ob ks) = Node (g ob) ks"

definition loadFruitModel :: "fruit \<Rightarrow> node option \<Rightarrow> bool \<Rightarrow> node option" where
  "loadFruitModel f objResult textureOk =
     (case objResult of
        None \<Rightarrow> None
      | Some obj \<Rightarrow>
          (let config = FRUIT_CONFIG f;
               obj1 = set_root (\<lambda>ob. ob\<lparr>objScale := scale config, objLabel3 := Some (fruitLabel config),
                                       isFruit := True\<rparr>) obj
           in if textureOk
              then Some (traverse (\<lambda>ob. if isMesh ob
                                          then ob\<lparr>objMaterial := Some Textured, objLabel3 := Some (fruitLabel config)\<rparr>
                                          else ob) obj1)
              else Some (applyFallbackColors f obj1)))"

text \<open>
  \<open>loadFruits\<close>: unless the fruits are loaded, load both models and run the
  continuation with whether each resolved to an object.
\<close>

definition loadFruits :: "node option \<Rightarrow> bool \<Rightarrow> node option \<Rightarrow> bool \<Rightarrow> fruit_state \<Rightarrow> fruit_state" where
  "loadFruits sObj sTex aObj aTex fs =
     (if fruitsLoaded fs then fs
      else loadFruits_done (loadFruitModel Strawberry sObj sTex \<noteq> None) (loadFruitModel Apple aObj aTex \<noteq> None) fs)"

text \<open>The materials \<open>applyFallbackColors\<close> gives the meshes of each fruit.\<close>

definition fruit_materials :: "fruit \<Rightarrow> material set" where
  "fruit_materials f = (case f of Strawberry \<Rightarrow> {StrawberryBody, StrawberryLeaves} | Apple \<Rightarrow> {AppleBody, AppleStem})"

subsection \<open>Lemmas\<close>

lemma fold_js_max_Fin: "fold (\<lambda>y m. js_max m y) l (Fin m) = Fin (Max (insert m (set l)))"
proof (induction l arbitrary: m)
  case (Cons a l)
  then show ?case by (cases "l = []") (simp_all add: insert_commute max.assoc)
qed simp

lemma fold_js_min_Fin: "fold (\<lambda>y m. js_min m y) l (Fin m) = Fin (Min (insert m (set l)))"
proof (induction l arbitrary: m)
  case (Cons a l)
  then show ?case by (cases "l = []") (simp_all add: insert_commute min.assoc)
qed simp

lemma fold_js_max: "fold (\<lambda>y m. js_max m y) l NegInf = (if l = [] then NegInf else Fin (Max (set l)))"
  by (cases l) (simp_all add: fold_js_max_Fin)

lemma fold_js_min: "fold (\<lambda>y m. js_min m y) l PosInf = (if l = [] then PosInf else Fin (Min (set l)))"
  by (cases l) (simp_all add: fold_js_min_Fin)

lemma objs_traverse [simp]: "objs (traverse f n) = map f (objs n)"
  by (induction n) (simp add: map_concat comp_def cong: map_cong)

lemma objs_set_root [simp]: "objs (set_root g n) = g (hd (objs n)) # tl (objs n)"
  by (cases n) simp

lemma objs_not_Nil [simp]: "objs n \<noteq> []"
  by (cases n) simp

lemma mesh_ys_subset:
  "ob \<in> set (objs n) \<Longrightarrow> isMesh ob \<Longrightarrow> posY ob = Some l \<Longrightarrow> set l \<subseteq> set (mesh_ys n)"
  by (force simp: mesh_ys_def)

lemma globalMaxY_Fin: "mesh_ys n \<noteq> [] \<Longrightarrow> globalMaxY n = Fin (Max (set (mesh_ys n)))"
  by (simp add: globalMaxY_def fold_js_max)

lemma leafThreshold_Fin:
  "mesh_ys n \<noteq> [] \<Longrightarrow>
   leafThreshold n = Fin (Min (set (mesh_ys n)) + (Max (set (mesh_ys n)) - Min (set (mesh_ys n))) * 0.78)"
  by (simp add: leafThreshold_def globalMaxY_def globalMinY_def fold_js_max fold_js_min js_sub_def)

lemma js_div_nat_gt:
  "js_gt (js_div_nat a b) (Fin c) = (if b = 0 then a \<noteq> 0 else real a > c * real b)"
  by (simp add: js_div_nat_def pos_less_divide_eq)

lemma paint_fields [simp]:
  "isMesh (paint lbl pm ob) = isMesh ob" "posY (paint lbl pm ob) = posY ob"
  by (simp_all add: paint_def)

lemma applyFallbackColors_objs:
  "objs (applyFallbackColors f n) =
     map (paint (fruitLabel (FRUIT_CONFIG f))
            (case f of Strawberry \<Rightarrow> strawberry_material (leafThreshold n)
                     | Apple \<Rightarrow> apple_material (globalMaxY n))) (objs n)"
  by (cases f) (simp_all add: applyFallbackColors_def)

lemma fallback_material_of_fruit:
  "(case f of Strawberry \<Rightarrow> strawberry_material a | Apple \<Rightarrow> apple_material b) p \<in> fruit_materials f"
  by (cases f) (simp_all add: fruit_materials_def strawberry_material_def apple_material_def Let_def split: option.splits)

lemma loadFruits_arrival:
  "\<not> fruitsLoaded fs \<Longrightarrow> loadFruits sObj sTex aObj aTex fs = loadFruits_done (sObj \<noteq> None) (aObj \<noteq> None) fs"
  by (simp add: loadFruits_def loadFruitModel_def Let_def split: option.splits)

text \<open>
  The apple's stem test on three small models: a thin mesh at the top is the stem;
  the same model moved below \<open>y = 0\<close> has no stem; a mesh whose position attribute
  has no vertex is the stem (its \<open>minLocalY\<close> stays \<open>Infinity\<close>).
\<close>

lemma apple_stem_examples:
  "map objMaterial (objs (applyFallbackColors Apple
     (Node \<lparr>isMesh = False, posY = None, objMaterial = None, objLabel3 = None, isFruit = False, objScale = 1\<rparr>
       [Node \<lparr>isMesh = True, posY = Some [0, 10], objMaterial = None, objLabel3 = None, isFruit = False, objScale = 1\<rparr> [],
        Node \<lparr>isMesh = True, posY = Some [9.5, 10], objMaterial = None, objLabel3 = None, isFruit = False, objScale = 1\<rparr> []])))
   = [None, Some AppleBody, Some AppleStem]"
  "map objMaterial (objs (applyFallbackColors Apple
     (Node \<lparr>isMesh = False, posY = None, objMaterial = None, objLabel3 = None, isFruit = False, objScale = 1\<rparr>
       [Node \<lparr>isMesh = True, posY = Some [-20, -10], objMaterial = None, objLabel3 = None, isFruit = False, objScale = 1\<rparr> [],
        Node \<lparr>isMesh = True, posY = Some [-10.5, -10], objMaterial = None, objLabel3 = None, isFruit = False, objScale = 1\<rparr> []])))
   = [None, Some AppleBody, Some AppleBody]"
  "map objMaterial (objs (applyFallbackColors Apple
     (Node \<lparr>isMesh = False, posY = None, objMaterial = None, objLabel3 = None, isFruit = False, objScale = 1\<rparr>
       [Node \<lparr>isMesh = True, posY = Some [0, 10], objMaterial = None, objLabel3 = None, isFruit = False, objScale = 1\<rparr> [],
        Node \<lparr>isMesh = True, posY = Some [], objMaterial = None, objLabel3 = None, isFruit = False, objScale = 1\<rparr> []])))
   = [None, Some AppleBody, Some AppleStem]"
  by (simp_all add: applyFallbackColors_def mesh_ys_def globalMaxY_def paint_def apple_material_def Let_def)

subsection \<open>Properties of the fallback colours\<close>

text \<open>
  C18. The strawberry's per-mesh loop, run over JavaScript numbers from \<open>-Infinity\<close>
  and \<open>Infinity\<close>, computes the rule it is meant to: when the model has a vertex, a
  mesh is leaves exactly when more than 30\% of its vertices lie above
  \<open>min + 0.78 (max - min)\<close> of the model's heights (a mesh with no vertex, whose ratio
  is \<open>0/0 = NaN\<close>, is body).
\<close>

theorem strawberry_leaf_rule:
  assumes "mesh_ys n \<noteq> []"
  shows "strawberry_material (leafThreshold n) (Some l) =
           (let lo = Min (set (mesh_ys n)); hi = Max (set (mesh_ys n))
            in if real (length (filter (\<lambda>y. y > lo + (hi - lo) * 0.78) l)) > 0.3 * real (length l)
               then StrawberryLeaves else StrawberryBody)"
  using assms by (simp add: strawberry_material_def leafThreshold_Fin js_div_nat_gt Let_def)

theorem strawberry_leaf_rule_witness:
  "mesh_ys (Node \<lparr>isMesh = True, posY = Some [0, 1, 2], objMaterial = None, objLabel3 = None, isFruit = False, objScale = 1\<rparr> []) \<noteq> [] \<and>
   strawberry_material (leafThreshold (Node \<lparr>isMesh = True, posY = Some [0, 1, 2], objMaterial = None, objLabel3 = None, isFruit = False, objScale = 1\<rparr> []))
     (Some [0, 1, 2]) = StrawberryLeaves"
  using strawberry_leaf_rule [of "Node \<lparr>isMesh = True, posY = Some [0, 1, 2], objMaterial = None, objLabel3 = None, isFruit = False, objScale = 1\<rparr> []"
                                 "[0, 1, 2]"]
  by (simp add: mesh_ys_def)

text \<open>
  C19. The apple's stem test compares with \<open>0.85 * globalMaxY\<close>, a fraction of the
  height above the origin, not of the model's extent as the strawberry's threshold
  is: when no vertex of the model lies above \<open>y = 0\<close>, no mesh with a vertex is ever
  painted as the stem.
\<close>

theorem apple_stem_needs_positive_top:
  assumes "\<forall>y\<in>set (mesh_ys n). y \<le> 0" "ob \<in> set (objs (applyFallbackColors Apple n))" "isMesh ob"
    "posY ob \<noteq> Some []"
  shows "objMaterial ob \<noteq> Some AppleStem"
proof -
  from assms(2) obtain ob0 where ob0: "ob0 \<in> set (objs n)"
    and ob: "ob = paint (fruitLabel (FRUIT_CONFIG Apple)) (apple_material (globalMaxY n)) ob0"
    by (auto simp: applyFallbackColors_objs)
  show ?thesis
  proof (cases "isMesh ob0 \<and> posY ob0 \<noteq> None")
    case False
    then show ?thesis using ob assms(3) by (auto simp: paint_def apple_material_def)
  next
    case True
    then obtain l where m: "isMesh ob0" "posY ob0 = Some l" by auto
    with assms(4) ob have l: "l \<noteq> []" by simp
    have sub: "set l \<subseteq> set (mesh_ys n)" using mesh_ys_subset [OF ob0 m] .
    with l have ne: "mesh_ys n \<noteq> []" by auto
    from l obtain y where y: "y \<in> set l" by (cases l) auto
    have "Min (set l) \<le> y" using y by simp
    also have "y \<le> Max (set (mesh_ys n))" using sub y by (intro Max_ge) auto
    finally have lo: "Min (set l) \<le> Max (set (mesh_ys n))" .
    have "Max (set (mesh_ys n)) \<le> 0" using assms(1) ne by simp
    with lo have "\<not> Min (set l) > Max (set (mesh_ys n)) * 0.85" by (simp add: not_less; linarith)
    then show ?thesis using ob m l by (simp add: paint_def apple_material_def fold_js_min globalMaxY_Fin [OF ne])
  qed
qed

theorem apple_stem_needs_positive_top_witness:
  "mesh_ys (Node \<lparr>isMesh = False, posY = None, objMaterial = None, objLabel3 = None, isFruit = False, objScale = 1\<rparr>
            [Node \<lparr>isMesh = True, posY = Some [-20, -10], objMaterial = None, objLabel3 = None, isFruit = False, objScale = 1\<rparr> [],
             Node \<lparr>isMesh = True, posY = Some [-10.5, -10], objMaterial = None, objLabel3 = None, isFruit = False, objScale = 1\<rparr> []])
     = [-20, -10, -10.5, -10] \<and>
   \<lparr>isMesh = True, posY = Some [-10.5, -10], objMaterial = Some AppleBody, objLabel3 = Some ''Apple (reference)'', isFruit = False, objScale = 1\<rparr>
     \<in> set (objs (applyFallbackColors Apple (Node \<lparr>isMesh = False, posY = None, objMaterial = None, objLabel3 = None, isFruit = False, objScale = 1\<rparr>
            [Node \<lparr>isMesh = True, posY = Some [-20, -10], objMaterial = None, objLabel3 = None, isFruit = False, objScale = 1\<rparr> [],
             Node \<lparr>isMesh = True, posY = Some [-10.5, -10], objMaterial = None, objLabel3 = None, isFruit = False, objScale = 1\<rparr> []]))) \<and>
   objMaterial \<lparr>isMesh = True, posY = Some [-10.5, -10], objMaterial = Some AppleBody, objLabel3 = Some ''Apple (reference)'', isFruit = False, objScale = 1::real\<rparr>
     \<noteq> Some AppleStem"
proof -
  let ?n = "Node \<lparr>isMesh = False, posY = None, objMaterial = None, objLabel3 = None, isFruit = False, objScale = 1\<rparr>
            [Node \<lparr>isMesh = True, posY = Some [-20, -10], objMaterial = None, objLabel3 = None, isFruit = False, objScale = 1\<rparr> [],
             Node \<lparr>isMesh = True, posY = Some [-10.5, -10], objMaterial = None, objLabel3 = None, isFruit = False, objScale = 1\<rparr> []]"
  let ?ob = "\<lparr>isMesh = True, posY = Some [-10.5, -10], objMaterial = Some AppleBody, objLabel3 = Some ''Apple (reference)'',
              isFruit = False, objScale = 1::real\<rparr>"
  have m: "mesh_ys ?n = [-20, -10, -10.5, -10]" by (simp add: mesh_ys_def)
  then have h1: "\<forall>y\<in>set (mesh_ys ?n). y \<le> 0" by simp
  have h2: "?ob \<in> set (objs (applyFallbackColors Apple ?n))"
    by (simp add: applyFallbackColors_def paint_def apple_material_def globalMaxY_def mesh_ys_def Let_def)
  show ?thesis using apple_stem_needs_positive_top [OF h1 h2] m h2 by simp
qed

subsection \<open>Properties of model loading\<close>

text \<open>
  C17. The outcomes of \<open>loadFruitModel\<close>: when the OBJ fails the promise resolves to
  \<open>null\<close>, with no fallback object; otherwise it resolves to the loaded tree, scaled and
  tagged as a fruit at its root, with the same objects and vertex data, in which every
  mesh carries the fruit's label and the textured material when the texture loaded,
  and one of the fruit's two fallback materials when it did not.
\<close>

theorem loadFruitModel_outcomes:
  "loadFruitModel f None tex = None \<and>
   (\<exists>r. loadFruitModel f (Some obj) tex = Some r \<and>
        map isMesh (objs r) = map isMesh (objs obj) \<and> map posY (objs r) = map posY (objs obj) \<and>
        isFruit (hd (objs r)) \<and> objScale (hd (objs r)) = scale (FRUIT_CONFIG f) \<and>
        (\<forall>ob\<in>set (objs r). isMesh ob \<longrightarrow>
           objLabel3 ob = Some (fruitLabel (FRUIT_CONFIG f)) \<and>
           objMaterial ob \<in> Some ` (if tex then {Textured} else fruit_materials f)))"
proof -
  define g where "g = (\<lambda>ob. ob\<lparr>objScale := scale (FRUIT_CONFIG f), objLabel3 := Some (fruitLabel (FRUIT_CONFIG f)),
                                isFruit := True\<rparr>)"
  have "map h (objs obj) = h (hd (objs obj)) # map h (tl (objs obj))" for h :: "obj3 \<Rightarrow> 'b"
    using objs_not_Nil [of obj] by (cases "objs obj") simp_all
  note hd_tl = this [of isMesh] this [of posY]
  show ?thesis
  proof (cases tex)
    case True
    then show ?thesis
      by (simp add: loadFruitModel_def Let_def hd_tl flip: g_def) (auto simp: g_def)
  next
    case False
    then show ?thesis
      using fallback_material_of_fruit [where f = f]
      by (simp add: loadFruitModel_def Let_def applyFallbackColors_objs hd_tl flip: g_def)
         (auto simp: g_def paint_def)
  qed
qed

theorem loadFruitModel_outcomes_witness:
  "loadFruitModel Apple None False = None \<and>
   (\<exists>r. loadFruitModel Apple (Some (Node \<lparr>isMesh = True, posY = Some [1], objMaterial = None, objLabel3 = None,
                                        isFruit = False, objScale = 1\<rparr> [])) False = Some r \<and>
        (\<forall>ob\<in>set (objs r). isMesh ob \<longrightarrow> objMaterial ob \<in> Some ` fruit_materials Apple))"
  using loadFruitModel_outcomes [of Apple False "Node \<lparr>isMesh = True, posY = Some [1], objMaterial = None, objLabel3 = None,
                                        isFruit = False, objScale = 1\<rparr> []"]
  by (simp only: if_False) blast

end
