(* ===== verification/Checklist_View.thy ===== *)
theory Checklist_View
  imports Loader_Invariant "HOL-Library.Multiset"
begin

text \<open>
  What \<open>buildComponentList\<close> puts on the page. The function empties the list and
  rebuilds it from the module state: the "Size Reference" section with the two fruit
  checkboxes, then, for each entry of \<open>COMPONENT_GROUPS\<close> in order, a header (the
  group checkbox with its \<open>checked\<close> and \<open>indeterminate\<close> flags, the title, the
  Show/Hide button with its \<open>aria-expanded\<close> attribute) and the items container
  (with the class \<open>is-collapsed\<close> or not) holding one row per part of the group that
  \<open>PARTS\<close> knows. The view keeps of each element what the code sets; the listeners it
  attaches are the handlers of \<open>Checklist\<close> and \<open>Fruit\<close>, except the Show/Hide
  click, which changes the page in place (\<open>toggle_click\<close>) without a rebuild.
\<close>

record part_item =
  itemFile :: file_name
  itemChecked :: bool
  itemLabel :: string

record group_view =
  gName :: string
  gChecked :: bool
  gIndeterminate :: bool
  gButtonText :: string
  gAriaExpanded :: bool
  gCollapsed :: bool
  gItems :: "part_item list"

record checklist_view =
  fruitItems :: "(string \<times> bool) list"
  groupViews :: "group_view list"

definition STRAWBERRY_ITEM_LABEL :: string where
  "STRAWBERRY_ITEM_LABEL = ''Strawberry <small style='opacity:0.7'>(for 1.0x)</small>''"

definition APPLE_ITEM_LABEL :: string where
  "APPLE_ITEM_LABEL = ''Apple <small style='opacity:0.7'>(for 2.0x)</small>''"

text \<open>A part row: \<open>PARTS.find\<close>, and no row when the file is not in \<open>PARTS\<close>.\<close>

definition part_item_of :: "(file_name \<rightharpoonup> bool) \<Rightarrow> file_name \<Rightarrow> part_item option" where
  "part_item_of cv file =
     (case find (\<lambda>entry. part_file entry = file) PARTS of
        None \<Rightarrow> None
      | Some part \<Rightarrow> Some \<lparr>itemFile = part_file part, itemChecked = vis_of cv (part_file part),
                          itemLabel = part_label part\<rparr>)"

definition group_view_of :: "'a scene_scheme \<Rightarrow> string \<Rightarrow> file_name list \<Rightarrow> group_view" where
  "group_view_of s groupName partFiles =
     (let isExpanded = (groupExpanded s groupName = Some True)
      in \<lparr>gName = groupName,
          gChecked = group_checked (componentVisibility s) partFiles,
          gIndeterminate = group_indeterminate (componentVisibility s) partFiles,
          gButtonText = (if isExpanded then ''Hide'' else ''Show''),
          gAriaExpanded = isExpanded,
          gCollapsed = (\<not> isExpanded),
          gItems = List.map_filter (part_item_of (componentVisibility s)) partFiles\<rparr>)"

definition buildComponentList :: "viewer \<Rightarrow> checklist_view" where
  "buildComponentList v =
     (let fs = rebuild_fruit_checkboxes (fruits v)
      in \<lparr>fruitItems = [(STRAWBERRY_ITEM_LABEL, strawberryChecked fs), (APPLE_ITEM_LABEL, appleChecked fs)],
          groupViews = map (\<lambda>(g, files). group_view_of v g files) COMPONENT_GROUPS\<rparr>)"

text \<open>
  The Show/Hide click on the page: \<open>items.classList.toggle("is-collapsed")\<close> returns
  whether the class is now present (\<open>isHidden\<close>), and the button's text and
  \<open>aria-expanded\<close> follow it. The state change \<open>groupExpanded.set(name, !isHidden)\<close>
  is \<open>toggle_expanded\<close>.
\<close>

definition toggle_click :: "string \<Rightarrow> checklist_view \<Rightarrow> checklist_view" where
  "toggle_click g cv =
     cv\<lparr>groupViews := map (\<lambda>gv. if gName gv = g
                                then (let isHidden = \<not> gCollapsed gv
                                      in gv\<lparr>gCollapsed := isHidden,
                                            gButtonText := (if isHidden then ''Show'' else ''Hide''),
                                            gAriaExpanded := (\<not> isHidden)\<rparr>)
                                else gv) (groupViews cv)\<rparr>"

subsection \<open>Lemmas\<close>

lemma part_item_of_Some:
  "part_item_of cv f = Some it \<Longrightarrow>
     itemFile it = f \<and> itemChecked it = vis_of cv f \<and> (\<exists>p\<in>set PARTS. part_file p = f \<and> itemLabel it = part_label p)"
  by (auto simp: part_item_of_def split: option.splits dest!: find_SomeD)

lemma part_item_of_key:
  "map_option (\<lambda>it. (itemFile it, itemLabel it)) (part_item_of cv f) =
     map_option (\<lambda>p. (part_file p, part_label p)) (find (\<lambda>entry. part_file entry = f) PARTS)"
  by (simp add: part_item_of_def split: option.splits)

lemma map_map_filter:
  "map g (List.map_filter h xs) = List.map_filter (\<lambda>x. map_option g (h x)) xs"
  by (induction xs) (auto simp: map_filter_simps split: option.splits)

lemma in_set_map_filter: "x \<in> set (List.map_filter h xs) \<Longrightarrow> \<exists>y\<in>set xs. h y = Some x"
  by (induction xs) (auto simp: map_filter_simps split: option.splits)

lemma group_files_in_PARTS:
  "\<forall>(g, files)\<in>set COMPONENT_GROUPS. \<forall>f\<in>set files. find (\<lambda>entry. part_file entry = f) PARTS \<noteq> None"
  by (simp add: COMPONENT_GROUPS_def PARTS_def)

lemma map_filter_all_Some:
  "\<forall>x\<in>set xs. h x = Some (k x) \<Longrightarrow> List.map_filter h xs = map k xs"
  by (induction xs) (auto simp: map_filter_simps)

lemma group_item_checked:
  assumes "(g, files) \<in> set COMPONENT_GROUPS"
  shows "map itemChecked (gItems (group_view_of s g files)) = map (vis_of (componentVisibility s)) files"
proof -
  have "\<forall>f\<in>set files. map_option itemChecked (part_item_of (componentVisibility s) f) = Some (vis_of (componentVisibility s) f)"
    using group_files_in_PARTS assms by (force simp: part_item_of_def split: option.splits dest: find_SomeD)
  then have "List.map_filter (\<lambda>f. map_option itemChecked (part_item_of (componentVisibility s) f)) files =
             map (vis_of (componentVisibility s)) files"
    by (rule map_filter_all_Some)
  then show ?thesis by (simp add: group_view_of_def Let_def map_map_filter)
qed

lemma checklist_row_keys:
  "map (\<lambda>it. (itemFile it, itemLabel it)) (concat (map gItems (groupViews (buildComponentList v)))) =
     concat (map (\<lambda>gf. List.map_filter (\<lambda>f. map_option (\<lambda>p. (part_file p, part_label p))
                                        (find (\<lambda>entry. part_file entry = f) PARTS)) (snd gf)) COMPONENT_GROUPS)"
  by (simp add: buildComponentList_def group_view_of_def Let_def map_concat map_map_filter part_item_of_key
      case_prod_beta comp_def)

lemma catalog_row_keys_mset:
  "mset (concat (map (\<lambda>gf. List.map_filter (\<lambda>f. map_option (\<lambda>p. (part_file p, part_label p))
                                        (find (\<lambda>entry. part_file entry = f) PARTS)) (snd gf)) COMPONENT_GROUPS)) =
   mset (map (\<lambda>p. (part_file p, part_label p)) PARTS)"
  (is "mset ?xs = mset ?ys")
proof -
  have d: "distinct ?xs" "distinct ?ys" by code_simp+
  have l: "length ?xs = length ?ys" by code_simp
  have sub: "set ?xs \<subseteq> set ?ys" by code_simp
  have "card (set ?xs) = card (set ?ys)" by (simp only: distinct_card [OF d(1)] distinct_card [OF d(2)] l)
  then have "set ?xs = set ?ys" by (rule card_subset_eq [OF finite_set sub])
  then show ?thesis using set_eq_iff_mset_eq_distinct [OF d] by blast
qed

lemma list_all_ex_map_id:
  "list_all (\<lambda>b. b) (map f xs) = list_all f xs" "list_ex (\<lambda>b. b) (map f xs) = list_ex f xs"
  by (induction xs) auto

subsection \<open>Properties of the rendered checklist\<close>

text \<open>
  C28. The checklist lists every part of \<open>PARTS\<close> exactly once, with its label, and
  each group header agrees with its rows: the group box is checked exactly when every
  row is, indeterminate exactly when some but not all are, and its button reads
  "Show" with \<open>aria-expanded\<close> false exactly when its rows are collapsed.
\<close>

theorem checklist_lists_parts:
  "mset (map (\<lambda>it. (itemFile it, itemLabel it)) (concat (map gItems (groupViews (buildComponentList v))))) =
     mset (map (\<lambda>p. (part_file p, part_label p)) PARTS) \<and>
   (\<forall>gv\<in>set (groupViews (buildComponentList v)).
      gChecked gv = list_all itemChecked (gItems gv) \<and>
      gIndeterminate gv = (\<not> gChecked gv \<and> list_ex itemChecked (gItems gv)) \<and>
      gAriaExpanded gv = (\<not> gCollapsed gv) \<and> gButtonText gv = (if gCollapsed gv then ''Show'' else ''Hide''))"
proof
  show "mset (map (\<lambda>it. (itemFile it, itemLabel it)) (concat (map gItems (groupViews (buildComponentList v))))) =
          mset (map (\<lambda>p. (part_file p, part_label p)) PARTS)"
    unfolding checklist_row_keys by (rule catalog_row_keys_mset)
next
  have "list_all itemChecked (gItems (group_view_of v g files)) = group_checked (componentVisibility v) files \<and>
        list_ex itemChecked (gItems (group_view_of v g files)) = list_ex (vis_of (componentVisibility v)) files"
    if "(g, files) \<in> set COMPONENT_GROUPS" for g files
    using list_all_ex_map_id [of itemChecked "gItems (group_view_of v g files)"]
      list_all_ex_map_id [of "vis_of (componentVisibility v)" files]
    by (simp add: group_item_checked [OF that] group_checked_def)
  then show "\<forall>gv\<in>set (groupViews (buildComponentList v)).
      gChecked gv = list_all itemChecked (gItems gv) \<and>
      gIndeterminate gv = (\<not> gChecked gv \<and> list_ex itemChecked (gItems gv)) \<and>
      gAriaExpanded gv = (\<not> gCollapsed gv) \<and> gButtonText gv = (if gCollapsed gv then ''Show'' else ''Hide'')"
    by (auto simp: buildComponentList_def group_view_of_def group_indeterminate_def Let_def)
qed

theorem checklist_lists_parts_witness:
  "mset (map (\<lambda>it. (itemFile it, itemLabel it)) (concat (map gItems (groupViews (buildComponentList init_viewer))))) =
     mset (map (\<lambda>p. (part_file p, part_label p)) PARTS) \<and>
   gChecked (hd (groupViews (buildComponentList init_viewer))) =
     list_all itemChecked (gItems (hd (groupViews (buildComponentList init_viewer))))"
proof -
  have "hd (groupViews (buildComponentList init_viewer)) \<in> set (groupViews (buildComponentList init_viewer))"
    by (simp add: buildComponentList_def Let_def COMPONENT_GROUPS_def)
  then show ?thesis using checklist_lists_parts [of init_viewer] by blast
qed

text \<open>
  C29. The Show/Hide click keeps the page in sync without a rebuild: toggling the
  items' class and the button on the page gives exactly the checklist that
  \<open>buildComponentList\<close> would draw after \<open>groupExpanded.set(name, !isHidden)\<close>.
\<close>

theorem toggle_click_matches_rebuild:
  "toggle_click g (buildComponentList v) = buildComponentList (toggle_expanded g v)"
  by (simp add: toggle_click_def buildComponentList_def group_view_of_def toggle_expanded_def Let_def case_prod_beta)

end
