(* ===== verification/Spec2Isabelle.thy ===== *)
theory Spec2Isabelle
  imports Picking Loader_Spec Progress Fruit_Model Checklist_View
begin

text \<open>
  A model of the gripper viewer \<open>src/static/js/gripper-viewer.js\<close> and the
  properties that make it correct. The script is one module of global state
  driven by DOM listeners and promise continuations. Its logic has six parts, each
  modelled in its own theory:

  \<^item> \<open>Prelude\<close>: the JavaScript built-ins the code relies on (\<open>Math.min/max\<close>
    clamping as \<open>js_clamp\<close>, \<open>Math.round\<close> as \<open>js_round\<close>, out-of-range array reads
    as \<open>js_get\<close>, \<open>indexOf\<close> as \<open>index_of\<close>, number printing and \<open>toFixed(1)\<close>),
    three-component vectors, and generic lemmas.
  \<^item> \<open>Catalog\<close>: the static tables \<open>SIZES\<close>, \<open>PARTS\<close>, \<open>COMPONENT_GROUPS\<close>,
    \<open>LEFT_FINGER_PARTS\<close>, \<open>RIGHT_FINGER_PARTS\<close>, \<open>FRUIT_CONFIG\<close>, \<open>TACTILE_STEPS\<close> and
    the URL conventions, with their properties (groups partition the parts, the
    finger groups are the finger sets, and the shell labels are swapped).
  \<^item> \<open>PadDims\<close>: \<open>parsePadDimensions\<close> as a deterministic matcher of its regular
    expression, the \<open>Number\<close>/\<open>toFixed\<close> conversion and \<open>updatePadDimensions\<close>
    with its token guard and its three fetch outcomes (\<open>pad_response\<close>).
  \<^item> \<open>Scene\<close>: the three.js group as an explicit object store (\<open>heap\<close>, objects
    are indices) with \<open>children\<close>, \<open>componentObjects\<close>, \<open>leftFinger\<close>,
    \<open>rightFinger\<close>, \<open>fingerOpenDistance\<close>; \<open>frameObject\<close>, the capture of base
    positions and \<open>collectFingerGroups\<close>. The store makes aliasing explicit: the
    finger arrays still name the previous size's objects after \<open>group.clear()\<close>.
  \<^item> \<open>Openness\<close>: \<open>applyOpenness\<close> (its three position loops, its label) and
    \<open>updateTactileImage\<close>.
  \<^item> \<open>Checklist\<close>: \<open>componentVisibility\<close>, \<open>setPartVisibility\<close>, the group checkbox
    state of \<open>buildComponentList\<close>, and the part, group and Show/Hide handlers.
    The group handler, one \<open>setPartVisibility\<close> per member in order, is proved
    equal to a simultaneous update of the map and the member objects
    (\<open>group_change_ref\<close>).
  \<^item> \<open>Checklist_View\<close>: what \<open>buildComponentList\<close> draws, as data: the two fruit
    rows, then per group a header (\<open>checked\<close>, \<open>indeterminate\<close>, button text,
    \<open>aria-expanded\<close>), the \<open>is-collapsed\<close> class and one row per part
    (\<open>part_item_of\<close>, with \<open>PARTS.find\<close> and its early return). The theory proves
    two things. The page lists each part once with its label, and each header
    agrees with its rows. And the Show/Hide click, which edits the page in place
    (\<open>toggle_click\<close>), leaves what a rebuild after \<open>toggle_expanded\<close> would draw.
  \<^item> \<open>Fruit\<close>: the reference overlay (\<open>loadFruits\<close>' continuation,
    \<open>updateFruitVisibility\<close>, \<open>updateFruitCheckboxes\<close>, \<open>positionFruits\<close>, the two
    checkbox handlers) with its own event type and the exclusion invariant.
  \<^item> \<open>Fruit_Model\<close>: \<open>loadFruitModel\<close> and \<open>applyFallbackColors\<close>. A loaded
    model is a tree of objects (\<open>node\<close>) walked by \<open>traverse\<close> in
    \<open>Object3D.traverse\<close> order; each object keeps whether it is a mesh, the
    y coordinates of its vertices, its material and its label. The accumulators
    start at \<open>-Infinity\<close> and \<open>Infinity\<close> and a ratio divides by a vertex count, so
    the arithmetic is over \<open>jsnum\<close>, the reals with the two infinities and
    \<open>NaN\<close>. The theory proves that the strawberry's loop computes the rule "more
    than 30\% of the vertices above \<open>min + 0.78 (max - min)\<close>" and gives the
    three outcomes of \<open>loadFruitModel\<close>. It also shows that the apple's stem test,
    relative to \<open>y = 0\<close>, finds no stem in a model lying below the origin.
    \<open>loadFruits\<close> passes to the overlay's continuation whether each OBJ loaded,
    which is the parameter of the \<open>FruitsArrive\<close> event of \<open>Fruit\<close>.
  \<^item> \<open>Loader\<close>: \<open>loadSize\<close>, \<open>loadPart\<close>, \<open>setSizeByIndex\<close>,
    \<open>prefetchAdjacentSizes\<close> and the listeners, composed into the state machine
    \<open>step :: viewer \<Rightarrow> event \<Rightarrow> viewer option\<close>. The record \<open>viewer\<close> extends the
    scene with \<open>loadToken\<close>, the fruit state, the sliders and the pending
    activations of \<open>loadSize\<close> (\<open>frames\<close>). Every call of the async \<open>loadSize\<close> is
    a frame with its token, its size, and its stage: waiting for its part fetches
    (with the value each \<open>loadPart\<close> promise resolved to) or waiting for the
    side-car fetch. Each fetch settles as its own event (\<open>PartLoaded\<close>,
    \<open>PartFailed\<close>, \<open>PadDone\<close>), and the continuation after \<open>Promise.all\<close> is the
    event \<open>PartsJoined\<close>. The user's inputs are events too, so \<open>reachable\<close> covers
    every interleaving the browser can produce and a few more: any event may run
    between the last part settling and the \<open>Promise.all\<close> continuation. \<open>step\<close>
    returns \<open>None\<close> for an event that cannot happen in a state: a settle for a part
    that is not pending, a slider value out of range. \<open>init_viewer\<close> is the state
    the module's start-up statements leave; \<open>module_start\<close> reaches it only when
    every element of \<open>REQUIRED_ELEMENTS\<close> is on the page, and otherwise the module
    throws before it does anything.
  \<^item> \<open>Loader_Invariant\<close>: the invariants \<open>viewer_inv\<close> (pending tokens, store
    consistency, visibility in sync, bookkeeping of the current request, finger
    placement once it has passed \<open>Promise.all\<close>) and \<open>size_inv\<close> (the scene shows the
    slider's size), each proved preserved by every event and so true in every
    reachable state.
  \<^item> \<open>Picking\<close>: the part label. The \<open>pointerdown\<close> listener becomes the event
    \<open>PointerDown\<close>: its first hit is one of \<open>objectsToCheck\<close> (every child of the
    group, visible or not, and the visible fruits), together with whether the
    projected point lies in the clip range. \<open>animate\<close>'s call of
    \<open>updateLabelPosition\<close> becomes the event \<open>AnimationFrame\<close>. The theory proves
    the invariant \<open>label_inv\<close>: a shown label has a hit point, and its text is a
    part's or a fruit's label. It also shows two defects: a label once clipped is
    never shown again, and a part hidden in the checklist can still be labelled.
  \<^item> \<open>Loader_Spec\<close>: the loader's contract as an abstract machine \<open>astep\<close> on
    \<open>aviewer\<close> (the size last requested, the parts on screen in order, the
    checklist's visibility), the abstraction \<open>abs_viewer\<close> and the event map
    \<open>abs_event\<close>. It proves a forward simulation (every concrete step of a reachable
    viewer is the abstract step of its event), and from it that the files on screen
    after any run are those \<open>spec_shown\<close> computes from the events alone: the
    settled parts of the latest request, in the order they settled.
  \<^item> \<open>Progress\<close>: liveness of \<open>loadSize\<close>. From every reachable state, a run of
    settle events for the current request's pending parts, then \<open>PartsJoined\<close>,
    then \<open>PadDone\<close>, is accepted by \<open>step\<close> and leaves no frame of that request:
    no bookkeeping state blocks a request from finishing. Termination of
    \<open>loadSize\<close>: the variant \<open>frame_budget\<close> (pending parts plus two while the
    activation waits for parts, one while it waits for the side-car, none once it
    has ended) drops with every accepted continuation of the activation and never
    rises otherwise, so in any interleaving an activation resumes at most
    \<open>length PARTS + 2\<close> times.
  \<^item> \<open>Scenarios\<close>: the event lists the witnesses run.

  This theory states the properties that span the components: only the latest size
  request reaches the scene, stale meshes and stale readouts are discarded, the
  \<open>Promise.all\<close> continuation sees every part, fingers are placed by the openness,
  visibility and \<open>componentObjects\<close> stay consistent, and adjacent sizes are
  prefetched. It also shows two defects as concrete runs:
  \<^item> the code after \<open>await updatePadDimensions\<close> has no token check, so a late
    side-car fetch sets the overlay for an old size;
  \<^item> fruit models that arrive after the load has finished stay hidden.
  The witnesses run \<open>step\<close> from \<open>init_viewer\<close> on short event lists, evaluated by
  \<open>code_simp\<close>; no fuel is involved, because every operation is total.

  Modelling choices. JavaScript numbers are exact reals; rounding happens only where
  the code calls \<open>Math.round\<close> or \<open>toFixed\<close>. This agrees with doubles
  only while the values are exact integers in fixed notation, so the round trip of
  the pad readouts (\<open>PadDims.pad_readouts_generated_file\<close>) is stated for
  dimensions and area below \<open>2^53\<close>. The other exception is
  \<open>applyFallbackColors\<close>, whose accumulators start at the infinities and whose ratio
  can be \<open>0/0\<close>: there numbers are \<open>jsnum\<close>, the reals with \<open>-Infinity\<close>,
  \<open>Infinity\<close> and \<open>NaN\<close>. Strings are character lists, and
  \<open>mm\<^sup>2\<close> is written with the Latin-1 character \<open>0xB2\<close>. Sliders hold their integer
  values: the size slider an index into \<open>SIZES\<close>, the openness slider \<open>0..100\<close>.
  A fruit object keeps only its visibility and position, a part object what the
  code reads (\<open>userData\<close>, \<open>visible\<close>, \<open>position\<close>, the size it was fetched for,
  and its geometry's bounding box). Boxes are axis-aligned, and objects are only
  translated.

  Not modelled: rendering, camera placement, lights, materials, \<open>resizeRenderer\<close>
  and \<open>animate\<close> (library calls with no state the logic reads back);
  the parsing done by \<open>OBJLoader\<close> and \<open>TextureLoader\<close> (their outcomes are the
  parameters of \<open>loadFruitModel\<close>), and material properties other than which of the
  five materials a mesh gets; the geometry of
  picking (the ray cast and the projection, which the events \<open>PointerDown\<close> and
  \<open>AnimationFrame\<close> take as parameters); the styling, class names and element nesting of the
  checklist (only the state each element shows is modelled).
\<close>

subsection \<open>Properties of the whole viewer\<close>

text \<open>C1. Only the latest request is displayed.\<close>

theorem scene_matches_slider:
  assumes "reachable v"
  shows "sizeSlider v < length SIZES \<and> sizeValueText v = SIZES ! sizeSlider v @ ''x'' \<and>
         (\<forall>i\<in>set (children v). meshSize (obj_at v i) = SIZES ! sizeSlider v)"
  using reachable_size_inv [OF assms] by (simp add: size_inv_def)

theorem scene_matches_slider_witness:
  "\<exists>w. run init_viewer [SizeInput 10, PartLoaded 1 ''Optical_pad'' None, PartLoaded 2 ''Optical_pad'' None] = Some w \<and>
       length (children w) = 1 \<and> (\<forall>i\<in>set (children w). meshSize (obj_at w i) = ''2.0'')"
proof -
  have "case run init_viewer [SizeInput 10, PartLoaded 1 ''Optical_pad'' None, PartLoaded 2 ''Optical_pad'' None] of
          Some w \<Rightarrow> length (children w) = 1 \<and> sizeSlider w = 10 | None \<Rightarrow> False"
    by code_simp
  then obtain w where r: "run init_viewer [SizeInput 10, PartLoaded 1 ''Optical_pad'' None, PartLoaded 2 ''Optical_pad'' None] = Some w"
    and c: "length (children w) = 1" "sizeSlider w = 10" by (auto split: option.splits)
  have "\<forall>i\<in>set (children w). meshSize (obj_at w i) = SIZES ! sizeSlider w"
    using scene_matches_slider [OF run_init_reachable [OF r]] by blast
  then show ?thesis using r c by (auto simp: SIZES_def)
qed

text \<open>C3. A mesh of an outdated request changes nothing but its own bookkeeping.\<close>

theorem stale_part_discarded:
  assumes "tok \<noteq> loadToken v" "step v (PartLoaded tok f b) = Some v'"
  shows "v' = v\<lparr>frames := frames v'\<rparr>"
proof -
  obtain fr pend res p where "find_frame tok v = Some fr" "fstage fr = AwaitParts pend res"
    "find (\<lambda>p. part_file p = f) pend = Some p"
    and v': "v' = (case loadPart_onLoad tok (fsize fr) p b v of
                (w, r) \<Rightarrow> set_frame tok (fr\<lparr>fstage := AwaitParts (filter (\<lambda>q. part_file q \<noteq> f) pend)
                                                            (res @ [(f, r)])\<rparr>) w)"
    using assms(2) part_settled_Some [of tok f "Some b" v v'] by auto
  then show ?thesis using assms(1) by (simp add: loadPart_onLoad_def set_frame_def)
qed

theorem stale_part_discarded_witness:
  "\<exists>v v'. run init_viewer [SizeInput 10] = Some v \<and> step v (PartLoaded 1 ''Optical_pad'' (Some unit_box)) = Some v' \<and>
          v' = v\<lparr>frames := frames v'\<rparr>"
proof -
  have "case run init_viewer [SizeInput 10] of
          Some v \<Rightarrow> loadToken v = 2 \<and> step v (PartLoaded 1 ''Optical_pad'' (Some unit_box)) \<noteq> None | None \<Rightarrow> False"
    by code_simp
  then obtain v v' where r: "run init_viewer [SizeInput 10] = Some v" "loadToken v = 2"
    "step v (PartLoaded 1 ''Optical_pad'' (Some unit_box)) = Some v'" by (auto split: option.splits)
  then show ?thesis using stale_part_discarded [of 1 v] by auto
qed


text \<open>C4. When \<open>Promise.all\<close> resolves for the current request, every part has settled exactly
  once and the group holds one object for each part that loaded, in settling order.\<close>

theorem join_sees_all_parts:
  assumes "reachable v" "find_frame (loadToken v) v = Some fr" "fstage fr = AwaitParts [] res"
  shows "map (\<lambda>i. partFile (obj_at v i)) (children v) = map fst (filter snd res) \<and>
         distinct (map fst res) \<and> set (map fst res) = set part_files"
proof -
  have "loading_ok v fr"
    using reachable_viewer_inv [OF assms(1)] find_frame_Some [OF assms(2)] by (simp add: viewer_inv_def inv_current_def)
  then show ?thesis using assms(3) by (simp add: loading_ok_def child_files_def)
qed

theorem join_sees_all_parts_witness:
  "\<exists>v fr res. run init_viewer (load_some 1 [''Optical_pad'', ''Prints_base'']) = Some v \<and>
     find_frame (loadToken v) v = Some fr \<and> fstage fr = AwaitParts [] res \<and>
     map (\<lambda>i. partFile (obj_at v i)) (children v) = [''Prints_base'', ''Optical_pad'']"
proof -
  have "case run init_viewer (load_some 1 [''Optical_pad'', ''Prints_base'']) of
          Some v \<Rightarrow> (case find_frame (loadToken v) v of
                       Some fr \<Rightarrow> (case fstage fr of AwaitParts [] res \<Rightarrow> map fst (filter snd res) = [''Prints_base'', ''Optical_pad'']
                                   | _ \<Rightarrow> False)
                     | None \<Rightarrow> False)
        | None \<Rightarrow> False"
    by code_simp
  then obtain v fr res where r: "run init_viewer (load_some 1 [''Optical_pad'', ''Prints_base'']) = Some v"
    "find_frame (loadToken v) v = Some fr" "fstage fr = AwaitParts [] res"
    "map fst (filter snd res) = [''Prints_base'', ''Optical_pad'']"
    by (auto split: option.splits stage.splits list.splits)
  then show ?thesis using join_sees_all_parts [OF run_init_reachable [OF r(1)] r(2,3)] by auto
qed

text \<open>C7. Once the current request has passed \<open>Promise.all\<close>, the fingers are the children
  split by side and every child sits at its captured base position moved along x by
  half the opening distance times the slider's fraction: to the left finger's side
  for a left part, to the other side for a right part, not at all otherwise.\<close>

theorem settled_fingers_placed:
  assumes "reachable v" "\<forall>fr\<in>set (frames v). ftoken fr = loadToken v \<longrightarrow> fstage fr = AwaitPad"
  shows "set (leftFinger v) = {i \<in> set (children v). partFile (obj_at v i) \<in> LEFT_FINGER_PARTS} \<and>
         set (rightFinger v) = {i \<in> set (children v). partFile (obj_at v i) \<in> RIGHT_FINGER_PARTS} \<and>
         (\<forall>i\<in>set (children v). \<exists>b. basePosition (obj_at v i) = Some b \<and>
            position (obj_at v i) = add_scaled b openAxis
              ((if partFile (obj_at v i) \<in> LEFT_FINGER_PARTS then 1
                else if partFile (obj_at v i) \<in> RIGHT_FINGER_PARTS then -1 else 0) *
               (fingerOpenDistance v * 0.5 * (real (opennessSlider v) / 100))))"
proof -
  have "placed v" using reachable_viewer_inv [OF assms(1)] assms(2) by (simp add: viewer_inv_def settled_def)
  then show ?thesis using finger_parts_disjoint by (auto simp: placed_def finger_sign_def)
qed


theorem settled_fingers_placed_witness:
  "\<exists>v. run init_viewer (load_some 1 [''Prints_base'', ''Optical_pad'', ''Optical_pad.001''] @ [PartsJoined 1, OpennessInput 50]) = Some v \<and>
       map (\<lambda>i. position (obj_at v i)) (children v) = [(0, 0, 0), (1 / 4, 0, 0), (- 1 / 4, 0, 0)]"
proof -
  let ?es = "load_some 1 [''Prints_base'', ''Optical_pad'', ''Optical_pad.001''] @ [PartsJoined 1, OpennessInput 50]"
  have "case run init_viewer ?es of
          Some v \<Rightarrow> (\<forall>fr\<in>set (frames v). ftoken fr = loadToken v \<longrightarrow> fstage fr = AwaitPad) \<and>
                    length (children v) = 3 \<and>
                    map (\<lambda>i. partFile (obj_at v i)) (children v) = [''Prints_base'', ''Optical_pad'', ''Optical_pad.001''] \<and>
                    map (\<lambda>i. basePosition (obj_at v i)) (children v) = [Some (0, 0, 0), Some (0, 0, 0), Some (0, 0, 0)] \<and>
                    fingerOpenDistance v = 1 \<and> opennessSlider v = 50
        | None \<Rightarrow> False"
    by code_simp
  then obtain v where r: "run init_viewer ?es = Some v"
    and h: "\<forall>fr\<in>set (frames v). ftoken fr = loadToken v \<longrightarrow> fstage fr = AwaitPad"
    and c: "length (children v) = 3"
      "map (\<lambda>i. partFile (obj_at v i)) (children v) = [''Prints_base'', ''Optical_pad'', ''Optical_pad.001'']"
      "map (\<lambda>i. basePosition (obj_at v i)) (children v) = [Some (0, 0, 0), Some (0, 0, 0), Some (0, 0, 0)]"
      "fingerOpenDistance v = 1" "opennessSlider v = 50"
    by (auto split: option.splits)
  have p: "\<forall>i\<in>set (children v). \<exists>b. basePosition (obj_at v i) = Some b \<and>
            position (obj_at v i) = add_scaled b openAxis
              ((if partFile (obj_at v i) \<in> LEFT_FINGER_PARTS then 1
                else if partFile (obj_at v i) \<in> RIGHT_FINGER_PARTS then -1 else 0) *
               (fingerOpenDistance v * 0.5 * (real (opennessSlider v) / 100)))"
    using settled_fingers_placed [OF run_init_reachable [OF r] h] by blast
  obtain a b d where ch: "children v = [a, b, d]" using c(1)
    by (auto simp: numeral_3_eq_3 length_Suc_conv)
  show ?thesis using r p c ch
    by (simp add: LEFT_FINGER_PARTS_def RIGHT_FINGER_PARTS_def add_scaled_def openAxis_def)
qed

text \<open>C10. Every object in the scene is visible exactly when the checklist says its part is.\<close>

theorem visibility_in_sync:
  assumes "reachable v"
  shows "\<forall>i\<in>set (children v). visible (obj_at v i) = vis_of (componentVisibility v) (partFile (obj_at v i))"
  using reachable_viewer_inv [OF assms] by (simp add: viewer_inv_def inv_vis_def)

theorem visibility_in_sync_witness:
  "\<exists>v. run init_viewer (load_some 1 [''Optical_pad''] @ [PartChange ''Optical_pad'']) = Some v \<and>
       children v \<noteq> [] \<and> (\<forall>i\<in>set (children v). \<not> visible (obj_at v i))"
proof -
  have "case run init_viewer (load_some 1 [''Optical_pad''] @ [PartChange ''Optical_pad'']) of
          Some v \<Rightarrow> children v \<noteq> [] \<and> (\<forall>i\<in>set (children v). \<not> vis_of (componentVisibility v) (partFile (obj_at v i)))
        | None \<Rightarrow> False"
    by code_simp
  then obtain v where r: "run init_viewer (load_some 1 [''Optical_pad''] @ [PartChange ''Optical_pad'']) = Some v"
    and c: "children v \<noteq> []" "\<forall>i\<in>set (children v). \<not> vis_of (componentVisibility v) (partFile (obj_at v i))"
    by (auto split: option.splits)
  then show ?thesis using visibility_in_sync [OF run_init_reachable [OF r]] by auto
qed


text \<open>C11. \<open>componentObjects\<close> maps a part file to an object exactly when that object is in
  the group and has that file; the group holds at most one object per file.\<close>

theorem component_objects_consistent:
  assumes "reachable v"
  shows "(\<forall>f i. componentObjects v f = Some i \<longleftrightarrow> i \<in> set (children v) \<and> partFile (obj_at v i) = f) \<and>
         distinct (map (\<lambda>i. partFile (obj_at v i)) (children v)) \<and>
         (\<forall>i\<in>set (children v). i < length (heap v))"
  using reachable_viewer_inv [OF assms] by (simp add: viewer_inv_def inv_store_def child_files_def)

theorem component_objects_consistent_witness:
  "\<exists>v. run init_viewer (load_some 1 [''Optical_pad''] @ [SizeInput 3] @ load_some 2 [''Prints_gear'']) = Some v \<and>
       componentObjects v ''Optical_pad'' = None \<and> (\<exists>i. componentObjects v ''Prints_gear'' = Some i \<and> i \<in> set (children v))"
proof -
  let ?es = "load_some 1 [''Optical_pad''] @ [SizeInput 3] @ load_some 2 [''Prints_gear'']"
  have "case run init_viewer ?es of
          Some v \<Rightarrow> map (\<lambda>i. partFile (obj_at v i)) (children v) = [''Prints_gear''] | None \<Rightarrow> False"
    by code_simp
  then obtain v where r: "run init_viewer ?es = Some v"
    and c: "map (\<lambda>i. partFile (obj_at v i)) (children v) = [''Prints_gear'']" by (auto split: option.splits)
  then obtain j where j: "children v = [j]" "partFile (obj_at v j) = ''Prints_gear''" by auto
  show ?thesis using component_objects_consistent [OF run_init_reachable [OF r]] r j
    by (cases "componentObjects v ''Optical_pad''") auto
qed

text \<open>C9. A side-car file that arrives for an outdated request leaves both readouts alone.\<close>

theorem stale_pad_keeps_readouts:
  assumes "tok \<noteq> loadToken v" "step v (PadDone tok r) = Some v'"
  shows "sizeReadout v' = sizeReadout v \<and> padDimsReadout v' = padDimsReadout v"
proof -
  have "updatePadDimensions tok (loadToken v) r = None" using assms(1) by (cases r) (simp_all add: updatePadDimensions_def)
  then show ?thesis using assms(2)
    by (auto simp: pad_done_def Let_def prefetchAdjacentSizes_def drop_frame_def split: option.splits stage.splits)
qed

theorem stale_pad_keeps_readouts_witness:
  "\<exists>v v'. run init_viewer (butlast stale_pad_trace) = Some v \<and> step v (PadDone 2 PadNotOk) = Some v' \<and>
          sizeReadout v' = sizeReadout v \<and> padDimsReadout v' = padDimsReadout v"
proof -
  have "case run init_viewer (butlast stale_pad_trace) of
          Some v \<Rightarrow> loadToken v = 3 \<and> step v (PadDone 2 PadNotOk) \<noteq> None | None \<Rightarrow> False"
    by code_simp
  then obtain v v' where "run init_viewer (butlast stale_pad_trace) = Some v" "loadToken v = 3"
    "step v (PadDone 2 PadNotOk) = Some v'" by (auto split: option.splits)
  then show ?thesis using stale_pad_keeps_readouts [of 2 v] by auto
qed

text \<open>C8. The rest of \<open>loadSize\<close> after \<open>await updatePadDimensions\<close> has no token check:
  for any activation waiting for its side-car file, outdated or not, the continuation
  runs and sets the fruit overlay for that activation's size (\<open>updateFruitVisibility\<close>
  and \<open>positionFruits\<close>), unlike the readouts (C9). The witness is a run where the
  slider shows 2.0 and the outdated 1.0 request's side-car file arrives last.\<close>

theorem stale_pad_overwrites_fruit_size:
  assumes "tok \<noteq> loadToken v" "find_frame tok v = Some fr" "fstage fr = AwaitPad"
  shows "\<exists>v'. step v (PadDone tok r) = Some v' \<and>
              fruits v' = positionFruits (updateFruitVisibility (fsize fr) (fruits v)) \<and>
              currentGripperSize (fruits v') = fsize fr"
proof -
  have "updatePadDimensions tok (loadToken v) r = None" using assms(1) by (cases r) (simp_all add: updatePadDimensions_def)
  then show ?thesis using assms(2,3)
    by (simp add: pad_done_def Let_def prefetchAdjacentSizes_def drop_frame_def positionFruits_def
        updateFruitVisibility_def updateFruitCheckboxes_def)
qed

theorem stale_pad_overwrites_fruit_size_witness:
  "\<exists>v fr v'. run init_viewer (butlast stale_pad_trace) = Some v \<and> 2 \<noteq> loadToken v \<and> find_frame 2 v = Some fr \<and>
             fstage fr = AwaitPad \<and> SIZES ! sizeSlider v = ''2.0'' \<and>
             step v (PadDone 2 PadNotOk) = Some v' \<and> currentGripperSize (fruits v') = ''1.0''"
proof -
  have "case run init_viewer (butlast stale_pad_trace) of
          Some v \<Rightarrow> loadToken v = 3 \<and> SIZES ! sizeSlider v = ''2.0'' \<and>
                    (case find_frame 2 v of Some fr \<Rightarrow> fstage fr = AwaitPad \<and> fsize fr = ''1.0'' | None \<Rightarrow> False)
        | None \<Rightarrow> False"
    by code_simp
  then obtain v fr where r: "run init_viewer (butlast stale_pad_trace) = Some v" "loadToken v = 3"
    "SIZES ! sizeSlider v = ''2.0''" "find_frame 2 v = Some fr" "fstage fr = AwaitPad" "fsize fr = ''1.0''"
    by (auto split: option.splits)
  then obtain v' where "step v (PadDone 2 PadNotOk) = Some v'" "currentGripperSize (fruits v') = ''1.0''"
    using stale_pad_overwrites_fruit_size [of 2 v fr PadNotOk] by auto
  then show ?thesis using r by auto
qed

text \<open>C13. \<open>loadFruits\<close> hides both models when they arrive and never applies the size
  rule itself: from any reachable state, after the models arrive no fruit is shown under
  any sequence of events without a side-car completion (\<open>PadDone\<close>) or a fruit
  checkbox click, size inputs included. The witness is a run at size 1.0, where the
  rule would show the strawberry.\<close>

theorem fruit_late_arrival_stays_hidden:
  assumes "reachable v" "step v (FruitModelsLoaded s a) = Some w" "run w es = Some v'"
    "\<forall>e\<in>set es. (\<forall>t r. e \<noteq> PadDone t r) \<and> (\<forall>f. e \<noteq> FruitChange f)"
  shows "\<not> shown Strawberry (fruits v') \<and> \<not> shown Apple (fruits v')"
proof -
  have nl: "\<not> fruitsLoaded (fruits v)" and w: "fruits w = loadFruits_done s a (fruits v)"
    using assms(2) by (auto split: if_splits)
  have none: "strawberryObject (fruits v) = None" "appleObject (fruits v) = None"
    using reachable_fruits_unloaded [OF assms(1) nl] by auto
  have "fruitsLoaded (fruits w)" by (simp add: w loadFruits_done_def)
  from run_fruit_objects [OF assms(3) this assms(4)]
  show ?thesis using w none by (simp add: shown_def loadFruits_done_def)
qed

theorem fruit_late_arrival_stays_hidden_witness:
  "\<exists>v w v'. run init_viewer ([SizeInput 0] @ fail_all 2 @ [PartsJoined 2, PadDone 2 PadNotOk]) = Some v \<and>
     step v (FruitModelsLoaded True True) = Some w \<and> run w [OpennessInput 50, SizeInput 0] = Some v' \<and>
     currentGripperSize (fruits v') = ''1.0'' \<and> \<not> shown Strawberry (fruits v') \<and> \<not> shown Apple (fruits v')"
proof -
  let ?es = "[SizeInput 0] @ fail_all 2 @ [PartsJoined 2, PadDone 2 PadNotOk]"
  have "case run init_viewer ?es of
          Some v \<Rightarrow> (case step v (FruitModelsLoaded True True) of
                       Some w \<Rightarrow> (case run w [OpennessInput 50, SizeInput 0] of
                                   Some v' \<Rightarrow> currentGripperSize (fruits v') = ''1.0'' | None \<Rightarrow> False)
                     | None \<Rightarrow> False)
        | None \<Rightarrow> False"
    by code_simp
  then obtain v w v' where r: "run init_viewer ?es = Some v" "step v (FruitModelsLoaded True True) = Some w"
    "run w [OpennessInput 50, SizeInput 0] = Some v'" "currentGripperSize (fruits v') = ''1.0''"
    by (auto split: option.splits)
  have "\<not> shown Strawberry (fruits v') \<and> \<not> shown Apple (fruits v')"
    using fruit_late_arrival_stays_hidden [OF run_init_reachable [OF r(1)] r(2) r(3)] by simp
  then show ?thesis using r by blast
qed

text \<open>C33. After a size loads, the meshes of the sizes just below and just above it (those
  that exist) are requested, in that order, and nothing else.\<close>

theorem prefetch_adjacent:
  assumes "i < length SIZES"
  shows "prefetched (prefetchAdjacentSizes (SIZES ! i) v) =
           prefetched v @ (if 0 < i then prefetchSizeAssets (SIZES ! (i - 1)) else []) @
             (if Suc i < length SIZES then prefetchSizeAssets (SIZES ! Suc i) else [])"
proof -
  have idx: "index_of SIZES (SIZES ! i) = int i" using index_of_distinct_nth [OF SIZES_distinct assms] .
  have ne: "\<forall>s\<in>set SIZES. s \<noteq> []" by (simp add: SIZES_def)
  have "js_get SIZES (int i - 1) = (if 0 < i then Some (SIZES ! (i - 1)) else None)"
    using assms by (auto simp: js_get_def nat_diff_distrib)
  moreover have "js_get SIZES (int i + 1) = (if Suc i < length SIZES then Some (SIZES ! Suc i) else None)"
    by (auto simp: js_get_def nat_add_distrib)
  moreover have "0 < i \<Longrightarrow> SIZES ! (i - 1) \<noteq> []" "Suc i < length SIZES \<Longrightarrow> SIZES ! Suc i \<noteq> []"
    using ne assms by simp_all
  ultimately show ?thesis using idx by (simp add: prefetchAdjacentSizes_def Let_def js_truthy_str_def)
qed

theorem prefetch_adjacent_witness:
  "prefetched (prefetchAdjacentSizes ''1.0'' viewer_globals) = prefetchSizeAssets ''1.1''"
  using prefetch_adjacent [of 0 viewer_globals] by (simp add: SIZES_def viewer_globals_def)

end
